theory Spec2Isabelle
  imports Complex_Main "HOL-Library.Sublist"
begin

section \<open>Data model\<close>

text \<open>
  The program (\<^verbatim>\<open>main.py\<close>) is sequential glue code over the Google Fit REST API.
  Everything it does beyond returning a value is made explicit here: each
  \<^verbatim>\<open>.execute()\<close> of a request and each \<^verbatim>\<open>print\<close> appends an event to a
  trace, the remote service is a state machine that answers every request with a reply
  or with an \<^verbatim>\<open>HttpError\<close>, and the token file is a field of the state.
\<close>

subsection \<open>JSON request bodies\<close>

text \<open>Python dict literals keep their insertion order: an object is an association list.\<close>

datatype json =
    JStr string
  | JInt int
  | JNum rat
  | JArr "json list"
  | JObj "(string \<times> json) list"

subsection \<open>Requests, replies and errors\<close>

text \<open>
  One constructor per request the program builds; the arguments are the keyword
  arguments of the source, in the order written there (\<open>userId\<close> first).
\<close>

datatype api_call =
    DataSources_get string string
  | DataSources_create string json
  | DataSources_list string
  | Datasets_patch string string string json
  | Datasets_delete string string string
  | Sessions_update string string json
  | Sessions_list string string string
  | Sessions_delete string string
  | Dataset_aggregate string json

text \<open>\<^verbatim>\<open>HttpError\<close>, of which the program reads \<^verbatim>\<open>error.resp.status\<close> only.\<close>

datatype http_error = HttpError (resp_status: nat)

text \<open>
  A reply is the dict returned by \<^verbatim>\<open>.execute()\<close>. The program looks at three keys:
  \<^verbatim>\<open>result.get('dataStreamId')\<close>, \<^verbatim>\<open>sessions['session']\<close> (of whose entries it
  reads \<^verbatim>\<open>['id']\<close>: \<open>session_ids\<close> is the list of these) and
  \<^verbatim>\<open>data_sources_result['dataSource']\<close> (of whose entries it reads
  \<^verbatim>\<open>['dataStreamId']\<close>: \<open>dataSource_ids\<close> is the list of these). \<open>None\<close> is an
  absent key.
\<close>

record reply =
  dataStreamId :: "string option"
  session_ids :: "string list option"
  dataSource_ids :: "string list option"

definition empty_reply :: reply where
  "empty_reply = \<lparr>dataStreamId = None, session_ids = None, dataSource_ids = None\<rparr>"

text \<open>
  The service object built by \<^verbatim>\<open>build('fitness', 'v1', credentials=...)\<close>: executing
  a request in a state of the remote side gives a reply or raises \<^verbatim>\<open>HttpError\<close>, and
  leaves the remote side in a new state.
\<close>

type_synonym 's service = "api_call \<Rightarrow> 's \<Rightarrow> (http_error + reply) \<times> 's"

subsection \<open>Standard output\<close>

text \<open>
  One constructor per \<^verbatim>\<open>print\<close> statement of the functions modelled, carrying the
  values the f-string interpolates.
\<close>

datatype message =
    Data_source_already_exists string
  | Creating_data_source string
  | Data_source_created "string option"
  | Error_creating_data_source http_error
  | Error_checking_data_source http_error
  | Failed_to_create_activity_data_source
  | Data_points_inserted_successfully
  | An_error_occurred http_error
  | Data_aggregation_requested_successfully
  | Error_requesting_data_aggregation http_error
  | Session_created_successfully
  | Error_creating_session http_error
  | Cleaning_up_activities string string
  | Deleted_session string
  | Error_deleting_session string http_error
  | No_sessions_found_for_today
  | Error_listing_sessions http_error
  | Deleted_dataset_for string
  | Error_deleting_dataset_for string http_error
  | No_data_sources_found
  | Error_listing_data_sources http_error
  | Cleanup_completed

subsection \<open>Credentials\<close>

text \<open>
  Of a \<^verbatim>\<open>google.oauth2.credentials.Credentials\<close> object the program reads
  \<^verbatim>\<open>valid\<close>, \<^verbatim>\<open>expired\<close> and \<^verbatim>\<open>refresh_token\<close>. In the library \<^verbatim>\<open>valid\<close> is the
  property \<^verbatim>\<open>self.token is not None and not self.expired\<close>.
\<close>

record credentials =
  token :: "string option"
  refresh_token :: "string option"
  expired :: bool

definition valid :: "credentials \<Rightarrow> bool" where
  "valid creds = (token creds \<noteq> None \<and> \<not> expired creds)"

subsection \<open>The observable trace and the state\<close>

datatype event =
    Called api_call "http_error + reply"
  | Printed message
  | Refresh_called credentials
  | Flow_run

record 's world =
  remote :: 's
  token_file :: "string option"
  trace :: "event list"

text \<open>
  What the program takes from its libraries and its surroundings, as parameters:
  the authentication library, the service constructor, and \<^verbatim>\<open>datetime\<close>.
  \<open>timestamp d\<close> is the value of the float that \<^verbatim>\<open>d.timestamp()\<close> returns, and
  \<open>float_mul x y\<close> the value of the float product \<^verbatim>\<open>x * y\<close> of the interpreter.
\<close>

record ('dt, 's) env =
  from_authorized_user_info :: "string \<Rightarrow> credentials"
  to_json :: "credentials \<Rightarrow> string"
  refresh :: "credentials \<Rightarrow> credentials"
  run_local_server :: credentials
  build :: "credentials \<Rightarrow> 's service"
  now :: 'dt
  replace_midnight :: "'dt \<Rightarrow> 'dt"
  plus_one_day :: "'dt \<Rightarrow> 'dt"
  isoformat :: "'dt \<Rightarrow> string"
  str_datetime :: "'dt \<Rightarrow> string"
  timestamp :: "'dt \<Rightarrow> real"
  float_mul :: "real \<Rightarrow> real \<Rightarrow> real"

section \<open>Python primitives\<close>

text \<open>\<^verbatim>\<open>str(n)\<close> of an integer, as interpolated by an f-string.\<close>

fun str_nat :: "nat \<Rightarrow> string" where
  "str_nat n =
     (if n < 10 then [''0123456789'' ! n]
      else str_nat (n div 10) @ [''0123456789'' ! (n mod 10)])"

declare str_nat.simps [simp del]

definition str_int :: "int \<Rightarrow> string" where
  "str_int i = (if i < 0 then CHR ''-'' # str_nat (nat (- i)) else str_nat (nat i))"

text \<open>\<^verbatim>\<open>int(x)\<close> of a float: the integer part, rounded towards zero.\<close>

definition py_int :: "real \<Rightarrow> int" where
  "py_int x = (if 0 \<le> x then \<lfloor>x\<rfloor> else \<lceil>x\<rceil>)"


text \<open>\<^verbatim>\<open>sub in s\<close> on strings: \<open>sub\<close> occurs in \<open>s\<close> as a contiguous substring.\<close>

fun str_in :: "string \<Rightarrow> string \<Rightarrow> bool" where
  "str_in sub [] = (sub = [])"
| "str_in sub (c # s) = (prefix sub (c # s) \<or> str_in sub s)"

text \<open>Truthiness of the optional arguments and of an identifier that may be \<^verbatim>\<open>None\<close>.\<close>

fun truthy_num :: "rat option \<Rightarrow> bool" where
  "truthy_num None = False"
| "truthy_num (Some x) = (x \<noteq> 0)"

fun truthy_int :: "int option \<Rightarrow> bool" where
  "truthy_int None = False"
| "truthy_int (Some n) = (n \<noteq> 0)"

fun truthy_str :: "string option \<Rightarrow> bool" where
  "truthy_str None = False"
| "truthy_str (Some s) = (s \<noteq> [])"

section \<open>Effects\<close>

definition print :: "message \<Rightarrow> 's world \<Rightarrow> 's world" where
  "print m w = w\<lparr>trace := trace w @ [Printed m]\<rparr>"

definition execute :: "'s service \<Rightarrow> api_call \<Rightarrow> 's world \<Rightarrow> (http_error + reply) \<times> 's world" where
  "execute fitness_service c w =
     (let (r, s') = fitness_service c (remote w)
      in (r, w\<lparr>remote := s', trace := trace w @ [Called c r]\<rparr>))"

section \<open>The program\<close>

definition PROJECT_NUMBER :: string where
  "PROJECT_NUMBER = ''394921715331''"

subsection \<open>The conversions of a timestamp\<close>

text \<open>
  \<^verbatim>\<open>int(d.timestamp() * 1000000000)\<close> and \<^verbatim>\<open>int(d.timestamp() * 1000)\<close>, as
  \<open>log_activity\<close>, \<open>clean_up_todays_activities\<close>, \<open>log_session\<close> and
  \<open>request_data_aggregation\<close> compute them.
\<close>

definition timestamp_ns :: "('dt, 's) env \<Rightarrow> 'dt \<Rightarrow> int" where
  "timestamp_ns env d = py_int (float_mul env (timestamp env d) 1000000000)"

definition timestamp_ms :: "('dt, 's) env \<Rightarrow> 'dt \<Rightarrow> int" where
  "timestamp_ms env d = py_int (float_mul env (timestamp env d) 1000)"

subsection \<open>\<^verbatim>\<open>get_credentials\<close>\<close>

definition get_credentials :: "('dt, 's) env \<Rightarrow> 's world \<Rightarrow> credentials \<times> 's world" where
  "get_credentials env w =
     (let creds = (case token_file w of
                     None \<Rightarrow> None
                   | Some text \<Rightarrow> Some (from_authorized_user_info env text))
      in if creds = None \<or> \<not> valid (the creds) then
           (let (creds', w1) =
                  (if creds \<noteq> None \<and> expired (the creds) \<and> truthy_str (refresh_token (the creds))
                   then (refresh env (the creds),
                         w\<lparr>trace := trace w @ [Refresh_called (the creds)]\<rparr>)
                   else (run_local_server env, w\<lparr>trace := trace w @ [Flow_run]\<rparr>))
            in (creds', w1\<lparr>token_file := Some (to_json env creds')\<rparr>))
         else (the creds, w))"

subsection \<open>\<^verbatim>\<open>get_data_source_id\<close>\<close>

definition get_data_source_id :: "string \<Rightarrow> string" where
  "get_data_source_id data_type_name =
     ''derived:'' @ data_type_name @ '':'' @ PROJECT_NUMBER
       @ '':microcloud:gfit-b100:1000001:'' @ data_type_name"

subsection \<open>\<^verbatim>\<open>create_data_source\<close>\<close>

definition data_type_field :: "string \<Rightarrow> json list" where
  "data_type_field data_type_name =
     (if data_type_name = ''com.google.activity.segment'' then
        [JObj [(''name'', JStr ''activity''), (''format'', JStr ''integer'')]]
      else if data_type_name = ''com.google.calories.expended'' then
        [JObj [(''name'', JStr ''calories''), (''format'', JStr ''floatPoint'')]]
      else if data_type_name = ''com.google.step_count.delta'' then
        [JObj [(''name'', JStr ''steps''), (''format'', JStr ''integer'')]]
      else [])"

definition data_source_body :: "string \<Rightarrow> string \<Rightarrow> string \<Rightarrow> json" where
  "data_source_body data_source_id data_type_name application_name =
     JObj [
       (''dataStreamId'', JStr data_source_id),
       (''dataStreamName'', JStr data_type_name),
       (''type'', JStr ''derived''),
       (''application'', JObj [(''name'', JStr application_name), (''version'', JStr ''1.0'')]),
       (''dataType'', JObj [(''name'', JStr data_type_name),
                            (''field'', JArr (data_type_field data_type_name))]),
       (''device'', JObj [(''uid'', JStr ''1000001''), (''type'', JStr ''unknown''),
                          (''version'', JStr ''1.0''), (''model'', JStr ''gfit-b100''),
                          (''manufacturer'', JStr ''microcloud'')])]"

definition create_data_source ::
    "'s service \<Rightarrow> string \<Rightarrow> string \<Rightarrow> 's world \<Rightarrow> string option \<times> 's world" where
  "create_data_source fitness_service data_type_name application_name w =
     (let data_source_id = get_data_source_id data_type_name
      in case execute fitness_service (DataSources_get ''me'' data_source_id) w of
           (Inr _, w1) \<Rightarrow>
             (Some data_source_id, print (Data_source_already_exists data_source_id) w1)
         | (Inl error, w1) \<Rightarrow>
             if resp_status error = 404 then
               (let data_source = data_source_body data_source_id data_type_name application_name;
                    w2 = print (Creating_data_source data_source_id) w1
                in case execute fitness_service (DataSources_create ''me'' data_source) w2 of
                     (Inr result, w3) \<Rightarrow>
                       (Some data_source_id, print (Data_source_created (dataStreamId result)) w3)
                   | (Inl create_error, w3) \<Rightarrow>
                       (None, print (Error_creating_data_source create_error) w3))
             else (None, print (Error_checking_data_source error) w1))"

subsection \<open>\<^verbatim>\<open>log_session\<close>\<close>

definition session_body :: "int \<Rightarrow> int \<Rightarrow> int \<Rightarrow> json" where
  "session_body activity_type start_time_ms end_time_ms =
     JObj [
       (''id'', JStr (''session-'' @ str_int start_time_ms)),
       (''name'', JStr ''GFit B100 Session''),
       (''description'', JStr ''Activity recorded via GFit B100''),
       (''startTimeMillis'', JInt start_time_ms),
       (''endTimeMillis'', JInt end_time_ms),
       (''application'', JObj [(''name'', JStr ''GFit B100'')]),
       (''activityType'', JInt activity_type)]"

definition log_session ::
    "('dt, 's) env \<Rightarrow> 's service \<Rightarrow> int \<Rightarrow> 'dt \<Rightarrow> 'dt \<Rightarrow> 's world \<Rightarrow> bool \<times> 's world" where
  "log_session env fitness_service activity_type start_time end_time w =
     (let start_time_ms = timestamp_ms env start_time;
          end_time_ms = timestamp_ms env end_time;
          body = session_body activity_type start_time_ms end_time_ms
      in case execute fitness_service
                (Sessions_update ''me'' (''session-'' @ str_int start_time_ms) body) w of
           (Inr _, w1) \<Rightarrow> (True, print Session_created_successfully w1)
         | (Inl error, w1) \<Rightarrow> (False, print (Error_creating_session error) w1))"

subsection \<open>\<^verbatim>\<open>request_data_aggregation\<close>\<close>

definition aggregation_request :: "int \<Rightarrow> int \<Rightarrow> json" where
  "aggregation_request start_time_ms end_time_ms =
     JObj [
       (''aggregateBy'', JArr [JObj [(''dataTypeName'', JStr ''com.google.step_count.delta'')]]),
       (''bucketByTime'', JObj [(''durationMillis'', JInt 86400000)]),
       (''startTimeMillis'', JInt start_time_ms),
       (''endTimeMillis'', JInt end_time_ms)]"

definition request_data_aggregation ::
    "('dt, 's) env \<Rightarrow> 's service \<Rightarrow> 'dt \<Rightarrow> 'dt \<Rightarrow> 's world \<Rightarrow> bool \<times> 's world" where
  "request_data_aggregation env fitness_service start_time end_time w =
     (let start_time_ms = timestamp_ms env start_time;
          end_time_ms = timestamp_ms env end_time
      in case execute fitness_service
                (Dataset_aggregate ''me'' (aggregation_request start_time_ms end_time_ms)) w of
           (Inr _, w1) \<Rightarrow> (True, print Data_aggregation_requested_successfully w1)
         | (Inl error, w1) \<Rightarrow> (False, print (Error_requesting_data_aggregation error) w1))"

subsection \<open>\<^verbatim>\<open>log_activity\<close>\<close>

definition activity_segment :: "string \<Rightarrow> int \<Rightarrow> int \<Rightarrow> int \<Rightarrow> json" where
  "activity_segment activity_source_id start_time_ns end_time_ns activity_type =
     JObj [
       (''dataSourceId'', JStr activity_source_id),
       (''minStartTimeNs'', JInt start_time_ns),
       (''maxEndTimeNs'', JInt end_time_ns),
       (''point'', JArr [JObj [
          (''startTimeNanos'', JInt start_time_ns),
          (''endTimeNanos'', JInt end_time_ns),
          (''dataTypeName'', JStr ''com.google.activity.segment''),
          (''value'', JArr [JObj [(''intVal'', JInt activity_type)]])]])]"

definition calories_data :: "string \<Rightarrow> int \<Rightarrow> int \<Rightarrow> rat \<Rightarrow> json" where
  "calories_data calories_source_id start_time_ns end_time_ns calories =
     JObj [
       (''dataSourceId'', JStr calories_source_id),
       (''minStartTimeNs'', JInt start_time_ns),
       (''maxEndTimeNs'', JInt end_time_ns),
       (''point'', JArr [JObj [
          (''startTimeNanos'', JInt start_time_ns),
          (''endTimeNanos'', JInt end_time_ns),
          (''dataTypeName'', JStr ''com.google.calories.expended''),
          (''value'', JArr [JObj [(''fpVal'', JNum calories)]])]])]"

definition steps_data :: "string \<Rightarrow> int \<Rightarrow> int \<Rightarrow> int \<Rightarrow> json" where
  "steps_data steps_source_id start_time_ns end_time_ns steps =
     JObj [
       (''dataSourceId'', JStr steps_source_id),
       (''minStartTimeNs'', JInt start_time_ns),
       (''maxEndTimeNs'', JInt end_time_ns),
       (''point'', JArr [JObj [
          (''startTimeNanos'', JInt start_time_ns),
          (''endTimeNanos'', JInt end_time_ns),
          (''dataTypeName'', JStr ''com.google.step_count.delta''),
          (''value'', JArr [JObj [(''intVal'', JInt steps)]])]])]"

text \<open>
  The body of the \<^verbatim>\<open>try\<close> block of \<^verbatim>\<open>log_activity\<close>. \<open>Inl error\<close> is an
  \<^verbatim>\<open>HttpError\<close> raised by one of the three \<^verbatim>\<open>patch\<close> requests, which leaves the
  block at once; \<^verbatim>\<open>log_session\<close> and \<^verbatim>\<open>request_data_aggregation\<close> catch their own
  errors and their return values are dropped.
\<close>

definition log_activity_try ::
    "('dt, 's) env \<Rightarrow> 's service \<Rightarrow> int \<Rightarrow> 'dt \<Rightarrow> 'dt \<Rightarrow> rat option \<Rightarrow> int option \<Rightarrow>
     string \<Rightarrow> string option \<Rightarrow> string option \<Rightarrow> 's world \<Rightarrow> (http_error + bool) \<times> 's world" where
  "log_activity_try env fitness_service activity_type start_time end_time calories steps
       activity_source_id calories_source_id steps_source_id w =
     (let start_time_ns = timestamp_ns env start_time;
          end_time_ns = timestamp_ns env end_time;
          dataset_id = str_int start_time_ns @ ''-'' @ str_int end_time_ns
      in
      case execute fitness_service
             (Datasets_patch ''me'' activity_source_id dataset_id
                (activity_segment activity_source_id start_time_ns end_time_ns activity_type)) w of
        (Inl error, w1) \<Rightarrow> (Inl error, w1)
      | (Inr _, w1) \<Rightarrow>
      (case (if truthy_num calories \<and> truthy_str calories_source_id then
               execute fitness_service
                 (Datasets_patch ''me'' (the calories_source_id) dataset_id
                    (calories_data (the calories_source_id) start_time_ns end_time_ns
                       (the calories))) w1
             else (Inr empty_reply, w1)) of
        (Inl error, w2) \<Rightarrow> (Inl error, w2)
      | (Inr _, w2) \<Rightarrow>
      (case (if truthy_int steps \<and> truthy_str steps_source_id then
               execute fitness_service
                 (Datasets_patch ''me'' (the steps_source_id) dataset_id
                    (steps_data (the steps_source_id) start_time_ns end_time_ns
                       (the steps))) w2
             else (Inr empty_reply, w2)) of
        (Inl error, w3) \<Rightarrow> (Inl error, w3)
      | (Inr _, w3) \<Rightarrow>
      (let w4 = snd (log_session env fitness_service activity_type start_time end_time w3);
           w5 = (if truthy_int steps
                 then snd (request_data_aggregation env fitness_service start_time end_time w4)
                 else w4)
       in (Inr True, print Data_points_inserted_successfully w5)))))"

definition log_activity ::
    "('dt, 's) env \<Rightarrow> int \<Rightarrow> 'dt \<Rightarrow> 'dt \<Rightarrow> rat option \<Rightarrow> int option \<Rightarrow> 's world \<Rightarrow>
     bool \<times> 's world" where
  "log_activity env activity_type start_time end_time calories steps w =
     (let (credentials, w0) = get_credentials env w;
          fitness_service = build env credentials;
          (activity_source_id, w1) =
             create_data_source fitness_service ''com.google.activity.segment'' ''GFit B100'' w0;
          (calories_source_id, w2) =
             (if truthy_num calories
              then create_data_source fitness_service ''com.google.calories.expended''
                     ''GFit B100'' w1
              else (None, w1));
          (steps_source_id, w3) =
             (if truthy_int steps
              then create_data_source fitness_service ''com.google.step_count.delta''
                     ''GFit B100'' w2
              else (None, w2))
      in if \<not> truthy_str activity_source_id then
           (False, print Failed_to_create_activity_data_source w3)
         else
           (case log_activity_try env fitness_service activity_type start_time end_time
                   calories steps (the activity_source_id) calories_source_id steps_source_id w3 of
              (Inr result, w4) \<Rightarrow> (result, w4)
            | (Inl error, w4) \<Rightarrow> (False, print (An_error_occurred error) w4)))"

subsection \<open>\<^verbatim>\<open>clean_up_todays_activities\<close>\<close>

text \<open>The two \<^verbatim>\<open>for\<close> loops, each with its inner \<^verbatim>\<open>try\<close>.\<close>

fun delete_sessions :: "'s service \<Rightarrow> string list \<Rightarrow> 's world \<Rightarrow> 's world" where
  "delete_sessions fitness_service [] w = w"
| "delete_sessions fitness_service (session_id # rest) w =
     delete_sessions fitness_service rest
       (case execute fitness_service (Sessions_delete ''me'' session_id) w of
          (Inr _, w1) \<Rightarrow> print (Deleted_session session_id) w1
        | (Inl error, w1) \<Rightarrow> print (Error_deleting_session session_id error) w1)"

fun delete_datasets :: "'s service \<Rightarrow> int \<Rightarrow> int \<Rightarrow> string list \<Rightarrow> 's world \<Rightarrow> 's world" where
  "delete_datasets fitness_service start_time_ns end_time_ns [] w = w"
| "delete_datasets fitness_service start_time_ns end_time_ns (data_source_id # rest) w =
     delete_datasets fitness_service start_time_ns end_time_ns rest
       (if str_in PROJECT_NUMBER data_source_id \<and> str_in ''microcloud'' data_source_id then
          (let dataset_id = str_int start_time_ns @ ''-'' @ str_int end_time_ns
           in case execute fitness_service
                     (Datasets_delete ''me'' data_source_id dataset_id) w of
                (Inr _, w1) \<Rightarrow> print (Deleted_dataset_for data_source_id) w1
              | (Inl error, w1) \<Rightarrow>
                  if resp_status error \<noteq> 404
                  then print (Error_deleting_dataset_for data_source_id error) w1
                  else w1)
        else w)"

definition clean_up_todays_activities :: "('dt, 's) env \<Rightarrow> 's world \<Rightarrow> bool \<times> 's world" where
  "clean_up_todays_activities env w =
     (let (credentials, w0) = get_credentials env w;
          fitness_service = build env credentials;
          today = replace_midnight env (now env);
          tomorrow = plus_one_day env today;
          start_time_ns = timestamp_ns env today;
          end_time_ns = timestamp_ns env tomorrow;
          start_time_rfc3339 = isoformat env today @ ''Z'';
          end_time_rfc3339 = isoformat env tomorrow @ ''Z'';
          w1 = print (Cleaning_up_activities (str_datetime env today) (str_datetime env tomorrow)) w0;
          w2 = (case execute fitness_service
                       (Sessions_list ''me'' start_time_rfc3339 end_time_rfc3339) w1 of
                  (Inr sessions, wa) \<Rightarrow>
                    (case session_ids sessions of
                       Some ids \<Rightarrow> delete_sessions fitness_service ids wa
                     | None \<Rightarrow> print No_sessions_found_for_today wa)
                | (Inl error, wa) \<Rightarrow> print (Error_listing_sessions error) wa);
          w3 = (case execute fitness_service (DataSources_list ''me'') w2 of
                  (Inr data_sources_result, wb) \<Rightarrow>
                    (case dataSource_ids data_sources_result of
                       Some ids \<Rightarrow> delete_datasets fitness_service start_time_ns end_time_ns ids wb
                     | None \<Rightarrow> print No_data_sources_found wb)
                | (Inl error, wb) \<Rightarrow> print (Error_listing_data_sources error) wb);
          w4 = print Cleanup_completed w3
      in (True, w4))"

section \<open>Observations on traces\<close>

text \<open>The events a call appended to the trace: those of \<open>w'\<close> after those of \<open>w\<close>.\<close>

definition new_events :: "'s world \<Rightarrow> 's world \<Rightarrow> event list" where
  "new_events w w' = drop (length (trace w)) (trace w')"

fun call_of :: "event \<Rightarrow> api_call list" where
  "call_of (Called c r) = [c]"
| "call_of _ = []"

definition calls_of :: "event list \<Rightarrow> api_call list" where
  "calls_of evs = concat (map call_of evs)"

fun print_of :: "event \<Rightarrow> message list" where
  "print_of (Printed m) = [m]"
| "print_of _ = []"

definition prints_of :: "event list \<Rightarrow> message list" where
  "prints_of evs = concat (map print_of evs)"

text \<open>The identifiers a successful listing returned.\<close>

fun listed_sessions_of :: "event \<Rightarrow> string list" where
  "listed_sessions_of (Called (Sessions_list u a b) (Inr rep)) =
     (case session_ids rep of Some ids \<Rightarrow> ids | None \<Rightarrow> [])"
| "listed_sessions_of _ = []"

definition listed_sessions :: "event list \<Rightarrow> string list" where
  "listed_sessions evs = concat (map listed_sessions_of evs)"

fun listed_data_sources_of :: "event \<Rightarrow> string list" where
  "listed_data_sources_of (Called (DataSources_list u) (Inr rep)) =
     (case dataSource_ids rep of Some ids \<Rightarrow> ids | None \<Rightarrow> [])"
| "listed_data_sources_of _ = []"

definition listed_data_sources :: "event list \<Rightarrow> string list" where
  "listed_data_sources evs = concat (map listed_data_sources_of evs)"

text \<open>Kinds of request.\<close>

fun is_dataset_delete :: "api_call \<Rightarrow> bool" where
  "is_dataset_delete (Datasets_delete u i d) = True"
| "is_dataset_delete _ = False"

fun is_session_delete :: "api_call \<Rightarrow> bool" where
  "is_session_delete (Sessions_delete u i) = True"
| "is_session_delete _ = False"

fun is_patch :: "api_call \<Rightarrow> bool" where
  "is_patch (Datasets_patch u i d b) = True"
| "is_patch _ = False"

fun is_aggregate :: "api_call \<Rightarrow> bool" where
  "is_aggregate (Dataset_aggregate u b) = True"
| "is_aggregate _ = False"

fun is_session_update :: "api_call \<Rightarrow> bool" where
  "is_session_update (Sessions_update u i b) = True"
| "is_session_update _ = False"

fun is_provisioning :: "api_call \<Rightarrow> bool" where
  "is_provisioning (DataSources_get u i) = True"
| "is_provisioning (DataSources_create u b) = True"
| "is_provisioning _ = False"

text \<open>The JSON value under a key of an object.\<close>

fun json_get :: "json \<Rightarrow> string \<Rightarrow> json option" where
  "json_get (JObj kvs) k = map_of kvs k"
| "json_get _ k = None"

text \<open>
  The data source a request addresses, if it addresses one: by its \<open>dataSourceId\<close>
  argument, or, for a creation, by the \<open>dataStreamId\<close> of its body.
\<close>

fun data_source_of :: "api_call \<Rightarrow> string option" where
  "data_source_of (DataSources_get u i) = Some i"
| "data_source_of (DataSources_create u b) =
     (case json_get b ''dataStreamId'' of Some (JStr i) \<Rightarrow> Some i | _ \<Rightarrow> None)"
| "data_source_of (Datasets_patch u i d b) = Some i"
| "data_source_of (Datasets_delete u i d) = Some i"
| "data_source_of _ = None"

text \<open>The error a printed line reports, if it reports one.\<close>

fun error_of :: "message \<Rightarrow> http_error option" where
  "error_of (Error_creating_data_source e) = Some e"
| "error_of (Error_checking_data_source e) = Some e"
| "error_of (An_error_occurred e) = Some e"
| "error_of (Error_requesting_data_aggregation e) = Some e"
| "error_of (Error_creating_session e) = Some e"
| "error_of (Error_deleting_session i e) = Some e"
| "error_of (Error_listing_sessions e) = Some e"
| "error_of (Error_deleting_dataset_for i e) = Some e"
| "error_of (Error_listing_data_sources e) = Some e"
| "error_of _ = None"

text \<open>
  The two failures the program handles without printing them: a 404 of the existence
  check of a data source (the data source is then created) and a 404 of the deletion of
  a dataset (ignored).
\<close>

fun unreported :: "api_call \<Rightarrow> http_error \<Rightarrow> bool" where
  "unreported (DataSources_get u i) e = (resp_status e = 404)"
| "unreported (Datasets_delete u i d) e = (resp_status e = 404)"
| "unreported _ e = False"

text \<open>
  Every failed request of the trace, the two above apart, is followed at once by a
  printed line that reports its error.
\<close>

fun next_reports :: "http_error \<Rightarrow> event list \<Rightarrow> bool" where
  "next_reports e (Printed m # rest) = (error_of m = Some e)"
| "next_reports e _ = False"

fun all_reported :: "event list \<Rightarrow> bool" where
  "all_reported [] = True"
| "all_reported (Called c (Inl e) # rest) =
     ((unreported c e \<or> next_reports e rest) \<and> all_reported rest)"
| "all_reported (_ # rest) = all_reported rest"

text \<open>The requests of a trace that failed, and the dataset patches among them.\<close>

fun failed_call_of :: "event \<Rightarrow> api_call list" where
  "failed_call_of (Called c (Inl e)) = [c]"
| "failed_call_of _ = []"

definition failed_calls :: "event list \<Rightarrow> api_call list" where
  "failed_calls evs = concat (map failed_call_of evs)"

definition failed_patches :: "event list \<Rightarrow> api_call list" where
  "failed_patches evs = filter is_patch (failed_calls evs)"

text \<open>
  The data sources whose provisioning failed: those addressed by an existence check that
  failed with a status other than 404, or by a creation request that failed.
\<close>

fun failed_provisioning_of :: "event \<Rightarrow> string list" where
  "failed_provisioning_of (Called c (Inl e)) =
     (if is_provisioning c \<and> \<not> unreported c e
      then (case data_source_of c of Some i \<Rightarrow> [i] | None \<Rightarrow> [])
      else [])"
| "failed_provisioning_of _ = []"

definition failed_provisionings :: "event list \<Rightarrow> string list" where
  "failed_provisionings evs = concat (map failed_provisioning_of evs)"

text \<open>The requests of a trace, each with its outcome.\<close>

fun outcome_of :: "event \<Rightarrow> (api_call \<times> (http_error + reply)) list" where
  "outcome_of (Called c r) = [(c, r)]"
| "outcome_of _ = []"

definition outcomes :: "event list \<Rightarrow> (api_call \<times> (http_error + reply)) list" where
  "outcomes evs = concat (map outcome_of evs)"

text \<open>The requests and the printed lines of a trace.\<close>

fun is_output :: "event \<Rightarrow> bool" where
  "is_output (Called c r) = True"
| "is_output (Printed m) = True"
| "is_output _ = False"

text \<open>
  The lines the cleanup is expected to print after a request, given its outcome: one
  line for a deletion that succeeded, one for a deletion that failed unless it is the
  deletion of a dataset that failed with 404, one for a listing that failed, and one for
  a listing that has no entry to iterate over. \<open>cleanup_trace\<close> is the trace expected
  of a sequence of requests with their outcomes: each request, followed by its lines.
\<close>

fun cleanup_lines :: "api_call \<Rightarrow> (http_error + reply) \<Rightarrow> message list" where
  "cleanup_lines (Sessions_list u a b) (Inr rep) =
     (case session_ids rep of None \<Rightarrow> [No_sessions_found_for_today] | Some ids \<Rightarrow> [])"
| "cleanup_lines (Sessions_list u a b) (Inl e) = [Error_listing_sessions e]"
| "cleanup_lines (Sessions_delete u i) (Inr rep) = [Deleted_session i]"
| "cleanup_lines (Sessions_delete u i) (Inl e) = [Error_deleting_session i e]"
| "cleanup_lines (DataSources_list u) (Inr rep) =
     (case dataSource_ids rep of None \<Rightarrow> [No_data_sources_found] | Some ids \<Rightarrow> [])"
| "cleanup_lines (DataSources_list u) (Inl e) = [Error_listing_data_sources e]"
| "cleanup_lines (Datasets_delete u i d) (Inr rep) = [Deleted_dataset_for i]"
| "cleanup_lines (Datasets_delete u i d) (Inl e) =
     (if resp_status e = 404 then [] else [Error_deleting_dataset_for i e])"
| "cleanup_lines _ _ = []"

definition cleanup_events :: "api_call \<times> (http_error + reply) \<Rightarrow> event list" where
  "cleanup_events cr = Called (fst cr) (snd cr) # map Printed (cleanup_lines (fst cr) (snd cr))"

definition cleanup_trace :: "(api_call \<times> (http_error + reply)) list \<Rightarrow> event list" where
  "cleanup_trace os = concat (map cleanup_events os)"

section \<open>Concrete surroundings\<close>

text \<open>
  A remote side without state whose replies carry the given listings and that fails,
  with the given status, the requests \<open>fails\<close> selects; and surroundings around it in
  which a datetime is a whole number of seconds. The products of such timestamps with
  \<open>1000\<close> and \<open>1000000000\<close> are integers below \<open>2\<^sup>5\<^sup>3\<close>, which binary64 represents
  exactly, so that \<open>float_mul\<close> is the exact product.
\<close>

definition demo_service ::
    "string list option \<Rightarrow> string list option \<Rightarrow> (api_call \<Rightarrow> nat option) \<Rightarrow> unit service" where
  "demo_service sess srcs fails c s =
     (case fails c of
        Some code \<Rightarrow> (Inl (HttpError code), s)
      | None \<Rightarrow> (Inr \<lparr>dataStreamId = None, session_ids = sess, dataSource_ids = srcs\<rparr>, s))"

definition demo_env :: "unit service \<Rightarrow> (nat, unit) env" where
  "demo_env svc =
     \<lparr>from_authorized_user_info =
        (\<lambda>text. \<lparr>token = Some text, refresh_token = Some ''r'', expired = (text = ''stale'')\<rparr>),
      to_json = (\<lambda>c. case token c of Some t \<Rightarrow> t | None \<Rightarrow> []),
      refresh = (\<lambda>c. c\<lparr>token := Some ''fresh'', expired := False\<rparr>),
      run_local_server = \<lparr>token = Some ''new'', refresh_token = Some ''r'', expired = False\<rparr>,
      build = (\<lambda>_. svc),
      now = 100000,
      replace_midnight = (\<lambda>d. d - d mod 86400),
      plus_one_day = (\<lambda>d. d + 86400),
      isoformat = str_nat,
      str_datetime = str_nat,
      timestamp = real,
      float_mul = (\<lambda>x y. x * y)\<rparr>"

definition demo_world :: "string option \<Rightarrow> unit world" where
  "demo_world file = \<lparr>remote = (), token_file = file, trace = []\<rparr>"


section \<open>Properties\<close>

text \<open>
  C1. For every data-type name \<open>n\<close>, \<open>get_data_source_id n\<close> is exactly the string
  \<open>derived:\<close> + \<open>n\<close> + \<open>:394921715331:microcloud:gfit-b100:1000001:\<close> + \<open>n\<close>. The
  function is a pure function of its argument, so two calls with the same name give
  the same identifier.
\<close>

theorem get_data_source_id_format:
  "get_data_source_id n = ''derived:'' @ n @ '':394921715331:microcloud:gfit-b100:1000001:'' @ n"
  by (simp add: get_data_source_id_def PROJECT_NUMBER_def)

subsection \<open>Basic facts about the effects\<close>

lemma trace_print [simp]: "trace (print m w) = trace w @ [Printed m]"
  and remote_print [simp]: "remote (print m w) = remote w"
  and token_file_print [simp]: "token_file (print m w) = token_file w"
  by (simp_all add: print_def)

lemma execute_eq:
  "execute svc c w = (fst (svc c (remote w)),
     w\<lparr>remote := snd (svc c (remote w)), trace := trace w @ [Called c (fst (svc c (remote w)))]\<rparr>)"
  by (simp add: execute_def split_beta)

lemma new_events_append [simp]: "trace w' = trace w @ t \<Longrightarrow> new_events w w' = t"
  by (simp add: new_events_def)

lemma new_events_self [simp]: "new_events w w = []"
  by (simp add: new_events_def)


subsection \<open>The credential manager\<close>

text \<open>
  C7. \<open>get_credentials\<close> returns the stored credentials, and changes nothing, when the
  token file is present and its credentials are valid. When the stored credentials are
  expired and carry a refresh token, it refreshes them and writes the result to the token
  file. In every other case (no token file, or invalid credentials that are not both
  expired and refreshable) it runs the interactive flow and writes the resulting
  credentials to the token file.
\<close>

theorem get_credentials_cases:
  "(\<forall>text. token_file w = Some text \<and> valid (from_authorized_user_info env text) \<longrightarrow>
      get_credentials env w = (from_authorized_user_info env text, w))
   \<and> (\<forall>text. token_file w = Some text \<and> expired (from_authorized_user_info env text)
         \<and> truthy_str (refresh_token (from_authorized_user_info env text)) \<longrightarrow>
      get_credentials env w =
        (refresh env (from_authorized_user_info env text),
         w\<lparr>trace := trace w @ [Refresh_called (from_authorized_user_info env text)],
           token_file := Some (to_json env (refresh env (from_authorized_user_info env text)))\<rparr>))
   \<and> ((token_file w = None \<or>
        (\<exists>text. token_file w = Some text \<and> \<not> valid (from_authorized_user_info env text)
           \<and> \<not> (expired (from_authorized_user_info env text)
                 \<and> truthy_str (refresh_token (from_authorized_user_info env text))))) \<longrightarrow>
      get_credentials env w =
        (run_local_server env,
         w\<lparr>trace := trace w @ [Flow_run],
           token_file := Some (to_json env (run_local_server env))\<rparr>))"
  by (auto simp: get_credentials_def valid_def Let_def)

text \<open>
  The three cases at concrete surroundings: a valid stored token, a stale one with a
  refresh token, and no token file.
\<close>

theorem get_credentials_cases_witness:
  "get_credentials (demo_env (demo_service None None (\<lambda>_. None))) (demo_world (Some ''tok''))
     = (\<lparr>token = Some ''tok'', refresh_token = Some ''r'', expired = False\<rparr>,
        demo_world (Some ''tok''))
   \<and> get_credentials (demo_env (demo_service None None (\<lambda>_. None))) (demo_world (Some ''stale''))
     = (\<lparr>token = Some ''fresh'', refresh_token = Some ''r'', expired = False\<rparr>,
        \<lparr>remote = (), token_file = Some ''fresh'',
         trace = [Refresh_called
                    \<lparr>token = Some ''stale'', refresh_token = Some ''r'', expired = True\<rparr>]\<rparr>)
   \<and> get_credentials (demo_env (demo_service None None (\<lambda>_. None))) (demo_world None)
     = (\<lparr>token = Some ''new'', refresh_token = Some ''r'', expired = False\<rparr>,
        \<lparr>remote = (), token_file = Some ''new'', trace = [Flow_run]\<rparr>)"
proof (intro conjI)
  let ?env = "demo_env (demo_service None None (\<lambda>_. None))"
  let ?f = "from_authorized_user_info ?env"
  let ?w1 = "demo_world (Some ''tok'')"
  have "token_file ?w1 = Some ''tok'' \<and> valid (?f ''tok'')"
    by (simp add: demo_env_def timestamp_ns_def timestamp_ms_def py_int_def demo_world_def valid_def)
  with get_credentials_cases [of ?w1 ?env]
  have "get_credentials ?env ?w1 = (?f ''tok'', ?w1)"
    by blast
  then show "get_credentials ?env ?w1
     = (\<lparr>token = Some ''tok'', refresh_token = Some ''r'', expired = False\<rparr>, ?w1)"
    by (simp add: demo_env_def timestamp_ns_def timestamp_ms_def py_int_def)
  let ?w2 = "demo_world (Some ''stale'')"
  have "token_file ?w2 = Some ''stale'' \<and> expired (?f ''stale'')
         \<and> truthy_str (refresh_token (?f ''stale''))"
    by (simp add: demo_env_def timestamp_ns_def timestamp_ms_def py_int_def demo_world_def)
  with get_credentials_cases [of ?w2 ?env]
  have "get_credentials ?env ?w2 =
        (refresh ?env (?f ''stale''),
         ?w2\<lparr>trace := trace ?w2 @ [Refresh_called (?f ''stale'')],
           token_file := Some (to_json ?env (refresh ?env (?f ''stale'')))\<rparr>)"
    by blast
  then show "get_credentials ?env ?w2
     = (\<lparr>token = Some ''fresh'', refresh_token = Some ''r'', expired = False\<rparr>,
        \<lparr>remote = (), token_file = Some ''fresh'',
         trace = [Refresh_called
                    \<lparr>token = Some ''stale'', refresh_token = Some ''r'', expired = True\<rparr>]\<rparr>)"
    by (simp add: demo_env_def timestamp_ns_def timestamp_ms_def py_int_def demo_world_def)
  let ?w3 = "demo_world None"
  have "token_file ?w3 = None"
    by (simp add: demo_world_def)
  with get_credentials_cases [of ?w3 ?env]
  have "get_credentials ?env ?w3 =
        (run_local_server ?env,
         ?w3\<lparr>trace := trace ?w3 @ [Flow_run],
           token_file := Some (to_json ?env (run_local_server ?env))\<rparr>)"
    by blast
  then show "get_credentials ?env ?w3
     = (\<lparr>token = Some ''new'', refresh_token = Some ''r'', expired = False\<rparr>,
        \<lparr>remote = (), token_file = Some ''new'', trace = [Flow_run]\<rparr>)"
    by (simp add: demo_env_def timestamp_ns_def timestamp_ms_def py_int_def demo_world_def)
qed

subsection \<open>The data source provisioner\<close>

text \<open>
  C4. \<open>create_data_source\<close> returns the identifier when the existence check succeeds.
  When the existence check fails with status 404 it submits a creation request whose body
  is \<open>data_source_body\<close>, and returns the identifier if that request succeeds and
  \<open>None\<close> if it fails. On any other error of the existence check it returns \<open>None\<close>
  and submits nothing. The \<open>dataType\<close> entry of the body carries the field
  \<open>activity\<close>/\<open>integer\<close> for \<open>com.google.activity.segment\<close>,
  \<open>calories\<close>/\<open>floatPoint\<close> for \<open>com.google.calories.expended\<close> and
  \<open>steps\<close>/\<open>integer\<close> for \<open>com.google.step_count.delta\<close>.
\<close>

theorem create_data_source_outcomes:
  "(\<forall>rep s1. svc (DataSources_get ''me'' (get_data_source_id n)) (remote w) = (Inr rep, s1) \<longrightarrow>
      fst (create_data_source svc n app w) = Some (get_data_source_id n)
      \<and> new_events w (snd (create_data_source svc n app w)) =
          [Called (DataSources_get ''me'' (get_data_source_id n)) (Inr rep),
           Printed (Data_source_already_exists (get_data_source_id n))])
   \<and> (\<forall>e s1 r2 s2.
        svc (DataSources_get ''me'' (get_data_source_id n)) (remote w) = (Inl e, s1)
        \<and> resp_status e = 404
        \<and> svc (DataSources_create ''me'' (data_source_body (get_data_source_id n) n app)) s1
            = (r2, s2) \<longrightarrow>
      fst (create_data_source svc n app w) =
        (case r2 of Inr result \<Rightarrow> Some (get_data_source_id n) | Inl create_error \<Rightarrow> None)
      \<and> new_events w (snd (create_data_source svc n app w)) =
          [Called (DataSources_get ''me'' (get_data_source_id n)) (Inl e),
           Printed (Creating_data_source (get_data_source_id n)),
           Called (DataSources_create ''me'' (data_source_body (get_data_source_id n) n app)) r2,
           Printed (case r2 of Inr result \<Rightarrow> Data_source_created (dataStreamId result)
                    | Inl create_error \<Rightarrow> Error_creating_data_source create_error)])
   \<and> (\<forall>e s1. svc (DataSources_get ''me'' (get_data_source_id n)) (remote w) = (Inl e, s1)
        \<and> resp_status e \<noteq> 404 \<longrightarrow>
      fst (create_data_source svc n app w) = None
      \<and> new_events w (snd (create_data_source svc n app w)) =
          [Called (DataSources_get ''me'' (get_data_source_id n)) (Inl e),
           Printed (Error_checking_data_source e)])
   \<and> json_get (data_source_body i ''com.google.activity.segment'' app) ''dataType'' =
       Some (JObj [(''name'', JStr ''com.google.activity.segment''),
                   (''field'', JArr [JObj [(''name'', JStr ''activity''),
                                           (''format'', JStr ''integer'')]])])
   \<and> json_get (data_source_body i ''com.google.calories.expended'' app) ''dataType'' =
       Some (JObj [(''name'', JStr ''com.google.calories.expended''),
                   (''field'', JArr [JObj [(''name'', JStr ''calories''),
                                           (''format'', JStr ''floatPoint'')]])])
   \<and> json_get (data_source_body i ''com.google.step_count.delta'' app) ''dataType'' =
       Some (JObj [(''name'', JStr ''com.google.step_count.delta''),
                   (''field'', JArr [JObj [(''name'', JStr ''steps''),
                                           (''format'', JStr ''integer'')]])])"
proof (intro conjI allI impI)
  fix rep s1
  assume "svc (DataSources_get ''me'' (get_data_source_id n)) (remote w) = (Inr rep, s1)"
  then show "fst (create_data_source svc n app w) = Some (get_data_source_id n)"
    and "new_events w (snd (create_data_source svc n app w)) =
          [Called (DataSources_get ''me'' (get_data_source_id n)) (Inr rep),
           Printed (Data_source_already_exists (get_data_source_id n))]"
    by (simp_all add: create_data_source_def execute_eq Let_def)
next
  fix e s1 r2 s2
  assume a: "svc (DataSources_get ''me'' (get_data_source_id n)) (remote w) = (Inl e, s1)
        \<and> resp_status e = 404
        \<and> svc (DataSources_create ''me'' (data_source_body (get_data_source_id n) n app)) s1
            = (r2, s2)"
  then show "fst (create_data_source svc n app w) =
        (case r2 of Inr result \<Rightarrow> Some (get_data_source_id n) | Inl create_error \<Rightarrow> None)"
    by (cases r2) (simp_all add: create_data_source_def execute_eq Let_def)
  from a show "new_events w (snd (create_data_source svc n app w)) =
          [Called (DataSources_get ''me'' (get_data_source_id n)) (Inl e),
           Printed (Creating_data_source (get_data_source_id n)),
           Called (DataSources_create ''me'' (data_source_body (get_data_source_id n) n app)) r2,
           Printed (case r2 of Inr result \<Rightarrow> Data_source_created (dataStreamId result)
                    | Inl create_error \<Rightarrow> Error_creating_data_source create_error)]"
    by (cases r2) (simp_all add: create_data_source_def execute_eq Let_def)
next
  fix e s1
  assume "svc (DataSources_get ''me'' (get_data_source_id n)) (remote w) = (Inl e, s1)
        \<and> resp_status e \<noteq> 404"
  then show "fst (create_data_source svc n app w) = None"
    and "new_events w (snd (create_data_source svc n app w)) =
          [Called (DataSources_get ''me'' (get_data_source_id n)) (Inl e),
           Printed (Error_checking_data_source e)]"
    by (simp_all add: create_data_source_def execute_eq Let_def)
qed (simp_all add: data_source_body_def data_type_field_def)

text \<open>
  The four outcomes at a concrete service: the data source exists; it is missing and is
  created; it is missing and its creation fails; the existence check fails with 500.
\<close>

theorem create_data_source_outcomes_witness:
  "fst (create_data_source (demo_service None None (\<lambda>_. None))
          ''com.google.step_count.delta'' ''GFit B100'' (demo_world None))
     = Some (get_data_source_id ''com.google.step_count.delta'')
   \<and> fst (create_data_source
            (demo_service None None (\<lambda>c. case c of DataSources_get u i \<Rightarrow> Some 404 | _ \<Rightarrow> None))
            ''com.google.step_count.delta'' ''GFit B100'' (demo_world None))
     = Some (get_data_source_id ''com.google.step_count.delta'')
   \<and> fst (create_data_source (demo_service None None (\<lambda>c. Some 404))
            ''com.google.step_count.delta'' ''GFit B100'' (demo_world None))
     = None
   \<and> fst (create_data_source (demo_service None None (\<lambda>c. Some 500))
            ''com.google.step_count.delta'' ''GFit B100'' (demo_world None))
     = None"
proof (intro conjI)
  let ?n = "''com.google.step_count.delta''"
  let ?get = "DataSources_get ''me'' (get_data_source_id ?n)"
  let ?create = "DataSources_create ''me'' (data_source_body (get_data_source_id ?n) ?n ''GFit B100'')"
  let ?w = "demo_world None"
  let ?ok = "\<lparr>dataStreamId = None, session_ids = None, dataSource_ids = None\<rparr>"
  let ?s1 = "demo_service None None (\<lambda>_. None)"
  have "?s1 ?get (remote ?w) = (Inr ?ok, ())"
    by (simp add: demo_service_def)
  with create_data_source_outcomes [of ?s1 ?n ?w "''GFit B100''"]
  show "fst (create_data_source ?s1 ?n ''GFit B100'' ?w) = Some (get_data_source_id ?n)"
    by blast
  let ?s2 = "demo_service None None (\<lambda>c. case c of DataSources_get u i \<Rightarrow> Some 404 | _ \<Rightarrow> None)"
  have "?s2 ?get (remote ?w) = (Inl (HttpError 404), ()) \<and> resp_status (HttpError 404) = 404
        \<and> ?s2 ?create () = (Inr ?ok, ())"
    by (simp add: demo_service_def)
  with create_data_source_outcomes [of ?s2 ?n ?w "''GFit B100''"]
  have "fst (create_data_source ?s2 ?n ''GFit B100'' ?w) =
        (case (Inr ?ok :: http_error + reply) of Inr result \<Rightarrow> Some (get_data_source_id ?n)
         | Inl create_error \<Rightarrow> None)"
    by blast
  then show "fst (create_data_source ?s2 ?n ''GFit B100'' ?w) = Some (get_data_source_id ?n)"
    by simp
  let ?s3 = "demo_service None None (\<lambda>c. Some 404)"
  have "?s3 ?get (remote ?w) = (Inl (HttpError 404), ()) \<and> resp_status (HttpError 404) = 404
        \<and> ?s3 ?create () = (Inl (HttpError 404), ())"
    by (simp add: demo_service_def)
  with create_data_source_outcomes [of ?s3 ?n ?w "''GFit B100''"]
  have "fst (create_data_source ?s3 ?n ''GFit B100'' ?w) =
        (case (Inl (HttpError 404) :: http_error + reply) of
           Inr result \<Rightarrow> Some (get_data_source_id ?n) | Inl create_error \<Rightarrow> None)"
    by blast
  then show "fst (create_data_source ?s3 ?n ''GFit B100'' ?w) = None"
    by simp
  let ?s4 = "demo_service None None (\<lambda>c. Some 500)"
  have "?s4 ?get (remote ?w) = (Inl (HttpError 500), ()) \<and> resp_status (HttpError 500) \<noteq> 404"
    by (simp add: demo_service_def)
  with create_data_source_outcomes [of ?s4 ?n ?w "''GFit B100''"]
  show "fst (create_data_source ?s4 ?n ''GFit B100'' ?w) = None"
    by blast
qed

subsection \<open>Facts about the observations\<close>

lemma calls_of_simps [simp]:
  "calls_of [] = []"
  "calls_of (ev # t) = call_of ev @ calls_of t"
  "calls_of (a @ b) = calls_of a @ calls_of b"
  by (simp_all add: calls_of_def)

lemma prints_of_simps [simp]:
  "prints_of [] = []"
  "prints_of (ev # t) = print_of ev @ prints_of t"
  "prints_of (a @ b) = prints_of a @ prints_of b"
  by (simp_all add: prints_of_def)

lemma listed_sessions_simps [simp]:
  "listed_sessions [] = []"
  "listed_sessions (ev # t) = listed_sessions_of ev @ listed_sessions t"
  "listed_sessions (a @ b) = listed_sessions a @ listed_sessions b"
  by (simp_all add: listed_sessions_def)

lemma listed_data_sources_simps [simp]:
  "listed_data_sources [] = []"
  "listed_data_sources (ev # t) = listed_data_sources_of ev @ listed_data_sources t"
  "listed_data_sources (a @ b) = listed_data_sources a @ listed_data_sources b"
  by (simp_all add: listed_data_sources_def)

lemma next_reports_append: "next_reports e a \<Longrightarrow> next_reports e (a @ b)"
  by (induction e a rule: next_reports.induct) simp_all

lemma all_reported_append: "all_reported a \<Longrightarrow> all_reported b \<Longrightarrow> all_reported (a @ b)"
  by (induction a rule: all_reported.induct) (auto intro: next_reports_append)

lemma str_in_sublist: "str_in sub s = sublist sub s"
  by (induction s) (simp_all add: sublist_Cons_right)

lemma str_in_iff: "str_in sub s \<longleftrightarrow> (\<exists>p q. s = p @ sub @ q)"
  by (simp add: str_in_sublist sublist_def)

subsection \<open>The loops of the cleanup\<close>

lemma delete_sessions_segment:
  "\<exists>t. trace (delete_sessions svc ids w) = trace w @ t
       \<and> calls_of t = map (Sessions_delete ''me'') ids
       \<and> listed_sessions t = [] \<and> listed_data_sources t = []
       \<and> all_reported t
       \<and> (\<forall>c e. Called c (Inl e) \<in> set t \<longrightarrow>
            (\<exists>i. c = Sessions_delete ''me'' i \<and> Printed (Error_deleting_session i e) \<in> set t))
       \<and> (\<forall>i e. Printed (Error_deleting_dataset_for i e) \<notin> set t)"
proof (induction ids arbitrary: w)
  case Nil
  show ?case by simp
next
  case (Cons i ids)
  let ?c = "Sessions_delete ''me'' i"
  let ?r = "fst (svc ?c (remote w))"
  let ?m = "case ?r of Inr _ \<Rightarrow> Deleted_session i | Inl error \<Rightarrow> Error_deleting_session i error"
  let ?w1 = "case execute svc ?c w of
               (Inr _, w1) \<Rightarrow> print (Deleted_session i) w1
             | (Inl error, w1) \<Rightarrow> print (Error_deleting_session i error) w1"
  have step: "trace ?w1 = trace w @ [Called ?c ?r, Printed ?m]"
    by (cases ?r) (simp_all add: execute_eq)
  from Cons.IH [of ?w1] obtain t where
    t: "trace (delete_sessions svc ids ?w1) = trace ?w1 @ t"
       "calls_of t = map (Sessions_delete ''me'') ids"
       "listed_sessions t = []" "listed_data_sources t = []"
       "all_reported t"
       "\<forall>c e. Called c (Inl e) \<in> set t \<longrightarrow>
            (\<exists>i. c = Sessions_delete ''me'' i \<and> Printed (Error_deleting_session i e) \<in> set t)"
       "\<forall>i e. Printed (Error_deleting_dataset_for i e) \<notin> set t"
    by blast
  let ?t = "[Called ?c ?r, Printed ?m] @ t"
  have "trace (delete_sessions svc (i # ids) w) = trace w @ ?t"
    using t(1) step by simp
  moreover have "calls_of ?t = map (Sessions_delete ''me'') (i # ids)"
    using t(2) by simp
  moreover have "listed_sessions ?t = []" "listed_data_sources ?t = []"
    using t(3,4) by (cases ?r; simp)+
  moreover have "all_reported ?t"
    using t(5) by (cases ?r) simp_all
  moreover have "\<forall>c e. Called c (Inl e) \<in> set ?t \<longrightarrow>
            (\<exists>i. c = Sessions_delete ''me'' i \<and> Printed (Error_deleting_session i e) \<in> set ?t)"
    using t(6) by (cases ?r) auto
  moreover have "\<forall>i e. Printed (Error_deleting_dataset_for i e) \<notin> set ?t"
    using t(7) by (cases ?r) auto
  ultimately show ?case by blast
qed

lemma delete_datasets_segment:
  "\<exists>t. trace (delete_datasets svc a b ids w) = trace w @ t
       \<and> calls_of t =
           map (\<lambda>i. Datasets_delete ''me'' i (str_int a @ ''-'' @ str_int b))
             (filter (\<lambda>i. str_in PROJECT_NUMBER i \<and> str_in ''microcloud'' i) ids)
       \<and> listed_sessions t = [] \<and> listed_data_sources t = []
       \<and> all_reported t
       \<and> (\<forall>c e. Called c (Inl e) \<in> set t \<longrightarrow>
            (\<exists>i. c = Datasets_delete ''me'' i (str_int a @ ''-'' @ str_int b)
               \<and> (resp_status e \<noteq> 404 \<longrightarrow> Printed (Error_deleting_dataset_for i e) \<in> set t)))
       \<and> (\<forall>i e. Printed (Error_deleting_dataset_for i e) \<in> set t \<longrightarrow> resp_status e \<noteq> 404)"
proof (induction ids arbitrary: w)
  case Nil
  show ?case by simp
next
  case (Cons i ids)
  let ?d = "str_int a @ ''-'' @ str_int b"
  let ?c = "Datasets_delete ''me'' i ?d"
  let ?r = "fst (svc ?c (remote w))"
  let ?ours = "str_in PROJECT_NUMBER i \<and> str_in ''microcloud'' i"
  let ?w1 = "if ?ours then
               (let dataset_id = str_int a @ ''-'' @ str_int b
                in case execute svc (Datasets_delete ''me'' i dataset_id) w of
                     (Inr _, w1) \<Rightarrow> print (Deleted_dataset_for i) w1
                   | (Inl error, w1) \<Rightarrow>
                       if resp_status error \<noteq> 404
                       then print (Error_deleting_dataset_for i error) w1
                       else w1)
             else w"
  let ?s = "if ?ours then
              Called ?c ?r #
              (case ?r of Inr _ \<Rightarrow> [Printed (Deleted_dataset_for i)]
               | Inl error \<Rightarrow> if resp_status error \<noteq> 404
                               then [Printed (Error_deleting_dataset_for i error)] else [])
            else []"
  have step: "trace ?w1 = trace w @ ?s"
    by (cases ?r) (simp_all add: execute_eq Let_def)
  from Cons.IH [of ?w1] obtain t where
    t: "trace (delete_datasets svc a b ids ?w1) = trace ?w1 @ t"
       "calls_of t = map (\<lambda>i. Datasets_delete ''me'' i ?d)
             (filter (\<lambda>i. str_in PROJECT_NUMBER i \<and> str_in ''microcloud'' i) ids)"
       "listed_sessions t = []" "listed_data_sources t = []"
       "all_reported t"
       "\<forall>c e. Called c (Inl e) \<in> set t \<longrightarrow>
            (\<exists>i. c = Datasets_delete ''me'' i ?d
               \<and> (resp_status e \<noteq> 404 \<longrightarrow> Printed (Error_deleting_dataset_for i e) \<in> set t))"
       "\<forall>i e. Printed (Error_deleting_dataset_for i e) \<in> set t \<longrightarrow> resp_status e \<noteq> 404"
    by blast
  have "trace (delete_datasets svc a b (i # ids) w) = trace w @ (?s @ t)"
    using t(1) step by simp
  moreover have "calls_of (?s @ t) = map (\<lambda>i. Datasets_delete ''me'' i ?d)
             (filter (\<lambda>i. str_in PROJECT_NUMBER i \<and> str_in ''microcloud'' i) (i # ids))"
    using t(2) by (cases ?r) simp_all
  moreover have "listed_sessions (?s @ t) = []" "listed_data_sources (?s @ t) = []"
    using t(3,4) by (cases ?r; simp)+
  moreover have "all_reported (?s @ t)"
    using t(5) by (cases ?r) simp_all
  moreover have "\<forall>c e. Called c (Inl e) \<in> set (?s @ t) \<longrightarrow>
            (\<exists>i. c = Datasets_delete ''me'' i ?d
               \<and> (resp_status e \<noteq> 404 \<longrightarrow> Printed (Error_deleting_dataset_for i e) \<in> set (?s @ t)))"
    using t(6) by (cases ?r) auto
  moreover have "\<forall>i e. Printed (Error_deleting_dataset_for i e) \<in> set (?s @ t)
                   \<longrightarrow> resp_status e \<noteq> 404"
    using t(7) by (cases ?r) auto
  ultimately show ?case by blast
qed

lemma get_credentials_segment:
  "\<exists>t. trace (snd (get_credentials env w)) = trace w @ t
       \<and> (t = [] \<or> (\<exists>c. t = [Refresh_called c]) \<or> t = [Flow_run])"
  by (simp add: get_credentials_def Let_def split_beta)

lemma sessions_phase:
  "\<exists>t. trace (case execute svc (Sessions_list ''me'' a b) w of
                 (Inr sessions, wa) \<Rightarrow>
                   (case session_ids sessions of
                      Some ids \<Rightarrow> delete_sessions svc ids wa
                    | None \<Rightarrow> print No_sessions_found_for_today wa)
               | (Inl error, wa) \<Rightarrow> print (Error_listing_sessions error) wa) = trace w @ t
       \<and> filter is_session_delete (calls_of t) = map (Sessions_delete ''me'') (listed_sessions t)
       \<and> filter is_dataset_delete (calls_of t) = [] \<and> listed_data_sources t = []
       \<and> all_reported t
       \<and> (\<forall>c e. Called c (Inl e) \<in> set t \<longrightarrow> \<not> is_dataset_delete c
             \<and> (\<forall>u i. c = Sessions_delete u i \<longrightarrow> Printed (Error_deleting_session i e) \<in> set t))
       \<and> (\<forall>i e. Printed (Error_deleting_dataset_for i e) \<notin> set t)
       \<and> Sessions_list ''me'' a b \<in> set (calls_of t)
       \<and> calls_of t = Sessions_list ''me'' a b # map (Sessions_delete ''me'') (listed_sessions t)"
proof -
  let ?c = "Sessions_list ''me'' a b"
  let ?r = "fst (svc ?c (remote w))"
  let ?wa = "w\<lparr>remote := snd (svc ?c (remote w)), trace := trace w @ [Called ?c ?r]\<rparr>"
  show ?thesis
  proof (cases ?r)
    case (Inl e)
    then show ?thesis
      by (intro exI [of _ "[Called ?c ?r, Printed (Error_listing_sessions e)]"])
         (simp add: execute_eq)
  next
    case (Inr rep)
    show ?thesis
    proof (cases "session_ids rep")
      case None
      with Inr show ?thesis
        by (intro exI [of _ "[Called ?c ?r, Printed No_sessions_found_for_today]"])
           (simp add: execute_eq)
    next
      case (Some ids)
      from delete_sessions_segment [of svc ids ?wa] obtain t where
        t: "trace (delete_sessions svc ids ?wa) = trace ?wa @ t"
           "calls_of t = map (Sessions_delete ''me'') ids"
           "listed_sessions t = []" "listed_data_sources t = []"
           "all_reported t"
           "\<forall>c e. Called c (Inl e) \<in> set t \<longrightarrow>
              (\<exists>i. c = Sessions_delete ''me'' i \<and> Printed (Error_deleting_session i e) \<in> set t)"
           "\<forall>i e. Printed (Error_deleting_dataset_for i e) \<notin> set t"
        by blast
      let ?t = "Called ?c ?r # t"
      have "trace (case execute svc ?c w of
                 (Inr sessions, wa) \<Rightarrow>
                   (case session_ids sessions of
                      Some ids \<Rightarrow> delete_sessions svc ids wa
                    | None \<Rightarrow> print No_sessions_found_for_today wa)
               | (Inl error, wa) \<Rightarrow> print (Error_listing_sessions error) wa) = trace w @ ?t"
        using Inr Some t(1) by (simp add: execute_eq)
      moreover have "filter is_session_delete (calls_of ?t)
                       = map (Sessions_delete ''me'') (listed_sessions ?t)"
        using Inr Some t(2,3) by (simp add: filter_map comp_def)
      moreover have "filter is_dataset_delete (calls_of ?t) = []" "listed_data_sources ?t = []"
        using Inr Some t(2,4) by (simp_all add: filter_map comp_def)
      moreover have "all_reported ?t"
        using Inr t(5) by simp
      moreover have "\<forall>c e. Called c (Inl e) \<in> set ?t \<longrightarrow> \<not> is_dataset_delete c
             \<and> (\<forall>u i. c = Sessions_delete u i \<longrightarrow> Printed (Error_deleting_session i e) \<in> set ?t)"
        using Inr t(6) by fastforce
      moreover have "\<forall>i e. Printed (Error_deleting_dataset_for i e) \<notin> set ?t"
        using t(7) by simp
      moreover have "?c \<in> set (calls_of ?t)"
        by simp
      moreover have "calls_of ?t = ?c # map (Sessions_delete ''me'') (listed_sessions ?t)"
        using Inr Some t(2,3) by simp
      ultimately show ?thesis by blast
    qed
  qed
qed

lemma data_sources_phase:
  "\<exists>t. trace (case execute svc (DataSources_list ''me'') w of
                 (Inr data_sources_result, wb) \<Rightarrow>
                   (case dataSource_ids data_sources_result of
                      Some ids \<Rightarrow> delete_datasets svc a b ids wb
                    | None \<Rightarrow> print No_data_sources_found wb)
               | (Inl error, wb) \<Rightarrow> print (Error_listing_data_sources error) wb) = trace w @ t
       \<and> filter is_dataset_delete (calls_of t) =
           map (\<lambda>i. Datasets_delete ''me'' i (str_int a @ ''-'' @ str_int b))
             (filter (\<lambda>i. str_in PROJECT_NUMBER i \<and> str_in ''microcloud'' i)
                (listed_data_sources t))
       \<and> filter is_session_delete (calls_of t) = [] \<and> listed_sessions t = []
       \<and> all_reported t
       \<and> (\<forall>c e. Called c (Inl e) \<in> set t \<longrightarrow> \<not> is_session_delete c
             \<and> (\<forall>u i d. c = Datasets_delete u i d \<and> resp_status e \<noteq> 404 \<longrightarrow>
                    Printed (Error_deleting_dataset_for i e) \<in> set t))
       \<and> (\<forall>i e. Printed (Error_deleting_dataset_for i e) \<in> set t \<longrightarrow> resp_status e \<noteq> 404)
       \<and> DataSources_list ''me'' \<in> set (calls_of t)
       \<and> calls_of t = DataSources_list ''me'' #
           map (\<lambda>i. Datasets_delete ''me'' i (str_int a @ ''-'' @ str_int b))
             (filter (\<lambda>i. str_in PROJECT_NUMBER i \<and> str_in ''microcloud'' i)
                (listed_data_sources t))"
proof -
  let ?c = "DataSources_list ''me''"
  let ?d = "str_int a @ ''-'' @ str_int b"
  let ?r = "fst (svc ?c (remote w))"
  let ?wb = "w\<lparr>remote := snd (svc ?c (remote w)), trace := trace w @ [Called ?c ?r]\<rparr>"
  show ?thesis
  proof (cases ?r)
    case (Inl e)
    then show ?thesis
      by (intro exI [of _ "[Called ?c ?r, Printed (Error_listing_data_sources e)]"])
         (simp add: execute_eq)
  next
    case (Inr rep)
    show ?thesis
    proof (cases "dataSource_ids rep")
      case None
      with Inr show ?thesis
        by (intro exI [of _ "[Called ?c ?r, Printed No_data_sources_found]"])
           (simp add: execute_eq)
    next
      case (Some ids)
      from delete_datasets_segment [of svc a b ids ?wb] obtain t where
        t: "trace (delete_datasets svc a b ids ?wb) = trace ?wb @ t"
           "calls_of t = map (\<lambda>i. Datasets_delete ''me'' i ?d)
              (filter (\<lambda>i. str_in PROJECT_NUMBER i \<and> str_in ''microcloud'' i) ids)"
           "listed_sessions t = []" "listed_data_sources t = []"
           "all_reported t"
           "\<forall>c e. Called c (Inl e) \<in> set t \<longrightarrow>
              (\<exists>i. c = Datasets_delete ''me'' i ?d
                 \<and> (resp_status e \<noteq> 404 \<longrightarrow> Printed (Error_deleting_dataset_for i e) \<in> set t))"
           "\<forall>i e. Printed (Error_deleting_dataset_for i e) \<in> set t \<longrightarrow> resp_status e \<noteq> 404"
        by blast
      let ?t = "Called ?c ?r # t"
      have "trace (case execute svc ?c w of
                 (Inr data_sources_result, wb) \<Rightarrow>
                   (case dataSource_ids data_sources_result of
                      Some ids \<Rightarrow> delete_datasets svc a b ids wb
                    | None \<Rightarrow> print No_data_sources_found wb)
               | (Inl error, wb) \<Rightarrow> print (Error_listing_data_sources error) wb) = trace w @ ?t"
        using Inr Some t(1) by (simp add: execute_eq)
      moreover have "filter is_dataset_delete (calls_of ?t) =
           map (\<lambda>i. Datasets_delete ''me'' i ?d)
             (filter (\<lambda>i. str_in PROJECT_NUMBER i \<and> str_in ''microcloud'' i)
                (listed_data_sources ?t))"
        using Inr Some t(2,4) by (simp add: filter_map comp_def)
      moreover have "filter is_session_delete (calls_of ?t) = []" "listed_sessions ?t = []"
        using Inr Some t(2,3) by (simp_all add: filter_map comp_def)
      moreover have "all_reported ?t"
        using Inr t(5) by simp
      moreover have "\<forall>c e. Called c (Inl e) \<in> set ?t \<longrightarrow> \<not> is_session_delete c
             \<and> (\<forall>u i d. c = Datasets_delete u i d \<and> resp_status e \<noteq> 404 \<longrightarrow>
                    Printed (Error_deleting_dataset_for i e) \<in> set ?t)"
        using Inr t(6) by fastforce
      moreover have "\<forall>i e. Printed (Error_deleting_dataset_for i e) \<in> set ?t
                       \<longrightarrow> resp_status e \<noteq> 404"
        using t(7) by simp
      moreover have "?c \<in> set (calls_of ?t)"
        by simp
      moreover have "calls_of ?t = ?c #
           map (\<lambda>i. Datasets_delete ''me'' i ?d)
             (filter (\<lambda>i. str_in PROJECT_NUMBER i \<and> str_in ''microcloud'' i)
                (listed_data_sources ?t))"
        using Inr Some t(2,4) by simp
      ultimately show ?thesis by blast
    qed
  qed
qed

lemma clean_up_facts:
  fixes env :: "('dt, 's) env" and w :: "'s world"
  defines "evs \<equiv> new_events w (snd (clean_up_todays_activities env w))"
  defines "today \<equiv> replace_midnight env (now env)"
  defines "tomorrow \<equiv> plus_one_day env (replace_midnight env (now env))"
  shows "fst (clean_up_todays_activities env w) = True"
    and "filter is_session_delete (calls_of evs) =
           map (Sessions_delete ''me'') (listed_sessions evs)"
    and "filter is_dataset_delete (calls_of evs) =
           map (\<lambda>i. Datasets_delete ''me'' i
                  (str_int (timestamp_ns env today) @ ''-'' @ str_int (timestamp_ns env tomorrow)))
             (filter (\<lambda>i. str_in PROJECT_NUMBER i \<and> str_in ''microcloud'' i)
                (listed_data_sources evs))"
    and "all_reported evs"
    and "\<forall>c e. Called c (Inl e) \<in> set evs \<longrightarrow>
           (\<forall>u i. c = Sessions_delete u i \<longrightarrow> Printed (Error_deleting_session i e) \<in> set evs)
           \<and> (\<forall>u i d. c = Datasets_delete u i d \<and> resp_status e \<noteq> 404 \<longrightarrow>
                  Printed (Error_deleting_dataset_for i e) \<in> set evs)"
    and "\<forall>i e. Printed (Error_deleting_dataset_for i e) \<in> set evs \<longrightarrow> resp_status e \<noteq> 404"
    and "Sessions_list ''me'' (isoformat env today @ ''Z'') (isoformat env tomorrow @ ''Z'')
           \<in> set (calls_of evs)"
    and "DataSources_list ''me'' \<in> set (calls_of evs)"
    and "calls_of evs =
           Sessions_list ''me'' (isoformat env today @ ''Z'') (isoformat env tomorrow @ ''Z'')
           # map (Sessions_delete ''me'') (listed_sessions evs)
           @ DataSources_list ''me''
           # map (\<lambda>i. Datasets_delete ''me'' i
                  (str_int (timestamp_ns env today) @ ''-'' @ str_int (timestamp_ns env tomorrow)))
               (filter (\<lambda>i. str_in PROJECT_NUMBER i \<and> str_in ''microcloud'' i)
                  (listed_data_sources evs))"
proof -
  let ?svc = "build env (fst (get_credentials env w))"
  let ?w0 = "snd (get_credentials env w)"
  let ?m = "Cleaning_up_activities (str_datetime env today) (str_datetime env tomorrow)"
  let ?w1 = "print ?m ?w0"
  let ?a = "isoformat env today @ ''Z''"
  let ?b = "isoformat env tomorrow @ ''Z''"
  let ?w2 = "case execute ?svc (Sessions_list ''me'' ?a ?b) ?w1 of
               (Inr sessions, wa) \<Rightarrow>
                 (case session_ids sessions of
                    Some ids \<Rightarrow> delete_sessions ?svc ids wa
                  | None \<Rightarrow> print No_sessions_found_for_today wa)
             | (Inl error, wa) \<Rightarrow> print (Error_listing_sessions error) wa"
  let ?ns = "timestamp_ns env today"
  let ?ne = "timestamp_ns env tomorrow"
  let ?w3 = "case execute ?svc (DataSources_list ''me'') ?w2 of
               (Inr data_sources_result, wb) \<Rightarrow>
                 (case dataSource_ids data_sources_result of
                    Some ids \<Rightarrow> delete_datasets ?svc ?ns ?ne ids wb
                  | None \<Rightarrow> print No_data_sources_found wb)
             | (Inl error, wb) \<Rightarrow> print (Error_listing_data_sources error) wb"
  have run: "clean_up_todays_activities env w = (True, print Cleanup_completed ?w3)"
    unfolding clean_up_todays_activities_def today_def tomorrow_def Let_def
    by (cases "get_credentials env w") (simp only: prod.case fst_conv snd_conv)
  from get_credentials_segment [of env w] obtain ta where
    ta: "trace ?w0 = trace w @ ta" "ta = [] \<or> (\<exists>c. ta = [Refresh_called c]) \<or> ta = [Flow_run]"
    by blast
  from sessions_phase [where svc = ?svc and w = ?w1 and a = ?a and b = ?b] obtain t1 where
    t1: "trace ?w2 = trace ?w1 @ t1"
        "filter is_session_delete (calls_of t1) = map (Sessions_delete ''me'') (listed_sessions t1)"
        "filter is_dataset_delete (calls_of t1) = []" "listed_data_sources t1 = []"
        "all_reported t1"
        "\<forall>c e. Called c (Inl e) \<in> set t1 \<longrightarrow> \<not> is_dataset_delete c
             \<and> (\<forall>u i. c = Sessions_delete u i \<longrightarrow> Printed (Error_deleting_session i e) \<in> set t1)"
        "\<forall>i e. Printed (Error_deleting_dataset_for i e) \<notin> set t1"
        "Sessions_list ''me'' ?a ?b \<in> set (calls_of t1)"
        "calls_of t1 = Sessions_list ''me'' ?a ?b # map (Sessions_delete ''me'') (listed_sessions t1)"
    by blast
  from data_sources_phase [where svc = ?svc and w = ?w2 and a = ?ns and b = ?ne] obtain t2 where
    t2: "trace ?w3 = trace ?w2 @ t2"
        "filter is_dataset_delete (calls_of t2) =
           map (\<lambda>i. Datasets_delete ''me'' i (str_int ?ns @ ''-'' @ str_int ?ne))
             (filter (\<lambda>i. str_in PROJECT_NUMBER i \<and> str_in ''microcloud'' i)
                (listed_data_sources t2))"
        "filter is_session_delete (calls_of t2) = []" "listed_sessions t2 = []"
        "all_reported t2"
        "\<forall>c e. Called c (Inl e) \<in> set t2 \<longrightarrow> \<not> is_session_delete c
             \<and> (\<forall>u i d. c = Datasets_delete u i d \<and> resp_status e \<noteq> 404 \<longrightarrow>
                    Printed (Error_deleting_dataset_for i e) \<in> set t2)"
        "\<forall>i e. Printed (Error_deleting_dataset_for i e) \<in> set t2 \<longrightarrow> resp_status e \<noteq> 404"
        "DataSources_list ''me'' \<in> set (calls_of t2)"
        "calls_of t2 = DataSources_list ''me'' #
           map (\<lambda>i. Datasets_delete ''me'' i (str_int ?ns @ ''-'' @ str_int ?ne))
             (filter (\<lambda>i. str_in PROJECT_NUMBER i \<and> str_in ''microcloud'' i)
                (listed_data_sources t2))"
    by blast
  have "trace (print Cleanup_completed ?w3)
          = trace w @ (ta @ Printed ?m # t1 @ t2 @ [Printed Cleanup_completed])"
    using ta(1) t1(1) t2(1) by simp
  then have evs: "evs = ta @ Printed ?m # t1 @ t2 @ [Printed Cleanup_completed]"
    unfolding evs_def run by simp
  have ta_calls: "calls_of ta = []" "listed_sessions ta = []" "listed_data_sources ta = []"
    using ta(2) by auto
  have ta_reported: "all_reported ta"
    using ta(2) by auto
  have ta_events: "\<forall>c r. Called c r \<notin> set ta" "\<forall>m. Printed m \<notin> set ta"
    using ta(2) by auto
  show "fst (clean_up_todays_activities env w) = True"
    by (simp add: run)
  show "filter is_session_delete (calls_of evs) =
           map (Sessions_delete ''me'') (listed_sessions evs)"
    by (simp add: evs ta_calls t1(2) t2(3,4))
  show "filter is_dataset_delete (calls_of evs) =
           map (\<lambda>i. Datasets_delete ''me'' i
                  (str_int (timestamp_ns env today) @ ''-'' @ str_int (timestamp_ns env tomorrow)))
             (filter (\<lambda>i. str_in PROJECT_NUMBER i \<and> str_in ''microcloud'' i)
                (listed_data_sources evs))"
    by (simp add: evs ta_calls t1(3,4) t2(2))
  have "all_reported (Printed ?m # t1 @ t2 @ [Printed Cleanup_completed])"
    using t1(5) t2(5) by (simp add: all_reported_append)
  then show "all_reported evs"
    unfolding evs using ta_reported by (rule all_reported_append [rotated])
  show "\<forall>c e. Called c (Inl e) \<in> set evs \<longrightarrow>
           (\<forall>u i. c = Sessions_delete u i \<longrightarrow> Printed (Error_deleting_session i e) \<in> set evs)
           \<and> (\<forall>u i d. c = Datasets_delete u i d \<and> resp_status e \<noteq> 404 \<longrightarrow>
                  Printed (Error_deleting_dataset_for i e) \<in> set evs)"
  proof (intro allI impI)
    fix c e
    assume "Called c (Inl e) \<in> set evs"
    then consider "Called c (Inl e) \<in> set t1" | "Called c (Inl e) \<in> set t2"
      using ta_events by (auto simp: evs)
    then show "(\<forall>u i. c = Sessions_delete u i \<longrightarrow> Printed (Error_deleting_session i e) \<in> set evs)
           \<and> (\<forall>u i d. c = Datasets_delete u i d \<and> resp_status e \<noteq> 404 \<longrightarrow>
                  Printed (Error_deleting_dataset_for i e) \<in> set evs)"
    proof cases
      case 1
      with t1(6) have "\<not> is_dataset_delete c"
        "\<forall>u i. c = Sessions_delete u i \<longrightarrow> Printed (Error_deleting_session i e) \<in> set t1"
        by blast+
      then show ?thesis by (auto simp: evs)
    next
      case 2
      with t2(6) have "\<not> is_session_delete c"
        "\<forall>u i d. c = Datasets_delete u i d \<and> resp_status e \<noteq> 404 \<longrightarrow>
                    Printed (Error_deleting_dataset_for i e) \<in> set t2"
        by blast+
      then show ?thesis by (auto simp: evs)
    qed
  qed
  show "\<forall>i e. Printed (Error_deleting_dataset_for i e) \<in> set evs \<longrightarrow> resp_status e \<noteq> 404"
    using ta_events(2) t1(7) t2(7) by (auto simp: evs)
  show "Sessions_list ''me'' (isoformat env today @ ''Z'') (isoformat env tomorrow @ ''Z'')
           \<in> set (calls_of evs)"
    using t1(8) by (simp add: evs)
  show "DataSources_list ''me'' \<in> set (calls_of evs)"
    using t2(8) by (simp add: evs)
  show "calls_of evs =
           Sessions_list ''me'' (isoformat env today @ ''Z'') (isoformat env tomorrow @ ''Z'')
           # map (Sessions_delete ''me'') (listed_sessions evs)
           @ DataSources_list ''me''
           # map (\<lambda>i. Datasets_delete ''me'' i
                  (str_int (timestamp_ns env today) @ ''-'' @ str_int (timestamp_ns env tomorrow)))
               (filter (\<lambda>i. str_in PROJECT_NUMBER i \<and> str_in ''microcloud'' i)
                  (listed_data_sources evs))"
    by (simp add: evs ta_calls t1(4,9) t2(4,9))
qed

subsection \<open>The shape of the trace of the cleanup\<close>

lemma outcomes_simps [simp]:
  "outcomes [] = []"
  "outcomes (ev # t) = outcome_of ev @ outcomes t"
  "outcomes (t @ t') = outcomes t @ outcomes t'"
  by (simp_all add: outcomes_def)

lemma cleanup_trace_simps [simp]:
  "cleanup_trace [] = []"
  "cleanup_trace (cr # os) = cleanup_events cr @ cleanup_trace os"
  "cleanup_trace (os @ os') = cleanup_trace os @ cleanup_trace os'"
  by (simp_all add: cleanup_trace_def)

lemma cleanup_trace_output: "filter is_output (cleanup_trace os) = cleanup_trace os"
  by (induction os) (simp_all add: cleanup_events_def filter_map comp_def)

lemma delete_sessions_shape:
  "\<exists>t. trace (delete_sessions svc ids w) = trace w @ t \<and> cleanup_trace (outcomes t) = t"
proof (induction ids arbitrary: w)
  case Nil
  show ?case by simp
next
  case (Cons i ids)
  let ?c = "Sessions_delete ''me'' i"
  let ?r = "fst (svc ?c (remote w))"
  let ?w1 = "case execute svc ?c w of
               (Inr _, w1) \<Rightarrow> print (Deleted_session i) w1
             | (Inl error, w1) \<Rightarrow> print (Error_deleting_session i error) w1"
  have step: "trace ?w1 = trace w @ cleanup_events (?c, ?r)"
    by (cases ?r) (simp_all add: execute_eq cleanup_events_def)
  from Cons.IH [of ?w1] obtain t where
    t: "trace (delete_sessions svc ids ?w1) = trace ?w1 @ t" "cleanup_trace (outcomes t) = t"
    by blast
  have "trace (delete_sessions svc (i # ids) w) = trace w @ (cleanup_events (?c, ?r) @ t)"
    using t(1) step by simp
  moreover have "cleanup_trace (outcomes (cleanup_events (?c, ?r) @ t))
      = cleanup_events (?c, ?r) @ t"
    using t(2) by (cases ?r) (simp_all add: cleanup_events_def)
  ultimately show ?case by blast
qed

lemma delete_datasets_shape:
  "\<exists>t. trace (delete_datasets svc a b ids w) = trace w @ t \<and> cleanup_trace (outcomes t) = t"
proof (induction ids arbitrary: w)
  case Nil
  show ?case by simp
next
  case (Cons i ids)
  let ?d = "str_int a @ ''-'' @ str_int b"
  let ?c = "Datasets_delete ''me'' i ?d"
  let ?r = "fst (svc ?c (remote w))"
  let ?ours = "str_in PROJECT_NUMBER i \<and> str_in ''microcloud'' i"
  let ?w1 = "if ?ours then
               (let dataset_id = str_int a @ ''-'' @ str_int b
                in case execute svc (Datasets_delete ''me'' i dataset_id) w of
                     (Inr _, w1) \<Rightarrow> print (Deleted_dataset_for i) w1
                   | (Inl error, w1) \<Rightarrow>
                       if resp_status error \<noteq> 404
                       then print (Error_deleting_dataset_for i error) w1
                       else w1)
             else w"
  let ?s = "if ?ours then cleanup_events (?c, ?r) else []"
  have step: "trace ?w1 = trace w @ ?s"
    by (cases ?r) (simp_all add: execute_eq Let_def cleanup_events_def)
  from Cons.IH [of ?w1] obtain t where
    t: "trace (delete_datasets svc a b ids ?w1) = trace ?w1 @ t" "cleanup_trace (outcomes t) = t"
    by blast
  have "trace (delete_datasets svc a b (i # ids) w) = trace w @ (?s @ t)"
    using t(1) step by simp
  moreover have "cleanup_trace (outcomes (?s @ t)) = ?s @ t"
    using t(2) by (cases ?r) (simp_all add: cleanup_events_def)
  ultimately show ?case by blast
qed

lemma sessions_phase_shape:
  "\<exists>t. trace (case execute svc (Sessions_list ''me'' a b) w of
                 (Inr sessions, wa) \<Rightarrow>
                   (case session_ids sessions of
                      Some ids \<Rightarrow> delete_sessions svc ids wa
                    | None \<Rightarrow> print No_sessions_found_for_today wa)
               | (Inl error, wa) \<Rightarrow> print (Error_listing_sessions error) wa) = trace w @ t
       \<and> cleanup_trace (outcomes t) = t"
proof -
  let ?c = "Sessions_list ''me'' a b"
  let ?r = "fst (svc ?c (remote w))"
  let ?wa = "w\<lparr>remote := snd (svc ?c (remote w)), trace := trace w @ [Called ?c ?r]\<rparr>"
  show ?thesis
  proof (cases ?r)
    case (Inl e)
    then show ?thesis
      by (intro exI [of _ "[Called ?c ?r, Printed (Error_listing_sessions e)]"])
         (simp add: execute_eq cleanup_events_def)
  next
    case (Inr rep)
    show ?thesis
    proof (cases "session_ids rep")
      case None
      with Inr show ?thesis
        by (intro exI [of _ "[Called ?c ?r, Printed No_sessions_found_for_today]"])
           (simp add: execute_eq cleanup_events_def)
    next
      case (Some ids)
      from delete_sessions_shape [of svc ids ?wa] obtain t where
        t: "trace (delete_sessions svc ids ?wa) = trace ?wa @ t" "cleanup_trace (outcomes t) = t"
        by blast
      with Inr Some show ?thesis
        by (intro exI [of _ "Called ?c ?r # t"]) (simp add: execute_eq cleanup_events_def)
    qed
  qed
qed

lemma data_sources_phase_shape:
  "\<exists>t. trace (case execute svc (DataSources_list ''me'') w of
                 (Inr data_sources_result, wb) \<Rightarrow>
                   (case dataSource_ids data_sources_result of
                      Some ids \<Rightarrow> delete_datasets svc a b ids wb
                    | None \<Rightarrow> print No_data_sources_found wb)
               | (Inl error, wb) \<Rightarrow> print (Error_listing_data_sources error) wb) = trace w @ t
       \<and> cleanup_trace (outcomes t) = t"
proof -
  let ?c = "DataSources_list ''me''"
  let ?r = "fst (svc ?c (remote w))"
  let ?wb = "w\<lparr>remote := snd (svc ?c (remote w)), trace := trace w @ [Called ?c ?r]\<rparr>"
  show ?thesis
  proof (cases ?r)
    case (Inl e)
    then show ?thesis
      by (intro exI [of _ "[Called ?c ?r, Printed (Error_listing_data_sources e)]"])
         (simp add: execute_eq cleanup_events_def)
  next
    case (Inr rep)
    show ?thesis
    proof (cases "dataSource_ids rep")
      case None
      with Inr show ?thesis
        by (intro exI [of _ "[Called ?c ?r, Printed No_data_sources_found]"])
           (simp add: execute_eq cleanup_events_def)
    next
      case (Some ids)
      from delete_datasets_shape [of svc a b ids ?wb] obtain t where
        t: "trace (delete_datasets svc a b ids ?wb) = trace ?wb @ t" "cleanup_trace (outcomes t) = t"
        by blast
      with Inr Some show ?thesis
        by (intro exI [of _ "Called ?c ?r # t"]) (simp add: execute_eq cleanup_events_def)
    qed
  qed
qed

lemma clean_up_shape:
  fixes env :: "('dt, 's) env" and w :: "'s world"
  defines "evs \<equiv> new_events w (snd (clean_up_todays_activities env w))"
  defines "today \<equiv> replace_midnight env (now env)"
  defines "tomorrow \<equiv> plus_one_day env (replace_midnight env (now env))"
  shows "filter is_output evs =
           Printed (Cleaning_up_activities (str_datetime env today) (str_datetime env tomorrow))
           # cleanup_trace (outcomes evs) @ [Printed Cleanup_completed]"
proof -
  let ?svc = "build env (fst (get_credentials env w))"
  let ?w0 = "snd (get_credentials env w)"
  let ?m = "Cleaning_up_activities (str_datetime env today) (str_datetime env tomorrow)"
  let ?w1 = "print ?m ?w0"
  let ?a = "isoformat env today @ ''Z''"
  let ?b = "isoformat env tomorrow @ ''Z''"
  let ?w2 = "case execute ?svc (Sessions_list ''me'' ?a ?b) ?w1 of
               (Inr sessions, wa) \<Rightarrow>
                 (case session_ids sessions of
                    Some ids \<Rightarrow> delete_sessions ?svc ids wa
                  | None \<Rightarrow> print No_sessions_found_for_today wa)
             | (Inl error, wa) \<Rightarrow> print (Error_listing_sessions error) wa"
  let ?ns = "timestamp_ns env today"
  let ?ne = "timestamp_ns env tomorrow"
  let ?w3 = "case execute ?svc (DataSources_list ''me'') ?w2 of
               (Inr data_sources_result, wb) \<Rightarrow>
                 (case dataSource_ids data_sources_result of
                    Some ids \<Rightarrow> delete_datasets ?svc ?ns ?ne ids wb
                  | None \<Rightarrow> print No_data_sources_found wb)
             | (Inl error, wb) \<Rightarrow> print (Error_listing_data_sources error) wb"
  have run: "clean_up_todays_activities env w = (True, print Cleanup_completed ?w3)"
    unfolding clean_up_todays_activities_def today_def tomorrow_def Let_def
    by (cases "get_credentials env w") (simp only: prod.case fst_conv snd_conv)
  from get_credentials_segment [of env w] obtain ta where
    ta: "trace ?w0 = trace w @ ta" "ta = [] \<or> (\<exists>c. ta = [Refresh_called c]) \<or> ta = [Flow_run]"
    by blast
  from sessions_phase_shape [where svc = ?svc and w = ?w1 and a = ?a and b = ?b] obtain t1 where
    t1: "trace ?w2 = trace ?w1 @ t1" "cleanup_trace (outcomes t1) = t1"
    by blast
  from data_sources_phase_shape [where svc = ?svc and w = ?w2 and a = ?ns and b = ?ne]
  obtain t2 where
    t2: "trace ?w3 = trace ?w2 @ t2" "cleanup_trace (outcomes t2) = t2"
    by blast
  have "trace (print Cleanup_completed ?w3)
          = trace w @ (ta @ Printed ?m # t1 @ t2 @ [Printed Cleanup_completed])"
    using ta(1) t1(1) t2(1) by simp
  then have evs: "evs = ta @ Printed ?m # t1 @ t2 @ [Printed Cleanup_completed]"
    unfolding evs_def run by simp
  have ta_e: "outcomes ta = []" "filter is_output ta = []"
    using ta(2) by auto
  have out: "filter is_output t1 = t1" "filter is_output t2 = t2"
    using cleanup_trace_output [of "outcomes t1"] cleanup_trace_output [of "outcomes t2"]
    unfolding t1(2) t2(2) by simp_all
  show ?thesis
    by (simp add: evs ta_e out t1(2) t2(2))
qed

subsection \<open>The cleanup routine\<close>

text \<open>
  C2. During the cleanup, for every data source that a data-source listing returned, a
  dataset-delete request is issued for it if and only if its \<open>dataStreamId\<close> contains
  both the project number \<open>394921715331\<close> and the substring \<open>microcloud\<close>; no
  dataset-delete request addresses any other data source. The requests are issued in the
  order of the listing, each for today's dataset.
\<close>

theorem cleanup_deletes_datasets_of_own_sources_only:
  fixes env :: "('dt, 's) env" and w :: "'s world"
  shows
  "let evs = new_events w (snd (clean_up_todays_activities env w));
       ours = (\<lambda>i. (\<exists>p q. i = p @ ''394921715331'' @ q) \<and> (\<exists>p q. i = p @ ''microcloud'' @ q));
       today = replace_midnight env (now env);
       dataset_id = str_int (timestamp_ns env today) @ ''-''
                      @ str_int (timestamp_ns env (plus_one_day env today))
   in (\<forall>i \<in> set (listed_data_sources evs).
         (\<exists>u d. Datasets_delete u i d \<in> set (calls_of evs)) \<longleftrightarrow> ours i)
      \<and> (\<forall>u i d. Datasets_delete u i d \<in> set (calls_of evs) \<longrightarrow>
            i \<in> set (listed_data_sources evs) \<and> ours i)
      \<and> filter is_dataset_delete (calls_of evs) =
          map (\<lambda>i. Datasets_delete ''me'' i dataset_id) (filter ours (listed_data_sources evs))"
proof -
  define evs where "evs = new_events w (snd (clean_up_todays_activities env w))"
  define ours :: "string \<Rightarrow> bool" where
    "ours = (\<lambda>i. (\<exists>p q. i = p @ ''394921715331'' @ q) \<and> (\<exists>p q. i = p @ ''microcloud'' @ q))"
  define dataset_id where
    "dataset_id = str_int (timestamp_ns env (replace_midnight env (now env))) @ ''-''
        @ str_int (timestamp_ns env (plus_one_day env (replace_midnight env (now env))))"
  have ours: "ours = (\<lambda>i. str_in PROJECT_NUMBER i \<and> str_in ''microcloud'' i)"
    by (simp add: ours_def str_in_iff PROJECT_NUMBER_def)
  have eq: "filter is_dataset_delete (calls_of evs) =
          map (\<lambda>i. Datasets_delete ''me'' i dataset_id) (filter ours (listed_data_sources evs))"
    unfolding evs_def dataset_id_def ours by (rule clean_up_facts(3))
  have mem: "Datasets_delete u i d \<in> set (calls_of evs) \<longleftrightarrow>
               u = ''me'' \<and> d = dataset_id \<and> i \<in> set (listed_data_sources evs) \<and> ours i"
    for u i d
  proof -
    have "Datasets_delete u i d \<in> set (calls_of evs) \<longleftrightarrow>
            Datasets_delete u i d \<in> set (filter is_dataset_delete (calls_of evs))"
      by simp
    also have "\<dots> \<longleftrightarrow> u = ''me'' \<and> d = dataset_id \<and> i \<in> set (listed_data_sources evs) \<and> ours i"
      unfolding eq by auto
    finally show ?thesis .
  qed
  have "(\<forall>i \<in> set (listed_data_sources evs).
           (\<exists>u d. Datasets_delete u i d \<in> set (calls_of evs)) \<longleftrightarrow> ours i)
      \<and> (\<forall>u i d. Datasets_delete u i d \<in> set (calls_of evs) \<longrightarrow>
            i \<in> set (listed_data_sources evs) \<and> ours i)
      \<and> filter is_dataset_delete (calls_of evs) =
          map (\<lambda>i. Datasets_delete ''me'' i dataset_id) (filter ours (listed_data_sources evs))"
    using eq by (simp add: mem)
  then show ?thesis
    unfolding Let_def evs_def ours_def dataset_id_def .
qed

text \<open>
  A run in which the listing returns \<open>a\<close>, which is foreign, and one data source of
  this program: only the latter gets a dataset-delete request.
\<close>

theorem cleanup_deletes_datasets_of_own_sources_only_witness:
  "get_data_source_id ''x''
     \<in> set (listed_data_sources (new_events (demo_world (Some ''tok''))
         (snd (clean_up_todays_activities
            (demo_env (demo_service (Some [''s1'']) (Some [''a'', get_data_source_id ''x''])
               (\<lambda>c. None)))
            (demo_world (Some ''tok''))))))
   \<and> (\<exists>u d. Datasets_delete u (get_data_source_id ''x'') d
         \<in> set (calls_of (new_events (demo_world (Some ''tok''))
         (snd (clean_up_todays_activities
            (demo_env (demo_service (Some [''s1'']) (Some [''a'', get_data_source_id ''x''])
               (\<lambda>c. None)))
            (demo_world (Some ''tok'')))))))
   \<and> ''a''
     \<in> set (listed_data_sources (new_events (demo_world (Some ''tok''))
         (snd (clean_up_todays_activities
            (demo_env (demo_service (Some [''s1'']) (Some [''a'', get_data_source_id ''x''])
               (\<lambda>c. None)))
            (demo_world (Some ''tok''))))))
   \<and> \<not> (\<exists>u d. Datasets_delete u ''a'' d
         \<in> set (calls_of (new_events (demo_world (Some ''tok''))
         (snd (clean_up_todays_activities
            (demo_env (demo_service (Some [''s1'']) (Some [''a'', get_data_source_id ''x''])
               (\<lambda>c. None)))
            (demo_world (Some ''tok'')))))))"
proof -
  let ?env = "demo_env (demo_service (Some [''s1'']) (Some [''a'', get_data_source_id ''x''])
               (\<lambda>c. None))"
  let ?w = "demo_world (Some ''tok'')"
  let ?evs = "new_events ?w (snd (clean_up_todays_activities ?env ?w))"
  let ?ours = "\<lambda>i. (\<exists>p q. i = p @ ''394921715331'' @ q) \<and> (\<exists>p q. i = p @ ''microcloud'' @ q)"
  have listed: "listed_data_sources ?evs = [''a'', get_data_source_id ''x'']"
    by (simp add: clean_up_todays_activities_def get_credentials_def valid_def demo_env_def timestamp_ns_def timestamp_ms_def py_int_def
        demo_service_def demo_world_def execute_def print_def new_events_def
        get_data_source_id_def PROJECT_NUMBER_def Let_def)
  have own: "?ours (get_data_source_id ''x'')"
    unfolding str_in_iff [symmetric] by (simp add: get_data_source_id_def PROJECT_NUMBER_def)
  have foreign: "\<not> ?ours ''a''"
    unfolding str_in_iff [symmetric] by simp
  have iff: "\<forall>i \<in> set (listed_data_sources ?evs).
         (\<exists>u d. Datasets_delete u i d \<in> set (calls_of ?evs)) \<longleftrightarrow> ?ours i"
    using cleanup_deletes_datasets_of_own_sources_only [of ?w ?env]
    unfolding Let_def by (rule conjunct1)
  have m1: "get_data_source_id ''x'' \<in> set (listed_data_sources ?evs)"
    and m2: "''a'' \<in> set (listed_data_sources ?evs)"
    unfolding listed by simp_all
  from iff m1 own have "\<exists>u d. Datasets_delete u (get_data_source_id ''x'') d \<in> set (calls_of ?evs)"
    by blast
  moreover from iff m2 foreign have "\<not> (\<exists>u d. Datasets_delete u ''a'' d \<in> set (calls_of ?evs))"
    by blast
  ultimately show ?thesis
    using m1 m2 by blast
qed

text \<open>
  C5 (as stated, refuted). The claim says that a 404 of a deletion is not reported as an
  error, for session deletions as for dataset deletions. A session deletion that fails
  with 404 is reported: the handler of the session loop prints every \<open>HttpError\<close>.
\<close>

theorem session_delete_not_found_is_reported:
  "Called (Sessions_delete ''me'' ''s1'') (Inl (HttpError 404))
     \<in> set (new_events (demo_world (Some ''tok''))
         (snd (clean_up_todays_activities
            (demo_env (demo_service (Some [''s1'']) None
               (\<lambda>c. case c of Sessions_delete u i \<Rightarrow> Some 404 | _ \<Rightarrow> None)))
            (demo_world (Some ''tok'')))))
   \<and> Printed (Error_deleting_session ''s1'' (HttpError 404))
     \<in> set (new_events (demo_world (Some ''tok''))
         (snd (clean_up_todays_activities
            (demo_env (demo_service (Some [''s1'']) None
               (\<lambda>c. case c of Sessions_delete u i \<Rightarrow> Some 404 | _ \<Rightarrow> None)))
            (demo_world (Some ''tok'')))))"
  by (simp add: clean_up_todays_activities_def get_credentials_def valid_def demo_env_def timestamp_ns_def timestamp_ms_def py_int_def
      demo_service_def demo_world_def execute_def print_def new_events_def Let_def)

text \<open>
  C5 (amended). During the cleanup a 404 of a dataset deletion is ignored: nothing is
  printed for it. Every other error of a dataset deletion, and every error of a session
  deletion (a 404 too), is printed, a deletion that succeeds prints its own line, and
  nothing else is printed after a deletion: between its first and its last line, the
  output of the cleanup is \<open>cleanup_trace\<close> of its requests and their outcomes. In all
  these cases processing continues: the requests of the cleanup are, in this order, the
  listing of the sessions, one deletion per listed session, the listing of the data
  sources, and one dataset deletion per listed data source of this program.
\<close>

theorem cleanup_deletion_errors:
  fixes env :: "('dt, 's) env" and w :: "'s world"
  shows
  "let evs = new_events w (snd (clean_up_todays_activities env w));
       today = replace_midnight env (now env);
       tomorrow = plus_one_day env today;
       dataset_id = str_int (timestamp_ns env today) @ ''-'' @ str_int (timestamp_ns env tomorrow)
   in (\<forall>u i d e. Called (Datasets_delete u i d) (Inl e) \<in> set evs \<and> resp_status e \<noteq> 404 \<longrightarrow>
          Printed (Error_deleting_dataset_for i e) \<in> set evs)
      \<and> (\<forall>i e. Printed (Error_deleting_dataset_for i e) \<in> set evs \<longrightarrow> resp_status e \<noteq> 404)
      \<and> (\<forall>u i e. Called (Sessions_delete u i) (Inl e) \<in> set evs \<longrightarrow>
            Printed (Error_deleting_session i e) \<in> set evs)
      \<and> filter is_output evs =
          Printed (Cleaning_up_activities (str_datetime env today) (str_datetime env tomorrow))
          # cleanup_trace (outcomes evs) @ [Printed Cleanup_completed]
      \<and> calls_of evs =
          Sessions_list ''me'' (isoformat env today @ ''Z'') (isoformat env tomorrow @ ''Z'')
          # map (Sessions_delete ''me'') (listed_sessions evs)
          @ DataSources_list ''me''
          # map (\<lambda>i. Datasets_delete ''me'' i dataset_id)
              (filter (\<lambda>i. str_in PROJECT_NUMBER i \<and> str_in ''microcloud'' i)
                 (listed_data_sources evs))
      \<and> filter is_session_delete (calls_of evs) =
          map (Sessions_delete ''me'') (listed_sessions evs)
      \<and> DataSources_list ''me'' \<in> set (calls_of evs)
      \<and> filter is_dataset_delete (calls_of evs) =
          map (\<lambda>i. Datasets_delete ''me'' i dataset_id)
            (filter (\<lambda>i. str_in PROJECT_NUMBER i \<and> str_in ''microcloud'' i)
               (listed_data_sources evs))"
  unfolding Let_def
  using clean_up_facts(2,3,5,6,8,9) [of w env] clean_up_shape [of w env]
  by blast

text \<open>
  A run in which the only session deletion fails with 404, the first dataset deletion
  with 404 and the second with 500: the first and the last failure are printed, nothing
  is printed for the 404 of the dataset deletion, and both loops run to their end.
\<close>

theorem cleanup_deletion_errors_witness:
  "Called (Datasets_delete ''me'' (get_data_source_id ''y'')
             (str_int 86400000000000 @ ''-'' @ str_int 172800000000000))
       (Inl (HttpError 500))
     \<in> set (new_events (demo_world (Some ''tok''))
         (snd (clean_up_todays_activities
            (demo_env (demo_service (Some [''s1''])
               (Some [get_data_source_id ''x'', get_data_source_id ''y''])
               (\<lambda>c. case c of
                      Datasets_delete u i d \<Rightarrow>
                        if i = get_data_source_id ''x'' then Some 404 else Some 500
                    | Sessions_delete u i \<Rightarrow> Some 404 | _ \<Rightarrow> None)))
            (demo_world (Some ''tok'')))))
   \<and> resp_status (HttpError 500) \<noteq> 404
   \<and> Printed (Error_deleting_dataset_for (get_data_source_id ''y'') (HttpError 500))
     \<in> set (new_events (demo_world (Some ''tok''))
         (snd (clean_up_todays_activities
            (demo_env (demo_service (Some [''s1''])
               (Some [get_data_source_id ''x'', get_data_source_id ''y''])
               (\<lambda>c. case c of
                      Datasets_delete u i d \<Rightarrow>
                        if i = get_data_source_id ''x'' then Some 404 else Some 500
                    | Sessions_delete u i \<Rightarrow> Some 404 | _ \<Rightarrow> None)))
            (demo_world (Some ''tok'')))))
   \<and> Called (Sessions_delete ''me'' ''s1'') (Inl (HttpError 404))
     \<in> set (new_events (demo_world (Some ''tok''))
         (snd (clean_up_todays_activities
            (demo_env (demo_service (Some [''s1''])
               (Some [get_data_source_id ''x'', get_data_source_id ''y''])
               (\<lambda>c. case c of
                      Datasets_delete u i d \<Rightarrow>
                        if i = get_data_source_id ''x'' then Some 404 else Some 500
                    | Sessions_delete u i \<Rightarrow> Some 404 | _ \<Rightarrow> None)))
            (demo_world (Some ''tok'')))))
   \<and> Printed (Error_deleting_session ''s1'' (HttpError 404))
     \<in> set (new_events (demo_world (Some ''tok''))
         (snd (clean_up_todays_activities
            (demo_env (demo_service (Some [''s1''])
               (Some [get_data_source_id ''x'', get_data_source_id ''y''])
               (\<lambda>c. case c of
                      Datasets_delete u i d \<Rightarrow>
                        if i = get_data_source_id ''x'' then Some 404 else Some 500
                    | Sessions_delete u i \<Rightarrow> Some 404 | _ \<Rightarrow> None)))
            (demo_world (Some ''tok'')))))
   \<and> filter is_output (new_events (demo_world (Some ''tok''))
         (snd (clean_up_todays_activities
            (demo_env (demo_service (Some [''s1''])
               (Some [get_data_source_id ''x'', get_data_source_id ''y''])
               (\<lambda>c. case c of
                      Datasets_delete u i d \<Rightarrow>
                        if i = get_data_source_id ''x'' then Some 404 else Some 500
                    | Sessions_delete u i \<Rightarrow> Some 404 | _ \<Rightarrow> None)))
            (demo_world (Some ''tok'')))))
       = [Printed (Cleaning_up_activities (str_nat 86400) (str_nat 172800)),
          Called (Sessions_list ''me'' (str_nat 86400 @ ''Z'') (str_nat 172800 @ ''Z''))
            (Inr \<lparr>dataStreamId = None, session_ids = Some [''s1''],
                  dataSource_ids = Some [get_data_source_id ''x'', get_data_source_id ''y'']\<rparr>),
          Called (Sessions_delete ''me'' ''s1'') (Inl (HttpError 404)),
          Printed (Error_deleting_session ''s1'' (HttpError 404)),
          Called (DataSources_list ''me'')
            (Inr \<lparr>dataStreamId = None, session_ids = Some [''s1''],
                  dataSource_ids = Some [get_data_source_id ''x'', get_data_source_id ''y'']\<rparr>),
          Called (Datasets_delete ''me'' (get_data_source_id ''x'')
                    (str_int 86400000000000 @ ''-'' @ str_int 172800000000000))
            (Inl (HttpError 404)),
          Called (Datasets_delete ''me'' (get_data_source_id ''y'')
                    (str_int 86400000000000 @ ''-'' @ str_int 172800000000000))
            (Inl (HttpError 500)),
          Printed (Error_deleting_dataset_for (get_data_source_id ''y'') (HttpError 500)),
          Printed Cleanup_completed]"
proof -
  let ?x = "get_data_source_id ''x''"
  let ?y = "get_data_source_id ''y''"
  let ?env = "demo_env (demo_service (Some [''s1'']) (Some [?x, ?y])
               (\<lambda>c. case c of
                      Datasets_delete u i d \<Rightarrow> if i = ?x then Some 404 else Some 500
                    | Sessions_delete u i \<Rightarrow> Some 404 | _ \<Rightarrow> None))"
  let ?w = "demo_world (Some ''tok'')"
  let ?evs = "new_events ?w (snd (clean_up_todays_activities ?env ?w))"
  let ?d = "str_int 86400000000000 @ ''-'' @ str_int 172800000000000"
  let ?rep = "\<lparr>dataStreamId = None, session_ids = Some [''s1''],
                dataSource_ids = Some [?x, ?y]\<rparr>"
  have o: "outcomes ?evs =
      [(Sessions_list ''me'' (str_nat 86400 @ ''Z'') (str_nat 172800 @ ''Z''), Inr ?rep),
       (Sessions_delete ''me'' ''s1'', Inl (HttpError 404)),
       (DataSources_list ''me'', Inr ?rep),
       (Datasets_delete ''me'' ?x ?d, Inl (HttpError 404)),
       (Datasets_delete ''me'' ?y ?d, Inl (HttpError 500))]"
    by (simp add: clean_up_todays_activities_def get_credentials_def valid_def demo_env_def
        timestamp_ns_def timestamp_ms_def py_int_def
        demo_service_def demo_world_def execute_def print_def new_events_def
        get_data_source_id_def PROJECT_NUMBER_def Let_def)
  have c1: "Called (Datasets_delete ''me'' ?y ?d) (Inl (HttpError 500)) \<in> set ?evs"
    and c2: "Called (Sessions_delete ''me'' ''s1'') (Inl (HttpError 404)) \<in> set ?evs"
    by (simp_all add: clean_up_todays_activities_def get_credentials_def valid_def demo_env_def
        timestamp_ns_def timestamp_ms_def py_int_def
        demo_service_def demo_world_def execute_def print_def new_events_def
        get_data_source_id_def PROJECT_NUMBER_def Let_def)
  have c3: "resp_status (HttpError 500) \<noteq> 404"
    by simp
  have t: "str_datetime ?env (replace_midnight ?env (now ?env)) = str_nat 86400"
    "str_datetime ?env (plus_one_day ?env (replace_midnight ?env (now ?env))) = str_nat 172800"
    by (simp_all add: demo_env_def)
  note inst = cleanup_deletion_errors [of ?w ?env, unfolded Let_def]
  from inst c1 c3 have "Printed (Error_deleting_dataset_for ?y (HttpError 500)) \<in> set ?evs"
    by blast
  moreover from inst c2 have "Printed (Error_deleting_session ''s1'' (HttpError 404)) \<in> set ?evs"
    by blast
  moreover from inst have "filter is_output ?evs =
      Printed (Cleaning_up_activities
                 (str_datetime ?env (replace_midnight ?env (now ?env)))
                 (str_datetime ?env (plus_one_day ?env (replace_midnight ?env (now ?env)))))
      # cleanup_trace (outcomes ?evs) @ [Printed Cleanup_completed]"
    by blast
  then have "filter is_output ?evs =
      [Printed (Cleaning_up_activities (str_nat 86400) (str_nat 172800)),
       Called (Sessions_list ''me'' (str_nat 86400 @ ''Z'') (str_nat 172800 @ ''Z'')) (Inr ?rep),
       Called (Sessions_delete ''me'' ''s1'') (Inl (HttpError 404)),
       Printed (Error_deleting_session ''s1'' (HttpError 404)),
       Called (DataSources_list ''me'') (Inr ?rep),
       Called (Datasets_delete ''me'' ?x ?d) (Inl (HttpError 404)),
       Called (Datasets_delete ''me'' ?y ?d) (Inl (HttpError 500)),
       Printed (Error_deleting_dataset_for ?y (HttpError 500)),
       Printed Cleanup_completed]"
    unfolding o t by (simp add: cleanup_events_def)
  ultimately show ?thesis
    using c1 c2 c3 by blast
qed

subsection \<open>The segments of \<open>log_activity\<close>\<close>

lemma data_source_ids_differ:
  "get_data_source_id ''com.google.activity.segment'' \<noteq> get_data_source_id ''com.google.calories.expended''"
  "get_data_source_id ''com.google.activity.segment'' \<noteq> get_data_source_id ''com.google.step_count.delta''"
  "get_data_source_id ''com.google.calories.expended'' \<noteq> get_data_source_id ''com.google.step_count.delta''"
  by (simp_all add: get_data_source_id_def)

lemma get_data_source_id_nonempty [simp]: "get_data_source_id n \<noteq> []"
  by (simp add: get_data_source_id_def)

lemma create_data_source_segment:
  "\<exists>t. trace (snd (create_data_source svc n app w)) = trace w @ t
       \<and> all_reported t
       \<and> (\<forall>c \<in> set (calls_of t). is_provisioning c \<and> data_source_of c = Some (get_data_source_id n))
       \<and> distinct (calls_of t)
       \<and> (fst (create_data_source svc n app w) = None
            \<or> fst (create_data_source svc n app w) = Some (get_data_source_id n))
       \<and> (fst (create_data_source svc n app w) = None \<longrightarrow>
            (\<exists>e. Printed (Error_checking_data_source e) \<in> set t
                \<or> Printed (Error_creating_data_source e) \<in> set t))"
proof -
  let ?i = "get_data_source_id n"
  let ?get = "DataSources_get ''me'' ?i"
  let ?r = "fst (svc ?get (remote w))"
  let ?s1 = "snd (svc ?get (remote w))"
  let ?create = "DataSources_create ''me'' (data_source_body ?i n app)"
  let ?r2 = "fst (svc ?create ?s1)"
  show ?thesis
  proof (cases ?r)
    case (Inr rep)
    then show ?thesis
      by (intro exI [of _ "[Called ?get ?r, Printed (Data_source_already_exists ?i)]"])
         (simp add: create_data_source_def execute_eq Let_def)
  next
    case (Inl e)
    show ?thesis
    proof (cases "resp_status e = 404")
      case False
      with Inl show ?thesis
        by (intro exI [of _ "[Called ?get ?r, Printed (Error_checking_data_source e)]"])
           (auto simp add: create_data_source_def execute_eq Let_def)
    next
      case True
      show ?thesis
      proof (cases ?r2)
        case (Inr result)
        with Inl True show ?thesis
          by (intro exI [of _ "[Called ?get ?r, Printed (Creating_data_source ?i),
                                Called ?create ?r2,
                                Printed (Data_source_created (dataStreamId result))]"])
             (simp add: create_data_source_def execute_eq Let_def data_source_body_def)
      next
        case (Inl e2)
        with \<open>?r = Inl e\<close> True show ?thesis
          by (intro exI [of _ "[Called ?get ?r, Printed (Creating_data_source ?i),
                                Called ?create ?r2,
                                Printed (Error_creating_data_source e2)]"])
             (auto simp add: create_data_source_def execute_eq Let_def data_source_body_def)
      qed
    qed
  qed
qed

lemma log_session_eq:
  "log_session env svc a s e w =
     (let c = Sessions_update ''me'' (''session-'' @ str_int (timestamp_ms env s))
                (session_body a (timestamp_ms env s) (timestamp_ms env e));
          r = fst (svc c (remote w))
      in (case r of Inr _ \<Rightarrow> True | Inl _ \<Rightarrow> False,
          w\<lparr>remote := snd (svc c (remote w)),
            trace := trace w @ [Called c r,
               Printed (case r of Inr _ \<Rightarrow> Session_created_successfully
                        | Inl error \<Rightarrow> Error_creating_session error)]\<rparr>))"
  by (simp add: log_session_def execute_eq Let_def print_def split: sum.splits)

lemma request_data_aggregation_eq:
  "request_data_aggregation env svc s e w =
     (let c = Dataset_aggregate ''me''
                (aggregation_request (timestamp_ms env s) (timestamp_ms env e));
          r = fst (svc c (remote w))
      in (case r of Inr _ \<Rightarrow> True | Inl _ \<Rightarrow> False,
          w\<lparr>remote := snd (svc c (remote w)),
            trace := trace w @ [Called c r,
               Printed (case r of Inr _ \<Rightarrow> Data_aggregation_requested_successfully
                        | Inl error \<Rightarrow> Error_requesting_data_aggregation error)]\<rparr>))"
  by (simp add: request_data_aggregation_def execute_eq Let_def print_def split: sum.splits)

lemma guarded_execute:
  "\<exists>g. trace (snd (if b then execute svc c w else (Inr empty_reply, w))) = trace w @ g
       \<and> (case fst (if b then execute svc c w else (Inr empty_reply, w)) of
             Inl err \<Rightarrow> b \<and> g = [Called c (Inl err)]
           | Inr rep \<Rightarrow> (\<not> b \<and> g = []) \<or> (b \<and> (\<exists>rep'. g = [Called c (Inr rep')])))"
  by (cases "fst (svc c (remote w))") (simp_all add: execute_eq)

lemma tail_segment:
  fixes env :: "('dt, 's) env" and w3 :: "'s world"
  shows
  "\<exists>r4 m4 tagg. trace (print Data_points_inserted_successfully
          (let w4 = snd (log_session env svc a s e w3)
           in if truthy_int steps
              then snd (request_data_aggregation env svc s e w4)
              else w4))
     = trace w3 @ [Called (Sessions_update ''me'' (''session-'' @ str_int (timestamp_ms env s))
                      (session_body a (timestamp_ms env s) (timestamp_ms env e))) r4,
                   Printed m4] @ tagg @ [Printed Data_points_inserted_successfully]
     \<and> (case r4 of Inr _ \<Rightarrow> m4 = Session_created_successfully
         | Inl err \<Rightarrow> m4 = Error_creating_session err)
     \<and> (if truthy_int steps
         then \<exists>r5 m5. tagg = [Called (Dataset_aggregate ''me''
                    (aggregation_request (timestamp_ms env s) (timestamp_ms env e))) r5, Printed m5]
                \<and> (case r5 of Inr _ \<Rightarrow> m5 = Data_aggregation_requested_successfully
                    | Inl err \<Rightarrow> m5 = Error_requesting_data_aggregation err)
         else tagg = [])"
  by (simp add: log_session_eq request_data_aggregation_eq Let_def split: sum.splits)

lemma try_cases [consumes 1, case_names fail1 fail2 fail3 ok]:
  fixes env :: "('dt, 's) env" and w w' :: "'s world"
  assumes R: "log_activity_try env svc a s e cal steps aid cid sid w = (r, w')"
  defines "d \<equiv> str_int (timestamp_ns env s) @ ''-'' @ str_int (timestamp_ns env e)"
  defines "p1 \<equiv> Datasets_patch ''me'' aid d
                   (activity_segment aid (timestamp_ns env s) (timestamp_ns env e) a)"
  defines "p2 \<equiv> Datasets_patch ''me'' (the cid) d
                   (calories_data (the cid) (timestamp_ns env s) (timestamp_ns env e) (the cal))"
  defines "p3 \<equiv> Datasets_patch ''me'' (the sid) d
                   (steps_data (the sid) (timestamp_ns env s) (timestamp_ns env e) (the steps))"
  defines "b2 \<equiv> truthy_num cal \<and> truthy_str cid"
  defines "b3 \<equiv> truthy_int steps \<and> truthy_str sid"
  obtains
    (fail1) err where "r = Inl err" "trace w' = trace w @ [Called p1 (Inl err)]"
  | (fail2) err rep1 where "b2" "r = Inl err"
      "trace w' = trace w @ [Called p1 (Inr rep1), Called p2 (Inl err)]"
  | (fail3) err rep1 g2 where "b3" "r = Inl err"
      "trace w' = trace w @ Called p1 (Inr rep1) # g2 @ [Called p3 (Inl err)]"
      "(\<not> b2 \<and> g2 = []) \<or> (b2 \<and> (\<exists>rep. g2 = [Called p2 (Inr rep)]))"
  | (ok) rep1 g2 g3 r4 m4 tagg where "r = Inr True"
      "trace w' = trace w @ Called p1 (Inr rep1) # g2 @ g3
         @ [Called (Sessions_update ''me'' (''session-'' @ str_int (timestamp_ms env s))
                      (session_body a (timestamp_ms env s) (timestamp_ms env e))) r4,
            Printed m4] @ tagg @ [Printed Data_points_inserted_successfully]"
      "(\<not> b2 \<and> g2 = []) \<or> (b2 \<and> (\<exists>rep. g2 = [Called p2 (Inr rep)]))"
      "(\<not> b3 \<and> g3 = []) \<or> (b3 \<and> (\<exists>rep. g3 = [Called p3 (Inr rep)]))"
      "case r4 of Inr _ \<Rightarrow> m4 = Session_created_successfully
         | Inl err \<Rightarrow> m4 = Error_creating_session err"
      "if truthy_int steps
         then \<exists>r5 m5. tagg = [Called (Dataset_aggregate ''me''
                    (aggregation_request (timestamp_ms env s) (timestamp_ms env e))) r5, Printed m5]
                \<and> (case r5 of Inr _ \<Rightarrow> m5 = Data_aggregation_requested_successfully
                    | Inl err \<Rightarrow> m5 = Error_requesting_data_aggregation err)
         else tagg = []"
proof -
  obtain r1 w1 where e1: "execute svc p1 w = (r1, w1)"
    by (cases "execute svc p1 w")
  then have t1: "trace w1 = trace w @ [Called p1 r1]"
    by (auto simp: execute_eq)
  obtain r2 w2 where e2: "(if b2 then execute svc p2 w1 else (Inr empty_reply, w1)) = (r2, w2)"
    by (cases "if b2 then execute svc p2 w1 else (Inr empty_reply, w1)")
  with guarded_execute [of b2 svc p2 w1] obtain g2 where
    t2: "trace w2 = trace w1 @ g2"
    and s2: "case r2 of Inl err \<Rightarrow> b2 \<and> g2 = [Called p2 (Inl err)]
             | Inr rep \<Rightarrow> (\<not> b2 \<and> g2 = []) \<or> (b2 \<and> (\<exists>rep'. g2 = [Called p2 (Inr rep')]))"
    by auto
  obtain r3 w3 where e3: "(if b3 then execute svc p3 w2 else (Inr empty_reply, w2)) = (r3, w3)"
    by (cases "if b3 then execute svc p3 w2 else (Inr empty_reply, w2)")
  with guarded_execute [of b3 svc p3 w2] obtain g3 where
    t3: "trace w3 = trace w2 @ g3"
    and s3: "case r3 of Inl err \<Rightarrow> b3 \<and> g3 = [Called p3 (Inl err)]
             | Inr rep \<Rightarrow> (\<not> b3 \<and> g3 = []) \<or> (b3 \<and> (\<exists>rep'. g3 = [Called p3 (Inr rep')]))"
    by auto
  note defs = log_activity_try_def Let_def d_def [symmetric] p1_def [symmetric]
    p2_def [symmetric] p3_def [symmetric] b2_def [symmetric] b3_def [symmetric]
  show thesis
  proof (cases r1)
    case (Inl err)
    with R e1 have "r = Inl err" "w' = w1"
      unfolding defs by simp_all
    with t1 Inl show thesis
      by (intro fail1 [of err]) simp_all
  next
    case r1: (Inr rep1)
    show thesis
    proof (cases r2)
      case (Inl err)
      with R e1 e2 r1 have "r = Inl err" "w' = w2"
        unfolding defs by simp_all
      with t1 t2 s2 Inl r1 show thesis
        by (intro fail2 [of err rep1]) simp_all
    next
      case r2: (Inr rep2)
      show thesis
      proof (cases r3)
        case (Inl err)
        with R e1 e2 e3 r1 r2 have "r = Inl err" "w' = w3"
          unfolding defs by simp_all
        with t1 t2 t3 s2 s3 Inl r1 r2 show thesis
          by (intro fail3 [of err rep1 g2]) simp_all
      next
        case r3: (Inr rep3)
        with R e1 e2 e3 r1 r2 have res: "r = Inr True"
          "w' = print Data_points_inserted_successfully
             (let w4 = snd (log_session env svc a s e w3)
              in if truthy_int steps
                 then snd (request_data_aggregation env svc s e w4)
                 else w4)"
          unfolding defs by (simp_all add: Let_def)
        from tail_segment [of env svc a s e w3 steps] obtain r4 m4 tagg where
          t4: "trace (print Data_points_inserted_successfully
                 (let w4 = snd (log_session env svc a s e w3)
                  in if truthy_int steps
                     then snd (request_data_aggregation env svc s e w4)
                     else w4))
               = trace w3 @ [Called (Sessions_update ''me'' (''session-'' @ str_int (timestamp_ms env s))
                      (session_body a (timestamp_ms env s) (timestamp_ms env e))) r4,
                   Printed m4] @ tagg @ [Printed Data_points_inserted_successfully]"
          and s4: "case r4 of Inr _ \<Rightarrow> m4 = Session_created_successfully
                   | Inl err \<Rightarrow> m4 = Error_creating_session err"
          and s5: "if truthy_int steps
             then \<exists>r5 m5. tagg = [Called (Dataset_aggregate ''me''
                    (aggregation_request (timestamp_ms env s) (timestamp_ms env e))) r5, Printed m5]
                \<and> (case r5 of Inr _ \<Rightarrow> m5 = Data_aggregation_requested_successfully
                    | Inl err \<Rightarrow> m5 = Error_requesting_data_aggregation err)
             else tagg = []"
          by blast
        show thesis
        proof (rule ok [of rep1 g2 g3 r4 m4 tagg])
          show "r = Inr True" by (rule res(1))
          show "trace w' = trace w @ Called p1 (Inr rep1) # g2 @ g3
             @ [Called (Sessions_update ''me'' (''session-'' @ str_int (timestamp_ms env s))
                      (session_body a (timestamp_ms env s) (timestamp_ms env e))) r4,
                Printed m4] @ tagg @ [Printed Data_points_inserted_successfully]"
            unfolding res(2) t4 t3 t2 t1 r1 by simp
          show "(\<not> b2 \<and> g2 = []) \<or> (b2 \<and> (\<exists>rep. g2 = [Called p2 (Inr rep)]))"
            using s2 r2 by simp
          show "(\<not> b3 \<and> g3 = []) \<or> (b3 \<and> (\<exists>rep. g3 = [Called p3 (Inr rep)]))"
            using s3 r3 by simp
        qed (rule s4, rule s5)
      qed
    qed
  qed
qed

lemma finish_facts:
  fixes env :: "('dt, 's) env" and w :: "'s world" and svc :: "'s service"
    and a :: int and s e :: 'dt and cal :: "rat option" and steps :: "int option"
    and aid cid sid :: "string option"
  defines "fin \<equiv>
    (if \<not> truthy_str aid then (False, print Failed_to_create_activity_data_source w)
     else (case log_activity_try env svc a s e cal steps (the aid) cid sid w of
             (Inr result, w4) \<Rightarrow> (result, w4)
           | (Inl error, w4) \<Rightarrow> (False, print (An_error_occurred error) w4)))"
  defines "evs \<equiv> new_events w (snd fin)"
  defines "d \<equiv> str_int (timestamp_ns env s) @ ''-'' @ str_int (timestamp_ns env e)"
  shows "trace (snd fin) = trace w @ evs
    \<and> all_reported evs
    \<and> (\<forall>c \<in> set (calls_of evs). is_patch c \<or> is_session_update c \<or> is_aggregate c)
    \<and> filter is_aggregate (calls_of evs) =
           (if truthy_int steps \<and> fst fin
            then [Dataset_aggregate ''me''
                    (aggregation_request (timestamp_ms env s) (timestamp_ms env e))]
            else [])
    \<and> (\<forall>c err. Called c (Inl err) \<in> set evs \<and> is_patch c \<longrightarrow>
           \<not> fst fin \<and> Printed (An_error_occurred err) \<in> set evs)
    \<and> (\<forall>c \<in> set (calls_of evs). is_patch c \<longrightarrow>
           data_source_of c = Some (the aid)
           \<or> (truthy_num cal \<and> truthy_str cid \<and> data_source_of c = Some (the cid))
           \<or> (truthy_int steps \<and> truthy_str sid \<and> data_source_of c = Some (the sid)))
    \<and> (\<not> truthy_str aid \<longrightarrow>
           \<not> fst fin \<and> evs = [Printed Failed_to_create_activity_data_source])
    \<and> (fst fin \<longrightarrow>
           (\<exists>rep. Called (Datasets_patch ''me'' (the aid) d
                     (activity_segment (the aid) (timestamp_ns env s) (timestamp_ns env e) a))
                   (Inr rep) \<in> set evs)
           \<and> Sessions_update ''me'' (''session-'' @ str_int (timestamp_ms env s))
                      (session_body a (timestamp_ms env s) (timestamp_ms env e))
               \<in> set (calls_of evs))
    \<and> ((truthy_str cid \<longrightarrow> the cid \<noteq> the aid) \<and> (truthy_str sid \<longrightarrow> the sid \<noteq> the aid)
         \<and> (truthy_str cid \<and> truthy_str sid \<longrightarrow> the sid \<noteq> the cid)
        \<longrightarrow> distinct (calls_of evs))"
proof (cases "truthy_str aid")
  case False
  then show ?thesis
    by (simp add: fin_def evs_def)
next
  case True
  obtain r w' where R: "log_activity_try env svc a s e cal steps (the aid) cid sid w = (r, w')"
    by (cases "log_activity_try env svc a s e cal steps (the aid) cid sid w")
  from R show ?thesis
  proof (cases rule: try_cases)
    case (fail1 err)
    with True R have "fin = (False, print (An_error_occurred err) w')"
      by (simp add: fin_def)
    with fail1 have "fst fin = False"
      "trace (snd fin) = trace w @ [Called (Datasets_patch ''me'' (the aid) d
          (activity_segment (the aid) (timestamp_ns env s) (timestamp_ns env e) a)) (Inl err),
          Printed (An_error_occurred err)]"
      by (simp_all add: d_def)
    with True show ?thesis
      unfolding evs_def by simp
  next
    case (fail2 err rep1)
    with True R have "fin = (False, print (An_error_occurred err) w')"
      by (simp add: fin_def)
    with fail2 have "fst fin = False"
      "trace (snd fin) = trace w @ [Called (Datasets_patch ''me'' (the aid) d
          (activity_segment (the aid) (timestamp_ns env s) (timestamp_ns env e) a)) (Inr rep1),
          Called (Datasets_patch ''me'' (the cid) d
            (calories_data (the cid) (timestamp_ns env s) (timestamp_ns env e) (the cal))) (Inl err),
          Printed (An_error_occurred err)]"
      by (simp_all add: d_def)
    with True fail2(1) show ?thesis
      unfolding evs_def by auto
  next
    case (fail3 err rep1 g2)
    with True R have "fin = (False, print (An_error_occurred err) w')"
      by (simp add: fin_def)
    with fail3 have "fst fin = False"
      "trace (snd fin) = trace w @ (Called (Datasets_patch ''me'' (the aid) d
          (activity_segment (the aid) (timestamp_ns env s) (timestamp_ns env e) a)) (Inr rep1)
          # g2 @ [Called (Datasets_patch ''me'' (the sid) d
            (steps_data (the sid) (timestamp_ns env s) (timestamp_ns env e) (the steps))) (Inl err),
          Printed (An_error_occurred err)])"
      by (simp_all add: d_def)
    with True fail3(1,4) show ?thesis
      unfolding evs_def d_def by auto
  next
    case (ok rep1 g2 g3 r4 m4 tagg)
    let ?p1 = "Datasets_patch ''me'' (the aid) d
          (activity_segment (the aid) (timestamp_ns env s) (timestamp_ns env e) a)"
    let ?p2 = "Datasets_patch ''me'' (the cid) d
          (calories_data (the cid) (timestamp_ns env s) (timestamp_ns env e) (the cal))"
    let ?p3 = "Datasets_patch ''me'' (the sid) d
          (steps_data (the sid) (timestamp_ns env s) (timestamp_ns env e) (the steps))"
    let ?su = "Sessions_update ''me'' (''session-'' @ str_int (timestamp_ms env s))
                      (session_body a (timestamp_ms env s) (timestamp_ms env e))"
    let ?ag = "Dataset_aggregate ''me''
                    (aggregation_request (timestamp_ms env s) (timestamp_ms env e))"
    from True R ok(1) have fin: "fin = (True, w')"
      by (simp add: fin_def)
    with ok(2) have "trace (snd fin) = trace w @ (Called ?p1 (Inr rep1) # g2 @ g3
         @ [Called ?su r4, Printed m4] @ tagg @ [Printed Data_points_inserted_successfully])"
      by (simp add: d_def)
    then have evs: "evs = Called ?p1 (Inr rep1) # g2 @ g3
         @ [Called ?su r4, Printed m4] @ tagg @ [Printed Data_points_inserted_successfully]"
      and ext: "trace (snd fin) = trace w @ evs"
      unfolding evs_def by simp_all
    from ok(3) have g2: "calls_of g2 = (if g2 = [] then [] else [?p2])"
      "g2 \<noteq> [] \<longrightarrow> truthy_num cal \<and> truthy_str cid" "all_reported g2"
      "\<forall>c err. Called c (Inl err) \<notin> set g2"
      unfolding d_def by auto
    from ok(4) have g3: "calls_of g3 = (if g3 = [] then [] else [?p3])"
      "g3 \<noteq> [] \<longrightarrow> truthy_int steps \<and> truthy_str sid" "all_reported g3"
      "\<forall>c err. Called c (Inl err) \<notin> set g3"
      unfolding d_def by auto
    have tg: "calls_of tagg = (if truthy_int steps then [?ag] else [])
      \<and> all_reported tagg \<and> (\<forall>c err. Called c (Inl err) \<in> set tagg \<longrightarrow> c = ?ag)"
    proof (cases "truthy_int steps")
      case False
      with ok(6) show ?thesis by simp
    next
      case True
      with ok(6) obtain r5 m5 where
        "tagg = [Called ?ag r5, Printed m5]"
        "case r5 of Inr _ \<Rightarrow> m5 = Data_aggregation_requested_successfully
                    | Inl err \<Rightarrow> m5 = Error_requesting_data_aggregation err"
        by auto
      with True show ?thesis
        by (cases r5) simp_all
    qed
    from ok(5) have su: "all_reported (Called ?su r4 # Printed m4 # t) = all_reported t" for t
      by (cases r4) simp_all
    have calls: "calls_of evs = ?p1 # calls_of g2 @ calls_of g3 @ ?su # calls_of tagg"
      by (simp add: evs)
    have "all_reported (tagg @ [Printed Data_points_inserted_successfully])"
      by (rule all_reported_append) (use tg in simp_all)
    then have "all_reported (Called ?su r4 # Printed m4 # tagg
                 @ [Printed Data_points_inserted_successfully])"
      unfolding su .
    from all_reported_append [OF g3(3) this]
    have "all_reported (g3 @ Called ?su r4 # Printed m4 # tagg
                 @ [Printed Data_points_inserted_successfully])" .
    from all_reported_append [OF g2(3) this]
    have f1: "all_reported evs"
      by (simp add: evs)
    have f2: "\<forall>c \<in> set (calls_of evs). is_patch c \<or> is_session_update c \<or> is_aggregate c"
      using tg unfolding calls g2(1) g3(1) by simp
    have f3: "filter is_aggregate (calls_of evs) =
           (if truthy_int steps \<and> fst fin then [?ag] else [])"
      using tg unfolding calls g2(1) g3(1) by (simp add: fin)
    have f4: "\<forall>c err. Called c (Inl err) \<in> set evs \<and> is_patch c \<longrightarrow>
           \<not> fst fin \<and> Printed (An_error_occurred err) \<in> set evs"
    proof (intro allI impI)
      fix c err
      assume "Called c (Inl err) \<in> set evs \<and> is_patch c"
      then have "is_patch c" "c = ?su \<or> c = ?ag"
        using g2(4) g3(4) tg by (auto simp: evs)
      then show "\<not> fst fin \<and> Printed (An_error_occurred err) \<in> set evs"
        by auto
    qed
    have f5: "\<forall>c \<in> set (calls_of evs). is_patch c \<longrightarrow>
           data_source_of c = Some (the aid)
           \<or> (truthy_num cal \<and> truthy_str cid \<and> data_source_of c = Some (the cid))
           \<or> (truthy_int steps \<and> truthy_str sid \<and> data_source_of c = Some (the sid))"
      using g2(2) g3(2) tg unfolding calls g2(1) g3(1) by simp
    have f7: "(\<exists>rep. Called ?p1 (Inr rep) \<in> set evs) \<and> ?su \<in> set (calls_of evs)"
      unfolding calls by (auto simp: evs)
    have f8: "(truthy_str cid \<longrightarrow> the cid \<noteq> the aid) \<and> (truthy_str sid \<longrightarrow> the sid \<noteq> the aid)
         \<and> (truthy_str cid \<and> truthy_str sid \<longrightarrow> the sid \<noteq> the cid)
        \<longrightarrow> distinct (calls_of evs)"
      using g2(2) g3(2) tg unfolding calls g2(1) g3(1) by auto
    from True ext f1 f2 f3 f4 f5 f7 f8 show ?thesis
      by blast
  qed
qed

lemma optional_create_segment:
  "\<exists>t. trace (snd (if b then create_data_source svc n app w else (None, w))) = trace w @ t
       \<and> all_reported t
       \<and> (\<forall>c \<in> set (calls_of t). is_provisioning c \<and> data_source_of c = Some (get_data_source_id n))
       \<and> distinct (calls_of t)
       \<and> (fst (if b then create_data_source svc n app w else (None, w)) = None
            \<or> fst (if b then create_data_source svc n app w else (None, w))
                 = Some (get_data_source_id n))
       \<and> (\<not> b \<longrightarrow> t = [])"
proof (cases b)
  case True
  with create_data_source_segment [of svc n app w] show ?thesis
    by auto
next
  case False
  then show ?thesis by simp
qed

lemma log_activity_facts:
  fixes env :: "('dt, 's) env" and w :: "'s world"
    and a :: int and s e :: 'dt and cal :: "rat option" and steps :: "int option"
  defines "ok \<equiv> fst (log_activity env a s e cal steps w)"
  defines "evs \<equiv> new_events w (snd (log_activity env a s e cal steps w))"
  defines "A \<equiv> get_data_source_id ''com.google.activity.segment''"
  defines "d \<equiv> str_int (timestamp_ns env s) @ ''-'' @ str_int (timestamp_ns env e)"
  shows "all_reported evs"
    and "\<forall>c \<in> set (calls_of evs).
           is_provisioning c \<or> is_patch c \<or> is_session_update c \<or> is_aggregate c"
    and "filter is_aggregate (calls_of evs) =
           (if truthy_int steps \<and> ok
            then [Dataset_aggregate ''me''
                    (aggregation_request (timestamp_ms env s) (timestamp_ms env e))]
            else [])"
    and "\<forall>c err. Called c (Inl err) \<in> set evs \<and> is_patch c \<longrightarrow>
           \<not> ok \<and> Printed (An_error_occurred err) \<in> set evs"
    and "fst (create_data_source (build env (fst (get_credentials env w)))
                ''com.google.activity.segment'' ''GFit B100'' (snd (get_credentials env w))) = None
         \<longrightarrow> \<not> ok \<and> Printed Failed_to_create_activity_data_source \<in> set evs"
    and "\<not> truthy_num cal \<longrightarrow>
           (\<forall>c \<in> set (calls_of evs).
              data_source_of c \<noteq> Some (get_data_source_id ''com.google.calories.expended''))"
    and "\<not> truthy_int steps \<longrightarrow>
           (\<forall>c \<in> set (calls_of evs).
              data_source_of c \<noteq> Some (get_data_source_id ''com.google.step_count.delta''))"
    and "ok \<longrightarrow>
           (\<exists>rep. Called (Datasets_patch ''me'' A d
                     (activity_segment A (timestamp_ns env s) (timestamp_ns env e) a))
                   (Inr rep) \<in> set evs)
           \<and> Sessions_update ''me'' (''session-'' @ str_int (timestamp_ms env s))
                      (session_body a (timestamp_ms env s) (timestamp_ms env e))
               \<in> set (calls_of evs)"
    and "distinct (calls_of evs)"
proof -
  let ?C = "get_data_source_id ''com.google.calories.expended''"
  let ?S = "get_data_source_id ''com.google.step_count.delta''"
  obtain creds w0 where g: "get_credentials env w = (creds, w0)"
    by (cases "get_credentials env w")
  let ?svc = "build env creds"
  obtain aid w1 where cA:
    "create_data_source ?svc ''com.google.activity.segment'' ''GFit B100'' w0 = (aid, w1)"
    by (cases "create_data_source ?svc ''com.google.activity.segment'' ''GFit B100'' w0")
  obtain cid w2 where cC:
    "(if truthy_num cal
      then create_data_source ?svc ''com.google.calories.expended'' ''GFit B100'' w1
      else (None, w1)) = (cid, w2)"
    by (cases "if truthy_num cal
      then create_data_source ?svc ''com.google.calories.expended'' ''GFit B100'' w1
      else (None, w1)")
  obtain sid w3 where cS:
    "(if truthy_int steps
      then create_data_source ?svc ''com.google.step_count.delta'' ''GFit B100'' w2
      else (None, w2)) = (sid, w3)"
    by (cases "if truthy_int steps
      then create_data_source ?svc ''com.google.step_count.delta'' ''GFit B100'' w2
      else (None, w2)")
  let ?fin = "if \<not> truthy_str aid then (False, print Failed_to_create_activity_data_source w3)
     else (case log_activity_try env ?svc a s e cal steps (the aid) cid sid w3 of
             (Inr result, w4) \<Rightarrow> (result, w4)
           | (Inl error, w4) \<Rightarrow> (False, print (An_error_occurred error) w4))"
  have run: "log_activity env a s e cal steps w = ?fin"
    by (simp only: log_activity_def Let_def g prod.case cA cC cS)
  from get_credentials_segment [of env w] g obtain ta where
    ta: "trace w0 = trace w @ ta" "ta = [] \<or> (\<exists>c. ta = [Refresh_called c]) \<or> ta = [Flow_run]"
    by auto
  from create_data_source_segment [of ?svc "''com.google.activity.segment''" "''GFit B100''" w0] cA
  obtain sa where
    sa: "trace w1 = trace w0 @ sa" "all_reported sa"
      "\<forall>c \<in> set (calls_of sa). is_provisioning c \<and> data_source_of c = Some A"
      "distinct (calls_of sa)" "aid = None \<or> aid = Some A"
    unfolding A_def by auto
  from optional_create_segment [of "truthy_num cal" ?svc "''com.google.calories.expended''"
      "''GFit B100''" w1] cC
  obtain sc where
    sc: "trace w2 = trace w1 @ sc" "all_reported sc"
      "\<forall>c \<in> set (calls_of sc). is_provisioning c \<and> data_source_of c = Some ?C"
      "distinct (calls_of sc)" "cid = None \<or> cid = Some ?C" "\<not> truthy_num cal \<longrightarrow> sc = []"
    by auto
  from optional_create_segment [of "truthy_int steps" ?svc "''com.google.step_count.delta''"
      "''GFit B100''" w2] cS
  obtain ss where
    ss: "trace w3 = trace w2 @ ss" "all_reported ss"
      "\<forall>c \<in> set (calls_of ss). is_provisioning c \<and> data_source_of c = Some ?S"
      "distinct (calls_of ss)" "sid = None \<or> sid = Some ?S" "\<not> truthy_int steps \<longrightarrow> ss = []"
    by auto
  define tf where "tf = new_events w3 (snd ?fin)"
  note ff = finish_facts [of aid w3 env ?svc a s e cal steps cid sid, folded tf_def]
  have "trace (snd ?fin) = trace w @ (ta @ sa @ sc @ ss @ tf)"
    using ff [THEN conjunct1] ta(1) sa(1) sc(1) ss(1) by simp
  then have evs: "evs = ta @ sa @ sc @ ss @ tf"
    unfolding evs_def run by simp
  have ok: "ok = fst ?fin"
    unfolding ok_def run ..
  have ta_r: "all_reported ta" and ta_c: "calls_of ta = []"
    and ta_e: "\<forall>c r. Called c r \<notin> set ta" "\<forall>m. Printed m \<notin> set ta"
    using ta(2) by auto
  have calls: "calls_of evs = calls_of sa @ calls_of sc @ calls_of ss @ calls_of tf"
    by (simp add: evs ta_c)
  have aidA: "truthy_str aid \<Longrightarrow> the aid = A"
    using sa(5) by auto
  have cidC: "truthy_str cid \<Longrightarrow> the cid = ?C"
    using sc(5) by auto
  have sidS: "truthy_str sid \<Longrightarrow> the sid = ?S"
    using ss(5) by auto
  have tf_r: "all_reported tf"
    and tf_k: "\<forall>c \<in> set (calls_of tf). is_patch c \<or> is_session_update c \<or> is_aggregate c"
    and tf_a: "filter is_aggregate (calls_of tf) =
           (if truthy_int steps \<and> fst ?fin
            then [Dataset_aggregate ''me''
                    (aggregation_request (timestamp_ms env s) (timestamp_ms env e))]
            else [])"
    and tf_p: "\<forall>c err. Called c (Inl err) \<in> set tf \<and> is_patch c \<longrightarrow>
           \<not> fst ?fin \<and> Printed (An_error_occurred err) \<in> set tf"
    and tf_d: "\<forall>c \<in> set (calls_of tf). is_patch c \<longrightarrow>
           data_source_of c = Some (the aid)
           \<or> (truthy_num cal \<and> truthy_str cid \<and> data_source_of c = Some (the cid))
           \<or> (truthy_int steps \<and> truthy_str sid \<and> data_source_of c = Some (the sid))"
    and tf_n: "\<not> truthy_str aid \<longrightarrow>
           \<not> fst ?fin \<and> tf = [Printed Failed_to_create_activity_data_source]"
    and tf_w: "fst ?fin \<longrightarrow>
           (\<exists>rep. Called (Datasets_patch ''me'' (the aid) d
                     (activity_segment (the aid) (timestamp_ns env s) (timestamp_ns env e) a))
                   (Inr rep) \<in> set tf)
           \<and> Sessions_update ''me'' (''session-'' @ str_int (timestamp_ms env s))
                      (session_body a (timestamp_ms env s) (timestamp_ms env e))
               \<in> set (calls_of tf)"
    and tf_u: "(truthy_str cid \<longrightarrow> the cid \<noteq> the aid) \<and> (truthy_str sid \<longrightarrow> the sid \<noteq> the aid)
         \<and> (truthy_str cid \<and> truthy_str sid \<longrightarrow> the sid \<noteq> the cid)
        \<longrightarrow> distinct (calls_of tf)"
    using ff unfolding d_def by blast+
  show "all_reported evs"
    unfolding evs
    by (intro all_reported_append ta_r sa(2) sc(2) ss(2) tf_r)
  show "\<forall>c \<in> set (calls_of evs).
           is_provisioning c \<or> is_patch c \<or> is_session_update c \<or> is_aggregate c"
    unfolding calls using sa(3) sc(3) ss(3) tf_k by auto
  have prov_not_agg: "is_provisioning c \<Longrightarrow> \<not> is_aggregate c" for c
    by (cases c) simp_all
  have "filter is_aggregate (calls_of sa) = []" "filter is_aggregate (calls_of sc) = []"
    "filter is_aggregate (calls_of ss) = []"
    using sa(3) sc(3) ss(3) prov_not_agg by (auto simp: filter_empty_conv)
  then show "filter is_aggregate (calls_of evs) =
           (if truthy_int steps \<and> ok
            then [Dataset_aggregate ''me''
                    (aggregation_request (timestamp_ms env s) (timestamp_ms env e))]
            else [])"
    unfolding calls ok using tf_a by simp
  have prov_not_patch: "is_provisioning c \<Longrightarrow> \<not> is_patch c" for c
    by (cases c) simp_all
  show "\<forall>c err. Called c (Inl err) \<in> set evs \<and> is_patch c \<longrightarrow>
           \<not> ok \<and> Printed (An_error_occurred err) \<in> set evs"
  proof (intro allI impI)
    fix c err
    assume h: "Called c (Inl err) \<in> set evs \<and> is_patch c"
    have "Called c r \<in> set t \<Longrightarrow> c \<in> set (calls_of t)" for r t
      by (induction t) auto
    with h sa(3) sc(3) ss(3) prov_not_patch ta_e(1) have "Called c (Inl err) \<in> set tf"
      unfolding evs by auto
    with h tf_p show "\<not> ok \<and> Printed (An_error_occurred err) \<in> set evs"
      unfolding ok evs by auto
  qed
  show "fst (create_data_source (build env (fst (get_credentials env w)))
                ''com.google.activity.segment'' ''GFit B100'' (snd (get_credentials env w))) = None
         \<longrightarrow> \<not> ok \<and> Printed Failed_to_create_activity_data_source \<in> set evs"
    using tf_n unfolding g fst_conv snd_conv cA ok evs by auto
  show "\<not> truthy_num cal \<longrightarrow>
           (\<forall>c \<in> set (calls_of evs). data_source_of c \<noteq> Some ?C)"
  proof (intro impI ballI)
    fix c
    assume nc: "\<not> truthy_num cal" and c: "c \<in> set (calls_of evs)"
    then consider "c \<in> set (calls_of sa)" | "c \<in> set (calls_of ss)" | "c \<in> set (calls_of tf)"
      unfolding calls using sc(6) by auto
    then show "data_source_of c \<noteq> Some ?C"
    proof cases
      case 1
      with sa(3) show ?thesis
        using data_source_ids_differ(1) unfolding A_def by auto
    next
      case 2
      with ss(3) show ?thesis
        using data_source_ids_differ(3) by auto
    next
      case 3
      show ?thesis
      proof (cases "is_patch c")
        case True
        with 3 tf_d nc have "data_source_of c = Some (the aid)
            \<or> (truthy_str sid \<and> data_source_of c = Some (the sid))"
          by blast
        moreover have "truthy_str aid"
          using tf_n 3 by auto
        ultimately show ?thesis
          using aidA sidS data_source_ids_differ unfolding A_def by auto
      next
        case False
        with 3 tf_k have "is_session_update c \<or> is_aggregate c"
          by blast
        then show ?thesis
          by (cases c) simp_all
      qed
    qed
  qed
  show "\<not> truthy_int steps \<longrightarrow>
           (\<forall>c \<in> set (calls_of evs). data_source_of c \<noteq> Some ?S)"
  proof (intro impI ballI)
    fix c
    assume nc: "\<not> truthy_int steps" and c: "c \<in> set (calls_of evs)"
    then consider "c \<in> set (calls_of sa)" | "c \<in> set (calls_of sc)" | "c \<in> set (calls_of tf)"
      unfolding calls using ss(6) by auto
    then show "data_source_of c \<noteq> Some ?S"
    proof cases
      case 1
      with sa(3) show ?thesis
        using data_source_ids_differ(2) unfolding A_def by auto
    next
      case 2
      with sc(3) show ?thesis
        using data_source_ids_differ(3) by auto
    next
      case 3
      show ?thesis
      proof (cases "is_patch c")
        case True
        with 3 tf_d nc have "data_source_of c = Some (the aid)
            \<or> (truthy_str cid \<and> data_source_of c = Some (the cid))"
          by blast
        moreover have "truthy_str aid"
          using tf_n 3 by auto
        ultimately show ?thesis
          using aidA cidC data_source_ids_differ unfolding A_def by auto
      next
        case False
        with 3 tf_k have "is_session_update c \<or> is_aggregate c"
          by blast
        then show ?thesis
          by (cases c) simp_all
      qed
    qed
  qed
  show "ok \<longrightarrow>
           (\<exists>rep. Called (Datasets_patch ''me'' A d
                     (activity_segment A (timestamp_ns env s) (timestamp_ns env e) a))
                   (Inr rep) \<in> set evs)
           \<and> Sessions_update ''me'' (''session-'' @ str_int (timestamp_ms env s))
                      (session_body a (timestamp_ms env s) (timestamp_ms env e))
               \<in> set (calls_of evs)"
  proof
    assume "ok"
    then have f: "fst ?fin" unfolding ok .
    with tf_n have "truthy_str aid" by blast
    then have "the aid = A" by (rule aidA)
    with tf_w f show "(\<exists>rep. Called (Datasets_patch ''me'' A d
                     (activity_segment A (timestamp_ns env s) (timestamp_ns env e) a))
                   (Inr rep) \<in> set evs)
           \<and> Sessions_update ''me'' (''session-'' @ str_int (timestamp_ms env s))
                      (session_body a (timestamp_ms env s) (timestamp_ms env e))
               \<in> set (calls_of evs)"
      unfolding evs calls by auto
  qed
  show "distinct (calls_of evs)"
  proof -
    have dtf: "distinct (calls_of tf)"
    proof (cases "truthy_str aid")
      case False
      with tf_n show ?thesis by simp
    next
      case True
      with tf_u aidA cidC sidS data_source_ids_differ show ?thesis
        unfolding A_def by metis
    qed
    have "is_patch c \<or> is_session_update c \<or> is_aggregate c \<Longrightarrow> \<not> is_provisioning c" for c
      by (cases c) simp_all
    with tf_k have k: "\<forall>c \<in> set (calls_of tf). \<not> is_provisioning c"
      by blast
    have x1: "set (calls_of sa) \<inter> set (calls_of sc) = {}"
      using sa(3) sc(3) data_source_ids_differ(1) unfolding A_def by fastforce
    have x2: "set (calls_of sa) \<inter> set (calls_of ss) = {}"
      using sa(3) ss(3) data_source_ids_differ(2) unfolding A_def by fastforce
    have x3: "set (calls_of sc) \<inter> set (calls_of ss) = {}"
      using sc(3) ss(3) data_source_ids_differ(3) by fastforce
    have x4: "set (calls_of sa) \<inter> set (calls_of tf) = {}"
      "set (calls_of sc) \<inter> set (calls_of tf) = {}"
      "set (calls_of ss) \<inter> set (calls_of tf) = {}"
      using sa(3) sc(3) ss(3) k by blast+
    show ?thesis
      unfolding calls using sa(4) sc(4) ss(4) dtf x1 x2 x3 x4 by auto
  qed
qed

lemmas demo_run_defs =
  log_activity_def log_activity_try_def create_data_source_def log_session_eq
  request_data_aggregation_eq get_credentials_def valid_def execute_eq print_def
  demo_env_def timestamp_ns_def timestamp_ms_def py_int_def demo_service_def demo_world_def new_events_def Let_def

subsection \<open>Failed requests of \<open>log_activity\<close>\<close>

lemma failed_calls_simps [simp]:
  "failed_calls [] = []"
  "failed_calls (ev # t) = failed_call_of ev @ failed_calls t"
  "failed_calls (t @ t') = failed_calls t @ failed_calls t'"
  by (simp_all add: failed_calls_def)

lemma failed_patches_simps [simp]:
  "failed_patches [] = []"
  "failed_patches (ev # t) = filter is_patch (failed_call_of ev) @ failed_patches t"
  "failed_patches (t @ t') = failed_patches t @ failed_patches t'"
  by (simp_all add: failed_patches_def)

lemma failed_provisionings_simps [simp]:
  "failed_provisionings [] = []"
  "failed_provisionings (ev # t) = failed_provisioning_of ev @ failed_provisionings t"
  "failed_provisionings (t @ t') = failed_provisionings t @ failed_provisionings t'"
  by (simp_all add: failed_provisionings_def)

lemma failed_patch_other [simp]:
  "\<not> is_patch c \<Longrightarrow> filter is_patch (failed_call_of (Called c r)) = []"
  by (cases r) simp_all

lemma failed_provisioning_other [simp]:
  "\<not> is_provisioning c \<Longrightarrow> failed_provisioning_of (Called c r) = []"
  by (cases r) simp_all

lemma failed_calls_are_calls: "set (failed_calls t) \<subseteq> set (calls_of t)"
proof (induction t)
  case Nil
  show ?case by simp
next
  case (Cons ev t)
  then show ?case
    by (cases ev rule: failed_call_of.cases) auto
qed

lemma failed_patches_of_provisioning:
  assumes "\<forall>c \<in> set (calls_of t). is_provisioning c \<and> P c"
  shows "failed_patches t = []"
proof -
  have "is_provisioning c \<Longrightarrow> \<not> is_patch c" for c
    by (cases c) simp_all
  with assms failed_calls_are_calls [of t] show ?thesis
    unfolding failed_patches_def by (auto simp: filter_empty_conv)
qed

lemma create_data_source_failed:
  "failed_provisionings (new_events w (snd (create_data_source svc n app w))) =
     (if fst (create_data_source svc n app w) = None then [get_data_source_id n] else [])"
proof -
  let ?i = "get_data_source_id n"
  let ?get = "DataSources_get ''me'' ?i"
  let ?r = "fst (svc ?get (remote w))"
  let ?s1 = "snd (svc ?get (remote w))"
  let ?create = "DataSources_create ''me'' (data_source_body ?i n app)"
  let ?r2 = "fst (svc ?create ?s1)"
  show ?thesis
  proof (cases ?r)
    case (Inr rep)
    then show ?thesis
      by (simp add: create_data_source_def execute_eq Let_def)
  next
    case (Inl e)
    show ?thesis
    proof (cases "resp_status e = 404")
      case False
      with Inl show ?thesis
        by (simp add: create_data_source_def execute_eq Let_def)
    next
      case True
      with Inl show ?thesis
        by (cases ?r2)
          (simp_all add: create_data_source_def execute_eq Let_def data_source_body_def)
    qed
  qed
qed

lemma optional_create_failed:
  "failed_provisionings
     (new_events w (snd (if b then create_data_source svc n app w else (None, w)))) =
     (if b \<and> fst (if b then create_data_source svc n app w else (None, w)) = None
      then [get_data_source_id n] else [])"
  by (simp add: create_data_source_failed)

lemma finish_patches:
  fixes env :: "('dt, 's) env" and w :: "'s world" and svc :: "'s service"
    and a :: int and s e :: 'dt and cal :: "rat option" and steps :: "int option"
    and aid cid sid :: "string option"
  defines "fin \<equiv>
    (if \<not> truthy_str aid then (False, print Failed_to_create_activity_data_source w)
     else (case log_activity_try env svc a s e cal steps (the aid) cid sid w of
             (Inr result, w4) \<Rightarrow> (result, w4)
           | (Inl error, w4) \<Rightarrow> (False, print (An_error_occurred error) w4)))"
  defines "evs \<equiv> new_events w (snd fin)"
  defines "d \<equiv> str_int (timestamp_ns env s) @ ''-'' @ str_int (timestamp_ns env e)"
  shows "failed_provisionings evs = []"
    and "fst fin \<longleftrightarrow> truthy_str aid \<and> failed_patches evs = []"
    and "failed_patches evs = [] \<longrightarrow>
           filter is_patch (calls_of evs) =
             (if truthy_str aid
              then Datasets_patch ''me'' (the aid) d
                     (activity_segment (the aid) (timestamp_ns env s) (timestamp_ns env e) a)
                 # (if truthy_num cal \<and> truthy_str cid
                    then [Datasets_patch ''me'' (the cid) d
                            (calories_data (the cid) (timestamp_ns env s) (timestamp_ns env e)
                               (the cal))]
                    else [])
                 @ (if truthy_int steps \<and> truthy_str sid
                    then [Datasets_patch ''me'' (the sid) d
                            (steps_data (the sid) (timestamp_ns env s) (timestamp_ns env e)
                               (the steps))]
                    else [])
              else [])"
proof -
  let ?p1 = "Datasets_patch ''me'' (the aid) d
          (activity_segment (the aid) (timestamp_ns env s) (timestamp_ns env e) a)"
  let ?p2 = "Datasets_patch ''me'' (the cid) d
          (calories_data (the cid) (timestamp_ns env s) (timestamp_ns env e) (the cal))"
  let ?p3 = "Datasets_patch ''me'' (the sid) d
          (steps_data (the sid) (timestamp_ns env s) (timestamp_ns env e) (the steps))"
  let ?su = "Sessions_update ''me'' (''session-'' @ str_int (timestamp_ms env s))
                      (session_body a (timestamp_ms env s) (timestamp_ms env e))"
  let ?ag = "Dataset_aggregate ''me''
                    (aggregation_request (timestamp_ms env s) (timestamp_ms env e))"
  have "failed_provisionings evs = []
    \<and> (fst fin \<longleftrightarrow> truthy_str aid \<and> failed_patches evs = [])
    \<and> (failed_patches evs = [] \<longrightarrow>
           filter is_patch (calls_of evs) =
             (if truthy_str aid
              then ?p1 # (if truthy_num cal \<and> truthy_str cid then [?p2] else [])
                 @ (if truthy_int steps \<and> truthy_str sid then [?p3] else [])
              else []))"
  proof (cases "truthy_str aid")
    case False
    then show ?thesis
      by (simp add: fin_def evs_def)
  next
    case True
    obtain r w' where R: "log_activity_try env svc a s e cal steps (the aid) cid sid w = (r, w')"
      by (cases "log_activity_try env svc a s e cal steps (the aid) cid sid w")
    from R show ?thesis
    proof (cases rule: try_cases)
      case (fail1 err)
      with True R have "fin = (False, print (An_error_occurred err) w')"
        by (simp add: fin_def)
      with fail1 have "fst fin = False"
        "trace (snd fin) = trace w @ [Called ?p1 (Inl err), Printed (An_error_occurred err)]"
        by (simp_all add: d_def)
      with True show ?thesis
        unfolding evs_def by simp
    next
      case (fail2 err rep1)
      with True R have "fin = (False, print (An_error_occurred err) w')"
        by (simp add: fin_def)
      with fail2 have "fst fin = False"
        "trace (snd fin) = trace w @ [Called ?p1 (Inr rep1), Called ?p2 (Inl err),
            Printed (An_error_occurred err)]"
        by (simp_all add: d_def)
      with True show ?thesis
        unfolding evs_def by simp
    next
      case (fail3 err rep1 g2)
      with True R have "fin = (False, print (An_error_occurred err) w')"
        by (simp add: fin_def)
      with fail3 have "fst fin = False"
        "trace (snd fin) = trace w @ (Called ?p1 (Inr rep1) # g2 @ [Called ?p3 (Inl err),
            Printed (An_error_occurred err)])"
        by (simp_all add: d_def)
      moreover from fail3(4) have "failed_provisionings g2 = []"
        by auto
      ultimately show ?thesis
        using True unfolding evs_def by simp
    next
      case (ok rep1 g2 g3 r4 m4 tagg)
      from True R ok(1) have fin: "fin = (True, w')"
        by (simp add: fin_def)
      with ok(2) have "trace (snd fin) = trace w @ (Called ?p1 (Inr rep1) # g2 @ g3
           @ [Called ?su r4, Printed m4] @ tagg @ [Printed Data_points_inserted_successfully])"
        by (simp add: d_def)
      then have evs: "evs = Called ?p1 (Inr rep1) # g2 @ g3
           @ [Called ?su r4, Printed m4] @ tagg @ [Printed Data_points_inserted_successfully]"
        unfolding evs_def by simp
      from ok(3) have g2: "calls_of g2 = (if truthy_num cal \<and> truthy_str cid then [?p2] else [])"
        "failed_patches g2 = []" "failed_provisionings g2 = []"
        unfolding d_def by auto
      from ok(4) have g3: "calls_of g3 = (if truthy_int steps \<and> truthy_str sid then [?p3] else [])"
        "failed_patches g3 = []" "failed_provisionings g3 = []"
        unfolding d_def by auto
      have tg: "filter is_patch (calls_of tagg) = []" "failed_patches tagg = []"
        "failed_provisionings tagg = []"
      proof -
        have "filter is_patch (calls_of tagg) = [] \<and> failed_patches tagg = []
          \<and> failed_provisionings tagg = []"
        proof (cases "truthy_int steps")
          case False
          with ok(6) show ?thesis by simp
        next
          case True
          with ok(6) obtain r5 m5 where "tagg = [Called ?ag r5, Printed m5]"
            by auto
          then show ?thesis by simp
        qed
        then show "filter is_patch (calls_of tagg) = []" "failed_patches tagg = []"
          "failed_provisionings tagg = []"
          by simp_all
      qed
      have "failed_provisionings evs = []"
        by (simp add: evs g2 g3 tg)
      moreover have "failed_patches evs = []"
        by (simp add: evs g2 g3 tg)
      moreover have "filter is_patch (calls_of evs) =
          ?p1 # (if truthy_num cal \<and> truthy_str cid then [?p2] else [])
                 @ (if truthy_int steps \<and> truthy_str sid then [?p3] else [])"
        by (simp add: evs g2 g3 tg)
      ultimately show ?thesis
        using True by (simp add: fin)
    qed
  qed
  then show "failed_provisionings evs = []"
    and "fst fin \<longleftrightarrow> truthy_str aid \<and> failed_patches evs = []"
    and "failed_patches evs = [] \<longrightarrow>
           filter is_patch (calls_of evs) =
             (if truthy_str aid
              then ?p1 # (if truthy_num cal \<and> truthy_str cid then [?p2] else [])
                 @ (if truthy_int steps \<and> truthy_str sid then [?p3] else [])
              else [])"
    by blast+
qed

lemma log_activity_patches:
  fixes env :: "('dt, 's) env" and w :: "'s world"
    and a :: int and s e :: 'dt and cal :: "rat option" and steps :: "int option"
  defines "ok \<equiv> fst (log_activity env a s e cal steps w)"
  defines "evs \<equiv> new_events w (snd (log_activity env a s e cal steps w))"
  defines "A \<equiv> get_data_source_id ''com.google.activity.segment''"
  defines "C \<equiv> get_data_source_id ''com.google.calories.expended''"
  defines "S \<equiv> get_data_source_id ''com.google.step_count.delta''"
  defines "d \<equiv> str_int (timestamp_ns env s) @ ''-'' @ str_int (timestamp_ns env e)"
  shows "ok \<longleftrightarrow> A \<notin> set (failed_provisionings evs) \<and> failed_patches evs = []"
    and "failed_patches evs = [] \<longrightarrow>
           filter is_patch (calls_of evs) =
             (if A \<notin> set (failed_provisionings evs)
              then Datasets_patch ''me'' A d
                     (activity_segment A (timestamp_ns env s) (timestamp_ns env e) a)
                 # (if truthy_num cal \<and> C \<notin> set (failed_provisionings evs)
                    then [Datasets_patch ''me'' C d
                            (calories_data C (timestamp_ns env s) (timestamp_ns env e) (the cal))]
                    else [])
                 @ (if truthy_int steps \<and> S \<notin> set (failed_provisionings evs)
                    then [Datasets_patch ''me'' S d
                            (steps_data S (timestamp_ns env s) (timestamp_ns env e) (the steps))]
                    else [])
              else [])"
proof -
  obtain creds w0 where g: "get_credentials env w = (creds, w0)"
    by (cases "get_credentials env w")
  let ?svc = "build env creds"
  obtain aid w1 where cA:
    "create_data_source ?svc ''com.google.activity.segment'' ''GFit B100'' w0 = (aid, w1)"
    by (cases "create_data_source ?svc ''com.google.activity.segment'' ''GFit B100'' w0")
  obtain cid w2 where cC:
    "(if truthy_num cal
      then create_data_source ?svc ''com.google.calories.expended'' ''GFit B100'' w1
      else (None, w1)) = (cid, w2)"
    by (cases "if truthy_num cal
      then create_data_source ?svc ''com.google.calories.expended'' ''GFit B100'' w1
      else (None, w1)")
  obtain sid w3 where cS:
    "(if truthy_int steps
      then create_data_source ?svc ''com.google.step_count.delta'' ''GFit B100'' w2
      else (None, w2)) = (sid, w3)"
    by (cases "if truthy_int steps
      then create_data_source ?svc ''com.google.step_count.delta'' ''GFit B100'' w2
      else (None, w2)")
  let ?fin = "if \<not> truthy_str aid then (False, print Failed_to_create_activity_data_source w3)
     else (case log_activity_try env ?svc a s e cal steps (the aid) cid sid w3 of
             (Inr result, w4) \<Rightarrow> (result, w4)
           | (Inl error, w4) \<Rightarrow> (False, print (An_error_occurred error) w4))"
  have run: "log_activity env a s e cal steps w = ?fin"
    by (simp only: log_activity_def Let_def g prod.case cA cC cS)
  from get_credentials_segment [of env w] g obtain ta where
    ta: "trace w0 = trace w @ ta" "ta = [] \<or> (\<exists>c. ta = [Refresh_called c]) \<or> ta = [Flow_run]"
    by auto
  from create_data_source_segment [of ?svc "''com.google.activity.segment''" "''GFit B100''" w0] cA
  obtain sa where
    sa: "trace w1 = trace w0 @ sa"
      "\<forall>c \<in> set (calls_of sa). is_provisioning c \<and> data_source_of c = Some A"
      "aid = None \<or> aid = Some A"
    unfolding A_def by auto
  from optional_create_segment [of "truthy_num cal" ?svc "''com.google.calories.expended''"
      "''GFit B100''" w1] cC
  obtain sc where
    sc: "trace w2 = trace w1 @ sc"
      "\<forall>c \<in> set (calls_of sc). is_provisioning c \<and> data_source_of c = Some C"
      "cid = None \<or> cid = Some C"
    unfolding C_def by auto
  from optional_create_segment [of "truthy_int steps" ?svc "''com.google.step_count.delta''"
      "''GFit B100''" w2] cS
  obtain ss where
    ss: "trace w3 = trace w2 @ ss"
      "\<forall>c \<in> set (calls_of ss). is_provisioning c \<and> data_source_of c = Some S"
      "sid = None \<or> sid = Some S"
    unfolding S_def by auto
  define tf where "tf = new_events w3 (snd ?fin)"
  note ff = finish_facts [of aid w3 env ?svc a s e cal steps cid sid, folded tf_def]
  note fp = finish_patches [where aid = aid and w = w3 and env = env and svc = "?svc" and a = a
      and s = s and e = e and cal = cal and steps = steps and cid = cid and sid = sid,
      folded tf_def]
  have "trace (snd ?fin) = trace w @ (ta @ sa @ sc @ ss @ tf)"
    using ff [THEN conjunct1] ta(1) sa(1) sc(1) ss(1) by simp
  then have evs: "evs = ta @ sa @ sc @ ss @ tf"
    unfolding evs_def run by simp
  have ok: "ok = fst ?fin"
    unfolding ok_def run ..
  have ta_e: "calls_of ta = []" "failed_patches ta = []" "failed_provisionings ta = []"
    using ta(2) by auto
  have fa: "failed_provisionings sa = (if aid = None then [A] else [])"
    using create_data_source_failed
      [of w0 ?svc "''com.google.activity.segment''" "''GFit B100''"] sa(1)
    unfolding cA A_def by simp
  have fc: "failed_provisionings sc = (if truthy_num cal \<and> cid = None then [C] else [])"
    using optional_create_failed
      [of w1 "truthy_num cal" ?svc "''com.google.calories.expended''" "''GFit B100''"] sc(1)
    unfolding cC C_def by simp
  have fs: "failed_provisionings ss = (if truthy_int steps \<and> sid = None then [S] else [])"
    using optional_create_failed
      [of w2 "truthy_int steps" ?svc "''com.google.step_count.delta''" "''GFit B100''"] ss(1)
    unfolding cS S_def by simp
  have prov_not_patch: "is_provisioning c \<Longrightarrow> \<not> is_patch c" for c
    by (cases c) simp_all
  have np: "filter is_patch (calls_of sa) = []" "filter is_patch (calls_of sc) = []"
    "filter is_patch (calls_of ss) = []"
    using sa(2) sc(2) ss(2) prov_not_patch by (auto simp: filter_empty_conv)
  have nf: "failed_patches sa = []" "failed_patches sc = []" "failed_patches ss = []"
    by (rule failed_patches_of_provisioning [OF sa(2)],
        rule failed_patches_of_provisioning [OF sc(2)],
        rule failed_patches_of_provisioning [OF ss(2)])
  have differ: "A \<noteq> C" "A \<noteq> S" "C \<noteq> S"
    using data_source_ids_differ unfolding A_def C_def S_def by simp_all
  have patches: "filter is_patch (calls_of evs) = filter is_patch (calls_of tf)"
    by (simp add: evs ta_e np)
  have failed_p: "failed_patches evs = failed_patches tf"
    by (simp add: evs ta_e nf)
  have failed: "failed_provisionings evs =
      (if aid = None then [A] else []) @ (if truthy_num cal \<and> cid = None then [C] else [])
      @ (if truthy_int steps \<and> sid = None then [S] else [])"
    by (simp add: evs ta_e fa fc fs fp(1))
  have inA: "A \<notin> set (failed_provisionings evs) \<longleftrightarrow> truthy_str aid"
    unfolding failed using sa(3) differ by (auto simp: A_def)
  have inC: "truthy_num cal \<and> C \<notin> set (failed_provisionings evs)
      \<longleftrightarrow> truthy_num cal \<and> truthy_str cid"
    unfolding failed using sc(3) differ by (auto simp: C_def)
  have inS: "truthy_int steps \<and> S \<notin> set (failed_provisionings evs)
      \<longleftrightarrow> truthy_int steps \<and> truthy_str sid"
    unfolding failed using ss(3) differ by (auto simp: S_def)
  have aidA: "truthy_str aid \<Longrightarrow> the aid = A"
    using sa(3) by auto
  have cidC: "truthy_str cid \<Longrightarrow> the cid = C"
    using sc(3) by auto
  have sidS: "truthy_str sid \<Longrightarrow> the sid = S"
    using ss(3) by auto
  show "ok \<longleftrightarrow> A \<notin> set (failed_provisionings evs) \<and> failed_patches evs = []"
    unfolding ok inA failed_p by (rule fp(2))
  show "failed_patches evs = [] \<longrightarrow>
           filter is_patch (calls_of evs) =
             (if A \<notin> set (failed_provisionings evs)
              then Datasets_patch ''me'' A d
                     (activity_segment A (timestamp_ns env s) (timestamp_ns env e) a)
                 # (if truthy_num cal \<and> C \<notin> set (failed_provisionings evs)
                    then [Datasets_patch ''me'' C d
                            (calories_data C (timestamp_ns env s) (timestamp_ns env e) (the cal))]
                    else [])
                 @ (if truthy_int steps \<and> S \<notin> set (failed_provisionings evs)
                    then [Datasets_patch ''me'' S d
                            (steps_data S (timestamp_ns env s) (timestamp_ns env e) (the steps))]
                    else [])
              else [])"
  proof
    assume "failed_patches evs = []"
    then have "failed_patches tf = []"
      unfolding failed_p .
    with fp(3) have "filter is_patch (calls_of tf) =
             (if truthy_str aid
              then Datasets_patch ''me'' (the aid) d
                     (activity_segment (the aid) (timestamp_ns env s) (timestamp_ns env e) a)
                 # (if truthy_num cal \<and> truthy_str cid
                    then [Datasets_patch ''me'' (the cid) d
                            (calories_data (the cid) (timestamp_ns env s) (timestamp_ns env e)
                               (the cal))]
                    else [])
                 @ (if truthy_int steps \<and> truthy_str sid
                    then [Datasets_patch ''me'' (the sid) d
                            (steps_data (the sid) (timestamp_ns env s) (timestamp_ns env e)
                               (the steps))]
                    else [])
              else [])"
      unfolding d_def by blast
    then show "filter is_patch (calls_of evs) =
             (if A \<notin> set (failed_provisionings evs)
              then Datasets_patch ''me'' A d
                     (activity_segment A (timestamp_ns env s) (timestamp_ns env e) a)
                 # (if truthy_num cal \<and> C \<notin> set (failed_provisionings evs)
                    then [Datasets_patch ''me'' C d
                            (calories_data C (timestamp_ns env s) (timestamp_ns env e) (the cal))]
                    else [])
                 @ (if truthy_int steps \<and> S \<notin> set (failed_provisionings evs)
                    then [Datasets_patch ''me'' S d
                            (steps_data S (timestamp_ns env s) (timestamp_ns env e) (the steps))]
                    else [])
              else [])"
      unfolding patches inA inC inS using aidA cidC sidS by simp
  qed
qed

subsection \<open>The activity logger\<close>

text \<open>
  C3 (as stated, refuted). The claim says that every failure of an external call of
  \<open>log_activity\<close> makes the operation return \<open>False\<close>. When the existence check of
  the optional calories data source fails with status 500, the failure is printed, the
  calories dataset is skipped by the guard \<open>calories and calories_source_id\<close>, and
  \<open>log_activity\<close> returns \<open>True\<close>.
\<close>

theorem optional_provisioning_failure_still_succeeds:
  "Called (DataSources_get ''me'' (get_data_source_id ''com.google.calories.expended''))
       (Inl (HttpError 500))
     \<in> set (new_events (demo_world (Some ''tok''))
         (snd (log_activity
            (demo_env (demo_service None None
               (\<lambda>c. case c of
                      DataSources_get u i \<Rightarrow>
                        if i = get_data_source_id ''com.google.calories.expended''
                        then Some 500 else None
                    | _ \<Rightarrow> None)))
            8 10 20 (Some 250) (Some 3500) (demo_world (Some ''tok'')))))
   \<and> fst (log_activity
            (demo_env (demo_service None None
               (\<lambda>c. case c of
                      DataSources_get u i \<Rightarrow>
                        if i = get_data_source_id ''com.google.calories.expended''
                        then Some 500 else None
                    | _ \<Rightarrow> None)))
            8 10 20 (Some 250) (Some 3500) (demo_world (Some ''tok''))) = True"
  by (simp add: demo_run_defs get_data_source_id_def PROJECT_NUMBER_def)

text \<open>
  C3 (amended). In \<open>log_activity\<close> every \<open>HttpError\<close> of an external call, except a
  404 of a data-source existence check (after which the data source is created), is
  printed right after the request that failed. The operation returns \<open>False\<close> when the
  activity data source cannot be provisioned and when a dataset patch fails. A failure
  to provision the optional calories or steps data source only skips that dataset: as
  long as no patch fails, the patches issued are the activity patch, then the calories
  patch if calories are given, not zero and their data source was provisioned, then the
  steps patch if steps are given, not zero and their data source was provisioned; and
  the operation returns \<open>True\<close> when the activity data source was provisioned and the
  only requests that failed are provisioning requests. No request of \<open>log_activity\<close>
  deletes anything: what earlier successful calls of the invocation wrote is never undone.
\<close>

theorem log_activity_failures:
  fixes env :: "('dt, 's) env" and w :: "'s world"
  shows
  "let ok = fst (log_activity env a s e cal steps w);
       evs = new_events w (snd (log_activity env a s e cal steps w));
       failed = failed_provisionings evs;
       A = get_data_source_id ''com.google.activity.segment'';
       C = get_data_source_id ''com.google.calories.expended'';
       S = get_data_source_id ''com.google.step_count.delta'';
       d = str_int (timestamp_ns env s) @ ''-'' @ str_int (timestamp_ns env e)
   in all_reported evs
      \<and> (fst (create_data_source (build env (fst (get_credentials env w)))
                 ''com.google.activity.segment'' ''GFit B100'' (snd (get_credentials env w))) = None
          \<longrightarrow> \<not> ok \<and> Printed Failed_to_create_activity_data_source \<in> set evs)
      \<and> (A \<in> set failed \<longrightarrow> \<not> ok)
      \<and> (\<forall>c err. Called c (Inl err) \<in> set evs \<and> is_patch c \<longrightarrow>
             \<not> ok \<and> Printed (An_error_occurred err) \<in> set evs)
      \<and> (failed_patches evs = [] \<longrightarrow>
             filter is_patch (calls_of evs) =
               (if A \<notin> set failed
                then Datasets_patch ''me'' A d
                       (activity_segment A (timestamp_ns env s) (timestamp_ns env e) a)
                   # (if truthy_num cal \<and> C \<notin> set failed
                      then [Datasets_patch ''me'' C d
                              (calories_data C (timestamp_ns env s) (timestamp_ns env e) (the cal))]
                      else [])
                   @ (if truthy_int steps \<and> S \<notin> set failed
                      then [Datasets_patch ''me'' S d
                              (steps_data S (timestamp_ns env s) (timestamp_ns env e) (the steps))]
                      else [])
                else []))
      \<and> (A \<notin> set failed \<and> list_all is_provisioning (failed_calls evs) \<longrightarrow> ok)
      \<and> (\<forall>c \<in> set (calls_of evs). \<not> is_dataset_delete c \<and> \<not> is_session_delete c)"
proof -
  define evs where "evs = new_events w (snd (log_activity env a s e cal steps w))"
  define ok where "ok = fst (log_activity env a s e cal steps w)"
  note facts = log_activity_facts
    [where env = env and w = w and a = a and s = s and e = e and cal = cal and steps = steps,
     folded evs_def ok_def]
  note patches = log_activity_patches
    [where env = env and w = w and a = a and s = s and e = e and cal = cal and steps = steps,
     folded evs_def ok_def]
  have "is_provisioning c \<or> is_patch c \<or> is_session_update c \<or> is_aggregate c
          \<Longrightarrow> \<not> is_dataset_delete c \<and> \<not> is_session_delete c" for c
    by (cases c) simp_all
  with facts(2) have nodel: "\<forall>c \<in> set (calls_of evs). \<not> is_dataset_delete c \<and> \<not> is_session_delete c"
    by blast
  have "is_provisioning c \<Longrightarrow> \<not> is_patch c" for c
    by (cases c) simp_all
  then have "list_all is_provisioning (failed_calls evs) \<Longrightarrow> failed_patches evs = []"
    unfolding failed_patches_def by (auto simp: filter_empty_conv list_all_iff)
  with patches(1) have suff: "get_data_source_id ''com.google.activity.segment''
        \<notin> set (failed_provisionings evs) \<and> list_all is_provisioning (failed_calls evs) \<longrightarrow> ok"
    by blast
  from patches(1) have nec: "get_data_source_id ''com.google.activity.segment''
        \<in> set (failed_provisionings evs) \<longrightarrow> \<not> ok"
    by blast
  from facts(1) facts(5) nec facts(4) patches(2) suff nodel show ?thesis
    unfolding Let_def evs_def [symmetric] ok_def [symmetric] by (intro conjI)
qed

text \<open>
  Three runs: one in which the existence check of the activity data source fails with
  500 and one in which the activity patch fails with 500, which both return \<open>False\<close>;
  and one in which the existence check of the calories data source fails with 500,
  where the activity and the steps dataset are patched, the calories dataset is not,
  and the operation returns \<open>True\<close>.
\<close>

theorem log_activity_failures_witness:
  "fst (create_data_source
          (build (demo_env (demo_service None None
                   (\<lambda>c. case c of DataSources_get u i \<Rightarrow> Some 500 | _ \<Rightarrow> None)))
             (fst (get_credentials (demo_env (demo_service None None
                   (\<lambda>c. case c of DataSources_get u i \<Rightarrow> Some 500 | _ \<Rightarrow> None)))
                   (demo_world (Some ''tok'')))))
          ''com.google.activity.segment'' ''GFit B100''
          (snd (get_credentials (demo_env (demo_service None None
                   (\<lambda>c. case c of DataSources_get u i \<Rightarrow> Some 500 | _ \<Rightarrow> None)))
                   (demo_world (Some ''tok''))))) = None
   \<and> \<not> fst (log_activity (demo_env (demo_service None None
                   (\<lambda>c. case c of DataSources_get u i \<Rightarrow> Some 500 | _ \<Rightarrow> None)))
              8 10 20 (Some 250) (Some 3500) (demo_world (Some ''tok'')))
   \<and> Called (Datasets_patch ''me'' (get_data_source_id ''com.google.activity.segment'')
               (str_int 10000000000 @ ''-'' @ str_int 20000000000)
               (activity_segment (get_data_source_id ''com.google.activity.segment'')
                  10000000000 20000000000 8))
        (Inl (HttpError 500))
       \<in> set (new_events (demo_world (Some ''tok''))
           (snd (log_activity (demo_env (demo_service None None
                   (\<lambda>c. case c of Datasets_patch u i d b \<Rightarrow> Some 500 | _ \<Rightarrow> None)))
              8 10 20 (Some 250) (Some 3500) (demo_world (Some ''tok'')))))
   \<and> \<not> fst (log_activity (demo_env (demo_service None None
                   (\<lambda>c. case c of Datasets_patch u i d b \<Rightarrow> Some 500 | _ \<Rightarrow> None)))
              8 10 20 (Some 250) (Some 3500) (demo_world (Some ''tok'')))
   \<and> Printed (An_error_occurred (HttpError 500))
       \<in> set (new_events (demo_world (Some ''tok''))
           (snd (log_activity (demo_env (demo_service None None
                   (\<lambda>c. case c of Datasets_patch u i d b \<Rightarrow> Some 500 | _ \<Rightarrow> None)))
              8 10 20 (Some 250) (Some 3500) (demo_world (Some ''tok'')))))
   \<and> failed_provisionings (new_events (demo_world (Some ''tok''))
           (snd (log_activity (demo_env (demo_service None None
                   (\<lambda>c. case c of
                          DataSources_get u i \<Rightarrow>
                            if i = get_data_source_id ''com.google.calories.expended''
                            then Some 500 else None
                        | _ \<Rightarrow> None)))
              8 10 20 (Some 250) (Some 3500) (demo_world (Some ''tok'')))))
       = [get_data_source_id ''com.google.calories.expended'']
   \<and> failed_calls (new_events (demo_world (Some ''tok''))
           (snd (log_activity (demo_env (demo_service None None
                   (\<lambda>c. case c of
                          DataSources_get u i \<Rightarrow>
                            if i = get_data_source_id ''com.google.calories.expended''
                            then Some 500 else None
                        | _ \<Rightarrow> None)))
              8 10 20 (Some 250) (Some 3500) (demo_world (Some ''tok'')))))
       = [DataSources_get ''me'' (get_data_source_id ''com.google.calories.expended'')]
   \<and> filter is_patch (calls_of (new_events (demo_world (Some ''tok''))
           (snd (log_activity (demo_env (demo_service None None
                   (\<lambda>c. case c of
                          DataSources_get u i \<Rightarrow>
                            if i = get_data_source_id ''com.google.calories.expended''
                            then Some 500 else None
                        | _ \<Rightarrow> None)))
              8 10 20 (Some 250) (Some 3500) (demo_world (Some ''tok''))))))
       = [Datasets_patch ''me'' (get_data_source_id ''com.google.activity.segment'')
            (str_int 10000000000 @ ''-'' @ str_int 20000000000)
            (activity_segment (get_data_source_id ''com.google.activity.segment'')
               10000000000 20000000000 8),
          Datasets_patch ''me'' (get_data_source_id ''com.google.step_count.delta'')
            (str_int 10000000000 @ ''-'' @ str_int 20000000000)
            (steps_data (get_data_source_id ''com.google.step_count.delta'')
               10000000000 20000000000 3500)]
   \<and> fst (log_activity (demo_env (demo_service None None
                   (\<lambda>c. case c of
                          DataSources_get u i \<Rightarrow>
                            if i = get_data_source_id ''com.google.calories.expended''
                            then Some 500 else None
                        | _ \<Rightarrow> None)))
              8 10 20 (Some 250) (Some 3500) (demo_world (Some ''tok'')))"
proof -
  let ?w = "demo_world (Some ''tok'')"
  let ?e1 = "demo_env (demo_service None None
                   (\<lambda>c. case c of DataSources_get u i \<Rightarrow> Some 500 | _ \<Rightarrow> None))"
  let ?e2 = "demo_env (demo_service None None
                   (\<lambda>c. case c of Datasets_patch u i d b \<Rightarrow> Some 500 | _ \<Rightarrow> None))"
  let ?e3 = "demo_env (demo_service None None
                   (\<lambda>c. case c of
                          DataSources_get u i \<Rightarrow>
                            if i = get_data_source_id ''com.google.calories.expended''
                            then Some 500 else None
                        | _ \<Rightarrow> None))"
  let ?A = "get_data_source_id ''com.google.activity.segment''"
  let ?C = "get_data_source_id ''com.google.calories.expended''"
  let ?S = "get_data_source_id ''com.google.step_count.delta''"
  let ?p = "Datasets_patch ''me'' ?A
               (str_int 10000000000 @ ''-'' @ str_int 20000000000)
               (activity_segment ?A 10000000000 20000000000 8)"
  let ?p3 = "Datasets_patch ''me'' ?S
               (str_int 10000000000 @ ''-'' @ str_int 20000000000)
               (steps_data ?S 10000000000 20000000000 3500)"
  let ?evs3 = "new_events ?w (snd (log_activity ?e3 8 10 20 (Some 250) (Some 3500) ?w))"
  have h1: "fst (create_data_source (build ?e1 (fst (get_credentials ?e1 ?w)))
          ''com.google.activity.segment'' ''GFit B100'' (snd (get_credentials ?e1 ?w))) = None"
    by (simp add: demo_run_defs)
  have h2: "Called ?p (Inl (HttpError 500))
       \<in> set (new_events ?w (snd (log_activity ?e2 8 10 20 (Some 250) (Some 3500) ?w)))
     \<and> is_patch ?p"
    by (simp add: demo_run_defs)
  have h3: "failed_provisionings ?evs3 = [?C]"
    "failed_calls ?evs3 = [DataSources_get ''me'' ?C]"
    by (simp_all add: demo_run_defs get_data_source_id_def PROJECT_NUMBER_def data_source_body_def)
  have h4: "failed_patches ?evs3 = []" "?A \<notin> set (failed_provisionings ?evs3)"
    "?S \<notin> set (failed_provisionings ?evs3)"
    "list_all is_provisioning (failed_calls ?evs3)"
    unfolding h3 failed_patches_def using data_source_ids_differ by simp_all
  have ns: "timestamp_ns ?e3 10 = 10000000000" "timestamp_ns ?e3 20 = 20000000000"
    by (simp_all add: demo_env_def timestamp_ns_def py_int_def)
  from h1 log_activity_failures [where env = ?e1 and w = ?w and a = 8 and s = 10 and e = 20
      and cal = "Some 250" and steps = "Some 3500"]
  have "\<not> fst (log_activity ?e1 8 10 20 (Some 250) (Some 3500) ?w)"
    unfolding Let_def by blast
  moreover from h2 log_activity_failures [where env = ?e2 and w = ?w and a = 8 and s = 10 and e = 20
      and cal = "Some 250" and steps = "Some 3500"]
  have "\<not> fst (log_activity ?e2 8 10 20 (Some 250) (Some 3500) ?w)
      \<and> Printed (An_error_occurred (HttpError 500))
       \<in> set (new_events ?w (snd (log_activity ?e2 8 10 20 (Some 250) (Some 3500) ?w)))"
    unfolding Let_def by blast
  moreover note inst = log_activity_failures [where env = ?e3 and w = ?w and a = 8 and s = 10
      and e = 20 and cal = "Some 250" and steps = "Some 3500"]
  from h4 inst have "fst (log_activity ?e3 8 10 20 (Some 250) (Some 3500) ?w)"
    unfolding Let_def by blast
  moreover from h4(1) inst have "filter is_patch (calls_of ?evs3) =
      (if ?A \<notin> set (failed_provisionings ?evs3)
       then Datasets_patch ''me'' ?A (str_int (timestamp_ns ?e3 10) @ ''-'' @ str_int (timestamp_ns ?e3 20))
              (activity_segment ?A (timestamp_ns ?e3 10) (timestamp_ns ?e3 20) 8)
          # (if truthy_num (Some 250) \<and> ?C \<notin> set (failed_provisionings ?evs3)
             then [Datasets_patch ''me'' ?C
                     (str_int (timestamp_ns ?e3 10) @ ''-'' @ str_int (timestamp_ns ?e3 20))
                     (calories_data ?C (timestamp_ns ?e3 10) (timestamp_ns ?e3 20) (the (Some 250)))]
             else [])
          @ (if truthy_int (Some 3500) \<and> ?S \<notin> set (failed_provisionings ?evs3)
             then [Datasets_patch ''me'' ?S
                     (str_int (timestamp_ns ?e3 10) @ ''-'' @ str_int (timestamp_ns ?e3 20))
                     (steps_data ?S (timestamp_ns ?e3 10) (timestamp_ns ?e3 20) (the (Some 3500)))]
             else [])
       else [])"
    unfolding Let_def by blast
  then have "filter is_patch (calls_of ?evs3) = [?p, ?p3]"
    unfolding ns using h4(2,3) by (simp add: h3)
  ultimately show ?thesis
    using h1 h2 h3 by blast
qed

text \<open>
  C6 (as stated, refuted). The claim says that the aggregation request is sent if the
  steps argument is provided. In the run below steps are provided but the activity patch
  fails with 500: the \<^verbatim>\<open>try\<close> block is left, no steps are logged and no
  aggregation is requested.
\<close>

theorem aggregation_not_tied_to_steps_logged:
  "truthy_int (Some 3500)
   \<and> failed_calls (new_events (demo_world (Some ''tok''))
       (snd (log_activity
          (demo_env (demo_service None None
             (\<lambda>c. case c of Datasets_patch u i d b \<Rightarrow> Some 500 | _ \<Rightarrow> None)))
          8 10 20 None (Some 3500) (demo_world (Some ''tok'')))))
       = [Datasets_patch ''me'' (get_data_source_id ''com.google.activity.segment'')
            (str_int 10000000000 @ ''-'' @ str_int 20000000000)
            (activity_segment (get_data_source_id ''com.google.activity.segment'')
               10000000000 20000000000 8)]
   \<and> filter is_aggregate (calls_of (new_events (demo_world (Some ''tok''))
       (snd (log_activity
          (demo_env (demo_service None None
             (\<lambda>c. case c of Datasets_patch u i d b \<Rightarrow> Some 500 | _ \<Rightarrow> None)))
          8 10 20 None (Some 3500) (demo_world (Some ''tok'')))))) = []"
  by (simp add: demo_run_defs get_data_source_id_def PROJECT_NUMBER_def)

text \<open>
  C6 (amended). \<open>log_activity\<close> issues the aggregation request at most once, with
  bucket duration 86400000 milliseconds, aggregating \<open>com.google.step_count.delta\<close>
  from the start to the end of the activity in milliseconds. It issues it only if the
  steps argument is given and not zero, the activity data source was provisioned and no
  dataset patch failed. It issues it, whatever the outcome of the session request,
  whenever in addition the steps data source was provisioned, that is, whenever the
  steps were logged: the steps dataset is then patched.
\<close>

theorem aggregation_request_issued:
  fixes env :: "('dt, 's) env" and w :: "'s world"
  shows
  "let evs = new_events w (snd (log_activity env a s e cal steps w));
       failed = failed_provisionings evs;
       A = get_data_source_id ''com.google.activity.segment'';
       S = get_data_source_id ''com.google.step_count.delta'';
       d = str_int (timestamp_ns env s) @ ''-'' @ str_int (timestamp_ns env e);
       request = aggregation_request (timestamp_ms env s) (timestamp_ms env e)
   in (filter is_aggregate (calls_of evs) = []
        \<or> filter is_aggregate (calls_of evs) = [Dataset_aggregate ''me'' request])
      \<and> ((\<exists>c \<in> set (calls_of evs). is_aggregate c) \<longrightarrow>
            steps \<noteq> None \<and> steps \<noteq> Some 0 \<and> A \<notin> set failed \<and> failed_patches evs = [])
      \<and> (steps \<noteq> None \<and> steps \<noteq> Some 0 \<and> A \<notin> set failed \<and> S \<notin> set failed
            \<and> failed_patches evs = [] \<longrightarrow>
            filter is_aggregate (calls_of evs) = [Dataset_aggregate ''me'' request]
            \<and> Datasets_patch ''me'' S d
                 (steps_data S (timestamp_ns env s) (timestamp_ns env e) (the steps))
                \<in> set (calls_of evs))
      \<and> json_get request ''bucketByTime'' = Some (JObj [(''durationMillis'', JInt 86400000)])
      \<and> json_get request ''aggregateBy'' =
          Some (JArr [JObj [(''dataTypeName'', JStr ''com.google.step_count.delta'')]])
      \<and> json_get request ''startTimeMillis'' = Some (JInt (timestamp_ms env s))
      \<and> json_get request ''endTimeMillis'' = Some (JInt (timestamp_ms env e))"
proof -
  define evs where "evs = new_events w (snd (log_activity env a s e cal steps w))"
  define ok where "ok = fst (log_activity env a s e cal steps w)"
  define request where
    "request = Dataset_aggregate ''me''
       (aggregation_request (timestamp_ms env s) (timestamp_ms env e))"
  let ?A = "get_data_source_id ''com.google.activity.segment''"
  let ?S = "get_data_source_id ''com.google.step_count.delta''"
  let ?p3 = "Datasets_patch ''me'' ?S
      (str_int (timestamp_ns env s) @ ''-'' @ str_int (timestamp_ns env e))
      (steps_data ?S (timestamp_ns env s) (timestamp_ns env e) (the steps))"
  note facts = log_activity_facts
    [where env = env and w = w and a = a and s = s and e = e and cal = cal and steps = steps,
     folded evs_def ok_def]
  note patches = log_activity_patches
    [where env = env and w = w and a = a and s = s and e = e and cal = cal and steps = steps,
     folded evs_def ok_def]
  have eq: "filter is_aggregate (calls_of evs) = (if truthy_int steps \<and> ok then [request] else [])"
    unfolding request_def by (rule facts(3))
  have t: "truthy_int steps \<longleftrightarrow> steps \<noteq> None \<and> steps \<noteq> Some 0"
    by (cases steps) simp_all
  have c1: "filter is_aggregate (calls_of evs) = [] \<or> filter is_aggregate (calls_of evs) = [request]"
    unfolding eq by simp
  have "(\<exists>c \<in> set (calls_of evs). is_aggregate c) \<longleftrightarrow> filter is_aggregate (calls_of evs) \<noteq> []"
    by (simp add: filter_empty_conv)
  also have "\<dots> \<longleftrightarrow> steps \<noteq> None \<and> steps \<noteq> Some 0 \<and> ok"
    unfolding eq t by simp
  finally have c2: "(\<exists>c \<in> set (calls_of evs). is_aggregate c) \<longrightarrow>
      steps \<noteq> None \<and> steps \<noteq> Some 0 \<and> ?A \<notin> set (failed_provisionings evs)
      \<and> failed_patches evs = []"
    using patches(1) by blast
  have c3: "steps \<noteq> None \<and> steps \<noteq> Some 0 \<and> ?A \<notin> set (failed_provisionings evs)
      \<and> ?S \<notin> set (failed_provisionings evs) \<and> failed_patches evs = [] \<longrightarrow>
      filter is_aggregate (calls_of evs) = [request] \<and> ?p3 \<in> set (calls_of evs)"
  proof
    assume h: "steps \<noteq> None \<and> steps \<noteq> Some 0 \<and> ?A \<notin> set (failed_provisionings evs)
      \<and> ?S \<notin> set (failed_provisionings evs) \<and> failed_patches evs = []"
    with patches(1) t have "truthy_int steps" "ok"
      by blast+
    then have "filter is_aggregate (calls_of evs) = [request]"
      unfolding eq by simp
    moreover from h patches(2) \<open>truthy_int steps\<close>
    have "?p3 \<in> set (filter is_patch (calls_of evs))"
      by simp
    then have "?p3 \<in> set (calls_of evs)"
      by simp
    ultimately show "filter is_aggregate (calls_of evs) = [request] \<and> ?p3 \<in> set (calls_of evs)"
      by blast
  qed
  have c4: "json_get (aggregation_request (timestamp_ms env s) (timestamp_ms env e))
        ''bucketByTime'' = Some (JObj [(''durationMillis'', JInt 86400000)])"
    "json_get (aggregation_request (timestamp_ms env s) (timestamp_ms env e)) ''aggregateBy'' =
        Some (JArr [JObj [(''dataTypeName'', JStr ''com.google.step_count.delta'')]])"
    "json_get (aggregation_request (timestamp_ms env s) (timestamp_ms env e))
        ''startTimeMillis'' = Some (JInt (timestamp_ms env s))"
    "json_get (aggregation_request (timestamp_ms env s) (timestamp_ms env e))
        ''endTimeMillis'' = Some (JInt (timestamp_ms env e))"
    by (simp_all add: aggregation_request_def)
  from c1 c2 c3 c4 show ?thesis
    unfolding Let_def evs_def [symmetric] request_def by (intro conjI)
qed

text \<open>
  A run in which 3500 steps are given and only the session request fails: the steps
  dataset is patched and the aggregation is requested once.
\<close>

theorem aggregation_request_issued_witness:
  "Some 3500 \<noteq> (None :: int option) \<and> Some 3500 \<noteq> Some (0 :: int)
   \<and> failed_provisionings (new_events (demo_world (Some ''tok''))
       (snd (log_activity
          (demo_env (demo_service None None
             (\<lambda>c. case c of Sessions_update u i b \<Rightarrow> Some 500 | _ \<Rightarrow> None)))
          8 10 20 (Some 250) (Some 3500) (demo_world (Some ''tok''))))) = []
   \<and> failed_calls (new_events (demo_world (Some ''tok''))
       (snd (log_activity
          (demo_env (demo_service None None
             (\<lambda>c. case c of Sessions_update u i b \<Rightarrow> Some 500 | _ \<Rightarrow> None)))
          8 10 20 (Some 250) (Some 3500) (demo_world (Some ''tok'')))))
       = [Sessions_update ''me'' (''session-'' @ str_int 10000) (session_body 8 10000 20000)]
   \<and> filter is_aggregate (calls_of (new_events (demo_world (Some ''tok''))
       (snd (log_activity
          (demo_env (demo_service None None
             (\<lambda>c. case c of Sessions_update u i b \<Rightarrow> Some 500 | _ \<Rightarrow> None)))
          8 10 20 (Some 250) (Some 3500) (demo_world (Some ''tok''))))))
       = [Dataset_aggregate ''me'' (aggregation_request 10000 20000)]
   \<and> Datasets_patch ''me'' (get_data_source_id ''com.google.step_count.delta'')
       (str_int 10000000000 @ ''-'' @ str_int 20000000000)
       (steps_data (get_data_source_id ''com.google.step_count.delta'')
          10000000000 20000000000 3500)
     \<in> set (calls_of (new_events (demo_world (Some ''tok''))
       (snd (log_activity
          (demo_env (demo_service None None
             (\<lambda>c. case c of Sessions_update u i b \<Rightarrow> Some 500 | _ \<Rightarrow> None)))
          8 10 20 (Some 250) (Some 3500) (demo_world (Some ''tok''))))))"
proof -
  let ?env = "demo_env (demo_service None None
             (\<lambda>c. case c of Sessions_update u i b \<Rightarrow> Some 500 | _ \<Rightarrow> None))"
  let ?w = "demo_world (Some ''tok'')"
  let ?evs = "new_events ?w (snd (log_activity ?env 8 10 20 (Some 250) (Some 3500) ?w))"
  let ?A = "get_data_source_id ''com.google.activity.segment''"
  let ?S = "get_data_source_id ''com.google.step_count.delta''"
  have h: "failed_provisionings ?evs = []"
    "failed_calls ?evs
       = [Sessions_update ''me'' (''session-'' @ str_int 10000) (session_body 8 10000 20000)]"
    by (simp_all add: demo_run_defs get_data_source_id_def PROJECT_NUMBER_def)
  have hyp: "Some 3500 \<noteq> (None :: int option) \<and> Some 3500 \<noteq> Some (0 :: int)
      \<and> ?A \<notin> set (failed_provisionings ?evs) \<and> ?S \<notin> set (failed_provisionings ?evs)
      \<and> failed_patches ?evs = []"
    unfolding h failed_patches_def by simp
  have ts: "timestamp_ms ?env 10 = 10000" "timestamp_ms ?env 20 = 20000"
    "timestamp_ns ?env 10 = 10000000000" "timestamp_ns ?env 20 = 20000000000"
    by (simp_all add: demo_env_def timestamp_ns_def timestamp_ms_def py_int_def)
  from hyp aggregation_request_issued [where env = ?env and w = ?w and a = 8 and s = 10
      and e = 20 and cal = "Some 250" and steps = "Some 3500"]
  have "filter is_aggregate (calls_of ?evs) =
          [Dataset_aggregate ''me''
             (aggregation_request (timestamp_ms ?env 10) (timestamp_ms ?env 20))]
      \<and> Datasets_patch ''me'' ?S
          (str_int (timestamp_ns ?env 10) @ ''-'' @ str_int (timestamp_ns ?env 20))
          (steps_data ?S (timestamp_ns ?env 10) (timestamp_ns ?env 20) (the (Some 3500)))
        \<in> set (calls_of ?evs)"
    unfolding Let_def by blast
  with h show ?thesis
    unfolding ts by simp
qed

text \<open>
  C10. A zero passed for an optional parameter of \<open>log_activity\<close> is treated as an
  absent one: the call with \<open>calories = 0\<close> is the call with no calories, and the call
  with \<open>steps = 0\<close> is the call with no steps. In both cases no request addresses the
  corresponding data source (none is provisioned and no dataset is patched), and without
  steps no aggregation is requested. Whenever the call returns \<open>True\<close> the activity
  segment was patched and the session request was issued, and with both parameters zero
  the call can return \<open>True\<close>.
\<close>

theorem zero_is_absent:
  fixes env :: "('dt, 's) env" and w :: "'s world"
  shows
  "log_activity env a s e (Some 0) steps w = log_activity env a s e None steps w
   \<and> log_activity env a s e cal (Some 0) w = log_activity env a s e cal None w
   \<and> (let ok = fst (log_activity env a s e cal steps w);
           evs = new_events w (snd (log_activity env a s e cal steps w));
           activity_source_id = get_data_source_id ''com.google.activity.segment'';
           dataset_id = str_int (timestamp_ns env s) @ ''-'' @ str_int (timestamp_ns env e)
       in (cal = None \<or> cal = Some 0 \<longrightarrow>
             (\<forall>c \<in> set (calls_of evs).
                data_source_of c \<noteq> Some (get_data_source_id ''com.google.calories.expended'')))
          \<and> (steps = None \<or> steps = Some 0 \<longrightarrow>
               (\<forall>c \<in> set (calls_of evs).
                  data_source_of c \<noteq> Some (get_data_source_id ''com.google.step_count.delta'')
                  \<and> \<not> is_aggregate c))
          \<and> (ok \<longrightarrow>
               (\<exists>rep. Called (Datasets_patch ''me'' activity_source_id dataset_id
                         (activity_segment activity_source_id
                            (timestamp_ns env s) (timestamp_ns env e) a))
                       (Inr rep) \<in> set evs)
               \<and> Sessions_update ''me'' (''session-'' @ str_int (timestamp_ms env s))
                          (session_body a (timestamp_ms env s) (timestamp_ms env e))
                   \<in> set (calls_of evs)))
   \<and> fst (log_activity (demo_env (demo_service None None (\<lambda>c. None)))
           8 10 20 (Some 0) (Some 0) (demo_world (Some ''tok'')))"
proof -
  note facts = log_activity_facts
    [where env = env and w = w and a = a and s = s and e = e and cal = cal and steps = steps]
  define evs where "evs = new_events w (snd (log_activity env a s e cal steps w))"
  have z1: "log_activity env a s e (Some 0) steps w = log_activity env a s e None steps w"
    by (simp add: log_activity_def log_activity_try_def Let_def
        cong: prod.case_cong sum.case_cong if_cong)
  have z2: "log_activity env a s e cal (Some 0) w = log_activity env a s e cal None w"
    by (simp add: log_activity_def log_activity_try_def Let_def
        cong: prod.case_cong sum.case_cong if_cong)
  have c: "cal = None \<or> cal = Some 0 \<longrightarrow>
             (\<forall>c \<in> set (calls_of evs).
                data_source_of c \<noteq> Some (get_data_source_id ''com.google.calories.expended''))"
    using facts(6) unfolding evs_def by auto
  have "steps = None \<or> steps = Some 0 \<longrightarrow> filter is_aggregate (calls_of evs) = []"
    using facts(3) unfolding evs_def by auto
  then have st: "steps = None \<or> steps = Some 0 \<longrightarrow>
               (\<forall>c \<in> set (calls_of evs).
                  data_source_of c \<noteq> Some (get_data_source_id ''com.google.step_count.delta'')
                  \<and> \<not> is_aggregate c)"
    using facts(7) unfolding evs_def by (auto simp: filter_empty_conv)
  have run: "fst (log_activity (demo_env (demo_service None None (\<lambda>c. None)))
           8 10 20 (Some 0) (Some 0) (demo_world (Some ''tok'')))"
    by (simp add: demo_run_defs)
  from z1 z2 c st facts(8) run show ?thesis
    unfolding Let_def evs_def by blast
qed

text \<open>
  The run with both optional parameters zero: it returns \<open>True\<close>, so the activity patch
  and the session request are there, and its requests are those of the activity data
  source, the patch and the session alone.
\<close>

theorem zero_is_absent_witness:
  "(Some 0 = (None :: rat option) \<or> Some 0 = Some (0 :: rat))
   \<and> (Some 0 = (None :: int option) \<or> Some 0 = Some (0 :: int))
   \<and> fst (log_activity (demo_env (demo_service None None (\<lambda>c. None)))
           8 10 20 (Some 0) (Some 0) (demo_world (Some ''tok'')))
   \<and> filter (\<lambda>c. data_source_of c = Some (get_data_source_id ''com.google.calories.expended'')
                 \<or> data_source_of c = Some (get_data_source_id ''com.google.step_count.delta'')
                 \<or> is_aggregate c)
        (calls_of (new_events (demo_world (Some ''tok''))
           (snd (log_activity (demo_env (demo_service None None (\<lambda>c. None)))
             8 10 20 (Some 0) (Some 0) (demo_world (Some ''tok'')))))) = []
   \<and> Sessions_update ''me'' (''session-'' @ str_int 10000) (session_body 8 10000 20000)
       \<in> set (calls_of (new_events (demo_world (Some ''tok''))
         (snd (log_activity (demo_env (demo_service None None (\<lambda>c. None)))
           8 10 20 (Some 0) (Some 0) (demo_world (Some ''tok''))))))"
proof -
  let ?env = "demo_env (demo_service None None (\<lambda>c. None))"
  let ?w = "demo_world (Some ''tok'')"
  let ?evs = "new_events ?w (snd (log_activity ?env 8 10 20 (Some 0) (Some 0) ?w))"
  note inst = zero_is_absent [where env = ?env and w = ?w and a = 8 and s = 10 and e = 20
      and cal = "Some 0" and steps = "Some 0", unfolded Let_def]
  have ms: "timestamp_ms ?env 10 = 10000" "timestamp_ms ?env 20 = 20000"
    by (simp_all add: demo_env_def timestamp_ns_def timestamp_ms_def py_int_def)
  have h1: "Some 0 = (None :: rat option) \<or> Some 0 = Some (0 :: rat)"
    and h2: "Some 0 = (None :: int option) \<or> Some 0 = Some (0 :: int)"
    by simp_all
  from inst have ok: "fst (log_activity ?env 8 10 20 (Some 0) (Some 0) ?w)"
    by blast
  from inst h1 have a: "\<forall>c \<in> set (calls_of ?evs).
      data_source_of c \<noteq> Some (get_data_source_id ''com.google.calories.expended'')"
    by blast
  from inst h2 have b: "\<forall>c \<in> set (calls_of ?evs).
      data_source_of c \<noteq> Some (get_data_source_id ''com.google.step_count.delta'')
      \<and> \<not> is_aggregate c"
    by blast
  from inst ok have "Sessions_update ''me'' (''session-'' @ str_int (timestamp_ms ?env 10))
                          (session_body 8 (timestamp_ms ?env 10) (timestamp_ms ?env 20))
                   \<in> set (calls_of ?evs)"
    by blast
  then have c: "Sessions_update ''me'' (''session-'' @ str_int 10000) (session_body 8 10000 20000)
       \<in> set (calls_of ?evs)"
    unfolding ms .
  from a b have d: "filter (\<lambda>c. data_source_of c = Some (get_data_source_id ''com.google.calories.expended'')
                 \<or> data_source_of c = Some (get_data_source_id ''com.google.step_count.delta'')
                 \<or> is_aggregate c) (calls_of ?evs) = []"
    unfolding filter_empty_conv by blast
  from h1 h2 ok c d show ?thesis
    by blast
qed

subsection \<open>Failures of remote calls\<close>

text \<open>
  C9 (as stated, refuted). The claim says that every failure of a remote call is printed
  and turned into a failure return value of the enclosing operation. In the run below
  the deletion of a dataset fails with 404: nothing is printed about it (the lines
  printed are those of a cleanup without any error) and \<open>clean_up_todays_activities\<close>
  returns \<open>True\<close>.
\<close>

theorem dataset_not_found_is_silent_and_cleanup_succeeds:
  "Called (Datasets_delete ''me'' (get_data_source_id ''x'')
             (str_int 86400000000000 @ ''-'' @ str_int 172800000000000))
       (Inl (HttpError 404))
     \<in> set (new_events (demo_world (Some ''tok''))
         (snd (clean_up_todays_activities
            (demo_env (demo_service None (Some [get_data_source_id ''x''])
               (\<lambda>c. case c of Datasets_delete u i d \<Rightarrow> Some 404 | _ \<Rightarrow> None)))
            (demo_world (Some ''tok'')))))
   \<and> prints_of (new_events (demo_world (Some ''tok''))
         (snd (clean_up_todays_activities
            (demo_env (demo_service None (Some [get_data_source_id ''x''])
               (\<lambda>c. case c of Datasets_delete u i d \<Rightarrow> Some 404 | _ \<Rightarrow> None)))
            (demo_world (Some ''tok'')))))
       = [Cleaning_up_activities (str_nat 86400) (str_nat 172800),
          No_sessions_found_for_today, Cleanup_completed]
   \<and> fst (clean_up_todays_activities
            (demo_env (demo_service None (Some [get_data_source_id ''x''])
               (\<lambda>c. case c of Datasets_delete u i d \<Rightarrow> Some 404 | _ \<Rightarrow> None)))
            (demo_world (Some ''tok''))) = True"
  by (simp add: clean_up_todays_activities_def get_credentials_def valid_def demo_env_def timestamp_ns_def timestamp_ms_def py_int_def
      demo_service_def demo_world_def execute_def print_def new_events_def
      get_data_source_id_def PROJECT_NUMBER_def Let_def)

lemma create_data_source_failures:
  "all_reported (new_events w (snd (create_data_source svc n app w)))
   \<and> distinct (calls_of (new_events w (snd (create_data_source svc n app w))))
   \<and> (\<forall>c err. Called c (Inl err) \<in> set (new_events w (snd (create_data_source svc n app w)))
         \<and> \<not> unreported c err \<longrightarrow> fst (create_data_source svc n app w) = None)"
proof -
  let ?i = "get_data_source_id n"
  let ?get = "DataSources_get ''me'' ?i"
  let ?r = "fst (svc ?get (remote w))"
  let ?s1 = "snd (svc ?get (remote w))"
  let ?create = "DataSources_create ''me'' (data_source_body ?i n app)"
  let ?r2 = "fst (svc ?create ?s1)"
  show ?thesis
  proof (cases ?r)
    case (Inr rep)
    then show ?thesis
      by (simp add: create_data_source_def execute_eq Let_def)
  next
    case (Inl e)
    show ?thesis
    proof (cases "resp_status e = 404")
      case False
      with Inl show ?thesis
        by (simp add: create_data_source_def execute_eq Let_def)
    next
      case True
      with Inl show ?thesis
        by (cases ?r2) (auto simp add: create_data_source_def execute_eq Let_def)
    qed
  qed
qed

text \<open>
  C9 (amended). Every \<open>HttpError\<close> raised by a remote call is caught by the operation
  that issues the call, and no request is retried: the requests of \<open>create_data_source\<close>,
  \<open>log_session\<close>, \<open>request_data_aggregation\<close> and \<open>log_activity\<close> are pairwise
  different, and the cleanup issues its two listings once and one deletion per listed
  session and per listed data source of this program. Each error is printed right after
  the failed request, except a 404 of a data-source existence check and a 404 of a dataset
  deletion. \<open>create_data_source\<close> returns \<open>None\<close> after any other error of its two
  requests, \<open>log_session\<close> and \<open>request_data_aggregation\<close> return \<open>False\<close> when
  their request fails, \<open>log_activity\<close> returns \<open>False\<close> when a dataset patch fails,
  and \<open>clean_up_todays_activities\<close> returns \<open>True\<close> whatever failed.
\<close>

theorem remote_failures_handled:
  fixes env :: "('dt, 's) env" and w :: "'s world" and svc :: "'s service"
  shows
  "(let evs = new_events w (snd (create_data_source svc n app w))
    in all_reported evs \<and> distinct (calls_of evs)
       \<and> (\<forall>c err. Called c (Inl err) \<in> set evs \<and> \<not> unreported c err \<longrightarrow>
              fst (create_data_source svc n app w) = None))
   \<and> (let evs = new_events w (snd (log_session env svc a s e w))
      in all_reported evs \<and> distinct (calls_of evs)
         \<and> (\<forall>c err. Called c (Inl err) \<in> set evs \<longrightarrow>
                \<not> fst (log_session env svc a s e w)))
   \<and> (let evs = new_events w (snd (request_data_aggregation env svc s e w))
      in all_reported evs \<and> distinct (calls_of evs)
         \<and> (\<forall>c err. Called c (Inl err) \<in> set evs \<longrightarrow>
                \<not> fst (request_data_aggregation env svc s e w)))
   \<and> (let evs = new_events w (snd (log_activity env a s e cal steps w))
      in all_reported evs \<and> distinct (calls_of evs)
         \<and> (\<forall>c err. Called c (Inl err) \<in> set evs \<and> is_patch c \<longrightarrow>
                \<not> fst (log_activity env a s e cal steps w)))
   \<and> (let evs = new_events w (snd (clean_up_todays_activities env w));
          today = replace_midnight env (now env);
          tomorrow = plus_one_day env today
      in all_reported evs
         \<and> fst (clean_up_todays_activities env w) = True
         \<and> calls_of evs =
             Sessions_list ''me'' (isoformat env today @ ''Z'') (isoformat env tomorrow @ ''Z'')
             # map (Sessions_delete ''me'') (listed_sessions evs)
             @ DataSources_list ''me''
             # map (\<lambda>i. Datasets_delete ''me'' i
                  (str_int (timestamp_ns env today) @ ''-'' @ str_int (timestamp_ns env tomorrow)))
               (filter (\<lambda>i. str_in PROJECT_NUMBER i \<and> str_in ''microcloud'' i)
                  (listed_data_sources evs)))"
proof (intro conjI)
  show "let evs = new_events w (snd (create_data_source svc n app w))
    in all_reported evs \<and> distinct (calls_of evs)
       \<and> (\<forall>c err. Called c (Inl err) \<in> set evs \<and> \<not> unreported c err \<longrightarrow>
              fst (create_data_source svc n app w) = None)"
    unfolding Let_def by (rule create_data_source_failures)
  show "let evs = new_events w (snd (log_session env svc a s e w))
      in all_reported evs \<and> distinct (calls_of evs)
         \<and> (\<forall>c err. Called c (Inl err) \<in> set evs \<longrightarrow>
                \<not> fst (log_session env svc a s e w))"
    by (cases "fst (svc (Sessions_update ''me'' (''session-'' @ str_int (timestamp_ms env s))
                (session_body a (timestamp_ms env s) (timestamp_ms env e))) (remote w))")
       (simp_all add: log_session_eq Let_def new_events_def)
  show "let evs = new_events w (snd (request_data_aggregation env svc s e w))
      in all_reported evs \<and> distinct (calls_of evs)
         \<and> (\<forall>c err. Called c (Inl err) \<in> set evs \<longrightarrow>
                \<not> fst (request_data_aggregation env svc s e w))"
    by (cases "fst (svc (Dataset_aggregate ''me''
                (aggregation_request (timestamp_ms env s) (timestamp_ms env e))) (remote w))")
       (simp_all add: request_data_aggregation_eq Let_def new_events_def)
  show "let evs = new_events w (snd (log_activity env a s e cal steps w))
      in all_reported evs \<and> distinct (calls_of evs)
         \<and> (\<forall>c err. Called c (Inl err) \<in> set evs \<and> is_patch c \<longrightarrow>
                \<not> fst (log_activity env a s e cal steps w))"
    unfolding Let_def
    using log_activity_facts(1,4,9)
      [where env = env and w = w and a = a and s = s and e = e and cal = cal and steps = steps]
    by blast
  show "let evs = new_events w (snd (clean_up_todays_activities env w));
          today = replace_midnight env (now env);
          tomorrow = plus_one_day env today
      in all_reported evs
         \<and> fst (clean_up_todays_activities env w) = True
         \<and> calls_of evs =
             Sessions_list ''me'' (isoformat env today @ ''Z'') (isoformat env tomorrow @ ''Z'')
             # map (Sessions_delete ''me'') (listed_sessions evs)
             @ DataSources_list ''me''
             # map (\<lambda>i. Datasets_delete ''me'' i
                  (str_int (timestamp_ns env today) @ ''-'' @ str_int (timestamp_ns env tomorrow)))
               (filter (\<lambda>i. str_in PROJECT_NUMBER i \<and> str_in ''microcloud'' i)
                  (listed_data_sources evs))"
    unfolding Let_def
    using clean_up_facts(1,4,9) [where env = env and w = w]
    by blast
qed

text \<open>
  Runs in which every request fails with 500: the existence check, the session request,
  the aggregation request and the activity patch.
\<close>

theorem remote_failures_handled_witness:
  "Called (DataSources_get ''me'' (get_data_source_id ''com.google.step_count.delta''))
       (Inl (HttpError 500))
     \<in> set (new_events (demo_world None)
         (snd (create_data_source (demo_service None None (\<lambda>c. Some 500))
                 ''com.google.step_count.delta'' ''GFit B100'' (demo_world None))))
   \<and> \<not> unreported (DataSources_get ''me'' (get_data_source_id ''com.google.step_count.delta''))
          (HttpError 500)
   \<and> fst (create_data_source (demo_service None None (\<lambda>c. Some 500))
           ''com.google.step_count.delta'' ''GFit B100'' (demo_world None)) = None
   \<and> Called (Sessions_update ''me'' (''session-'' @ str_int 10000) (session_body 8 10000 20000))
        (Inl (HttpError 500))
     \<in> set (new_events (demo_world None)
         (snd (log_session (demo_env (demo_service None None (\<lambda>c. Some 500)))
                 (demo_service None None (\<lambda>c. Some 500)) 8 10 20 (demo_world None))))
   \<and> \<not> fst (log_session (demo_env (demo_service None None (\<lambda>c. Some 500)))
              (demo_service None None (\<lambda>c. Some 500)) 8 10 20 (demo_world None))
   \<and> Called (Dataset_aggregate ''me'' (aggregation_request 10000 20000)) (Inl (HttpError 500))
     \<in> set (new_events (demo_world None)
         (snd (request_data_aggregation (demo_env (demo_service None None (\<lambda>c. Some 500)))
                 (demo_service None None (\<lambda>c. Some 500)) 10 20 (demo_world None))))
   \<and> \<not> fst (request_data_aggregation (demo_env (demo_service None None (\<lambda>c. Some 500)))
              (demo_service None None (\<lambda>c. Some 500)) 10 20 (demo_world None))
   \<and> Called (Datasets_patch ''me'' (get_data_source_id ''com.google.activity.segment'')
               (str_int 10000000000 @ ''-'' @ str_int 20000000000)
               (activity_segment (get_data_source_id ''com.google.activity.segment'')
                  10000000000 20000000000 8))
        (Inl (HttpError 500))
       \<in> set (new_events (demo_world (Some ''tok''))
           (snd (log_activity (demo_env (demo_service None None
                   (\<lambda>c. case c of Datasets_patch u i d b \<Rightarrow> Some 500 | _ \<Rightarrow> None)))
              8 10 20 None None (demo_world (Some ''tok'')))))
   \<and> \<not> fst (log_activity (demo_env (demo_service None None
                   (\<lambda>c. case c of Datasets_patch u i d b \<Rightarrow> Some 500 | _ \<Rightarrow> None)))
              8 10 20 None None (demo_world (Some ''tok'')))"
proof -
  let ?svc = "demo_service None None (\<lambda>c. Some 500)"
  let ?env = "demo_env ?svc"
  let ?w = "demo_world None"
  let ?n = "''com.google.step_count.delta''"
  let ?get = "DataSources_get ''me'' (get_data_source_id ?n)"
  let ?su = "Sessions_update ''me'' (''session-'' @ str_int 10000) (session_body 8 10000 20000)"
  let ?ag = "Dataset_aggregate ''me'' (aggregation_request 10000 20000)"
  let ?e2 = "demo_env (demo_service None None
                   (\<lambda>c. case c of Datasets_patch u i d b \<Rightarrow> Some 500 | _ \<Rightarrow> None))"
  let ?w2 = "demo_world (Some ''tok'')"
  let ?p = "Datasets_patch ''me'' (get_data_source_id ''com.google.activity.segment'')
               (str_int 10000000000 @ ''-'' @ str_int 20000000000)
               (activity_segment (get_data_source_id ''com.google.activity.segment'')
                  10000000000 20000000000 8)"
  have h1: "Called ?get (Inl (HttpError 500))
       \<in> set (new_events ?w (snd (create_data_source ?svc ?n ''GFit B100'' ?w)))
     \<and> \<not> unreported ?get (HttpError 500)"
    by (simp add: demo_run_defs)
  have h2: "Called ?su (Inl (HttpError 500))
       \<in> set (new_events ?w (snd (log_session ?env ?svc 8 10 20 ?w)))"
    by (simp add: demo_run_defs)
  have h3: "Called ?ag (Inl (HttpError 500))
       \<in> set (new_events ?w (snd (request_data_aggregation ?env ?svc 10 20 ?w)))"
    by (simp add: demo_run_defs)
  have h4: "Called ?p (Inl (HttpError 500))
       \<in> set (new_events ?w2 (snd (log_activity ?e2 8 10 20 None None ?w2))) \<and> is_patch ?p"
    by (simp add: demo_run_defs)
  note i1 = remote_failures_handled [where svc = ?svc and w = ?w and env = ?env
      and n = ?n and app = "''GFit B100''" and a = 8 and s = 10 and e = 20
      and cal = None and steps = None, unfolded Let_def]
  note i2 = remote_failures_handled [where svc = ?svc and w = ?w2 and env = ?e2
      and n = ?n and app = "''GFit B100''" and a = 8 and s = 10 and e = 20
      and cal = None and steps = None, unfolded Let_def]
  from i1 h1 have c1: "fst (create_data_source ?svc ?n ''GFit B100'' ?w) = None"
    by blast
  from i1 h2 have c2: "\<not> fst (log_session ?env ?svc 8 10 20 ?w)"
    by blast
  from i1 h3 have c3: "\<not> fst (request_data_aggregation ?env ?svc 10 20 ?w)"
    by blast
  from i2 h4 have c4: "\<not> fst (log_activity ?e2 8 10 20 None None ?w2)"
    by blast
  from h1 h2 h3 h4 c1 c2 c3 c4 show ?thesis
    by blast
qed

subsection \<open>The conversions of a timestamp\<close>













end
